theory Spec2Isabelle
  imports Complex_Main
begin

section \<open>Conventions\<close>

text \<open>
  Python floats are modelled as exact reals: rounding is not represented, and an infinity
  or NaN only where a division by zero is written out explicitly. The broker terminal,
  the SQLite store, the signal file and the clock are outside the program; what they
  answer is an input of the step that queries them. A caught exception is the branch of
  the model that returns what the handler returns.
\<close>

section \<open>Order executor (mt5_order_executor_v3.py)\<close>

subsection \<open>JSON values read from the signal file\<close>

text \<open>
  \<^verbatim>\<open>json.load\<close> yields None, bool, numbers, str, list and dict. An object is kept
  as an association list that stands for the loaded dict (the first binding of a key is
  the dict's value for it).
\<close>

datatype json =
    JNull
  | JBool bool
  | JNum real
  | JStr string
  | JArr "json list"
  | JObj "(string \<times> json) list"

text \<open>Python truthiness (\<^verbatim>\<open>if not x\<close>).\<close>

fun truthy :: "json \<Rightarrow> bool" where
  "truthy JNull = False"
| "truthy (JBool b) = b"
| "truthy (JNum x) = (x \<noteq> 0)"
| "truthy (JStr s) = (s \<noteq> [])"
| "truthy (JArr xs) = (xs \<noteq> [])"
| "truthy (JObj kv) = (kv \<noteq> [])"

text \<open>Lists and dicts are unhashable: using one as a set element raises TypeError.\<close>

fun hashable :: "json \<Rightarrow> bool" where
  "hashable (JArr xs) = False"
| "hashable (JObj kv) = False"
| "hashable v = True"

text \<open>
  Set membership compares with \<^verbatim>\<open>==\<close>, under which True equals 1 and False
  equals 0. \<open>py_key\<close> maps a hashable value to the representative stored in the set.
\<close>

fun py_key :: "json \<Rightarrow> json" where
  "py_key (JBool b) = JNum (if b then 1 else 0)"
| "py_key v = v"

text \<open>\<^verbatim>\<open>d.get(k)\<close> on a loaded dict: None when the key is absent.\<close>

definition dict_get :: "(string \<times> json) list \<Rightarrow> string \<Rightarrow> json" where
  "dict_get kv k = (case map_of kv k of None \<Rightarrow> JNull | Some v \<Rightarrow> v)"

definition has_key :: "(string \<times> json) list \<Rightarrow> string \<Rightarrow> bool" where
  "has_key kv k = (map_of kv k \<noteq> None)"

subsection \<open>State of the executor\<close>

record daily_stats =
  ds_date :: string
  ds_trades :: int
  ds_pnl :: real
  ds_wins :: int
  ds_losses :: int

text \<open>An entry of \<^verbatim>\<open>order_queue\<close>: the dict built by \<^verbatim>\<open>signal_processor_thread\<close>.\<close>

record order_details =
  od_asset :: json
  od_type :: json
  od_stop_loss :: json
  od_take_profit :: json
  od_signal_details :: "(string \<times> json) list"

datatype order_status = PENDING | OPEN | CLOSED | FAILED

text \<open>
  A row of the \<^verbatim>\<open>executed_orders\<close> table, as the values bound to the parameters of
  the \<^verbatim>\<open>INSERT\<close> (open time and the joined reason text are left out; no function
  reads them back). \<open>row_signal_timestamp\<close> is the timestamp of the signal the row was
  inserted for, as Python holds it; the column is declared \<^verbatim>\<open>TEXT\<close>, so the table
  itself keeps only its text, under which the number 1 and the string "1" look alike
  although they are different members of \<^verbatim>\<open>processed_signal_timestamps\<close>.
\<close>

record order_row =
  row_mt5_ticket :: "int option"
  row_asset :: json
  row_type :: json
  row_volume :: real
  row_price :: json
  row_sl :: json
  row_tp :: json
  row_status :: order_status
  row_profit :: "real option"
  row_signal_timestamp :: json
  row_strategy_profile :: json

text \<open>
  A call of \<^verbatim>\<open>send_market_order\<close> with its arguments, kept as a trace of what was
  submitted.
\<close>

record submission =
  sub_asset :: json
  sub_type :: json
  sub_volume :: real
  sub_stop_loss :: json
  sub_take_profit :: json
  sub_signal_details :: "(string \<times> json) list"

text \<open>
  \<open>account_balance\<close> is \<^verbatim>\<open>self.account_info.balance\<close> (None before a successful
  connect). \<open>signal_timestamp_var\<close> is the local variable \<^verbatim>\<open>signal_timestamp\<close> of
  \<^verbatim>\<open>signal_processor_thread\<close>, which the exception handler of the loop reads: None
  while it is unbound.
\<close>

record executor =
  mt5_initialized :: bool
  account_balance :: "real option"
  ex_daily_stats :: daily_stats
  processed_signal_timestamps :: "json set"
  last_signal_file_mtime :: real
  signal_timestamp_var :: "json option"
  order_queue :: "order_details list"
  orders_table :: "order_row list"
  submissions :: "submission list"

text \<open>
  The part of the configuration the executor's gates read. Trading hours are the parsed
  \<^verbatim>\<open>"%H:%M"\<close> strings, None when \<^verbatim>\<open>strptime\<close> raises.
\<close>

record exec_config =
  trading_hours_start :: "(nat \<times> nat) option"
  trading_hours_end :: "(nat \<times> nat) option"
  max_daily_loss_pct :: real
  max_open_trades :: real

subsection \<open>Daily statistics\<close>

text \<open>
  \<^verbatim>\<open>update_daily_stats(profit)\<close>. \<open>today_str\<close> is the current date and \<open>loaded\<close> what
  \<^verbatim>\<open>load_daily_stats\<close> would put in place on a new day.
\<close>

definition update_daily_stats :: "string \<Rightarrow> daily_stats \<Rightarrow> real \<Rightarrow> executor \<Rightarrow> executor" where
  "update_daily_stats today_str loaded profit s =
     (let d0 = (if ds_date (ex_daily_stats s) \<noteq> today_str then loaded else ex_daily_stats s);
          d1 = d0\<lparr>ds_trades := ds_trades d0 + 1, ds_pnl := ds_pnl d0 + profit\<rparr>;
          d2 = (if profit > 0 then d1\<lparr>ds_wins := ds_wins d1 + 1\<rparr>
                else d1\<lparr>ds_losses := ds_losses d1 + 1\<rparr>)
      in s\<lparr>ex_daily_stats := d2\<rparr>)"

subsection \<open>Trading-allowed gate\<close>

text \<open>Time of day in microseconds since midnight; \<open>time_of\<close> is \<^verbatim>\<open>time(h, m)\<close>.\<close>

definition time_of :: "nat \<times> nat \<Rightarrow> nat" where
  "time_of hm = ((fst hm * 60 + snd hm) * 60) * 1000000"

text \<open>
  \<^verbatim>\<open>check_trading_allowed\<close>. Every exception inside it (an unparsable hour, no
  account information) is caught and answered with False.
\<close>

definition check_trading_allowed :: "exec_config \<Rightarrow> nat \<Rightarrow> executor \<Rightarrow> bool" where
  "check_trading_allowed cfg now s =
     (case trading_hours_start cfg of
        None \<Rightarrow> False
      | Some st \<Rightarrow>
         (case trading_hours_end cfg of
            None \<Rightarrow> False
          | Some en \<Rightarrow>
             if \<not> (time_of st \<le> now \<and> now \<le> time_of en) then False
             else (case account_balance s of
                     None \<Rightarrow> False
                   | Some balance \<Rightarrow>
                      (let initial_balance = balance - ds_pnl (ex_daily_stats s);
                           max_loss_value = (max_daily_loss_pct cfg / 100) * initial_balance
                       in if ds_pnl (ex_daily_stats s) < - max_loss_value then False
                          else True))))"

subsection \<open>Signal processor\<close>

definition required_keys :: "string list" where
  "required_keys = [''asset'', ''type'', ''stop_loss'', ''take_profit'', ''timestamp'']"

datatype 'a flow = Next 'a | Raised 'a

text \<open>
  The \<^verbatim>\<open>except Exception\<close> handler of the loop body: it marks the value of
  \<^verbatim>\<open>signal_timestamp\<close> as processed when it is truthy. Reading the variable while it
  is unbound, or adding an unhashable value, raises out of the handler.
\<close>

definition signal_error_handler :: "executor \<Rightarrow> executor flow" where
  "signal_error_handler s =
     (case signal_timestamp_var s of
        None \<Rightarrow> Raised s
      | Some ts \<Rightarrow>
         if truthy ts then
           (if hashable ts
            then Next (s\<lparr>processed_signal_timestamps :=
                          insert (py_key ts) (processed_signal_timestamps s)\<rparr>)
            else Raised s)
         else Next s)"

text \<open>
  \<^verbatim>\<open>add_order_to_queue\<close>: the five keys it requires are always present in the dict
  the signal processor builds, so the order is put on the queue.
\<close>

definition add_order_to_queue :: "order_details \<Rightarrow> executor \<Rightarrow> executor" where
  "add_order_to_queue od s = s\<lparr>order_queue := order_queue s @ [od]\<rparr>"

text \<open>One iteration of \<^verbatim>\<open>for signal in signals\<close>.\<close>

definition process_signal :: "json \<Rightarrow> executor \<Rightarrow> executor flow" where
  "process_signal signal s =
     (case signal of
        JObj kv \<Rightarrow>
          (let signal_timestamp = dict_get kv ''timestamp'';
               s1 = s\<lparr>signal_timestamp_var := Some signal_timestamp\<rparr>
           in if \<not> truthy signal_timestamp then Next s1
              else if \<not> hashable signal_timestamp then signal_error_handler s1
              else if py_key signal_timestamp \<in> processed_signal_timestamps s1 then Next s1
              else if \<not> list_all (has_key kv) required_keys
                then Next (s1\<lparr>processed_signal_timestamps :=
                               insert (py_key signal_timestamp) (processed_signal_timestamps s1)\<rparr>)
              else
                (let od = \<lparr>od_asset = dict_get kv ''asset'', od_type = dict_get kv ''type'',
                           od_stop_loss = dict_get kv ''stop_loss'',
                           od_take_profit = dict_get kv ''take_profit'',
                           od_signal_details = kv\<rparr>;
                     s2 = add_order_to_queue od s1
                 in Next (s2\<lparr>processed_signal_timestamps :=
                               insert (py_key signal_timestamp) (processed_signal_timestamps s2)\<rparr>)))
      | _ \<Rightarrow> signal_error_handler s)"

text \<open>The loop over the file's entries; an exception that leaves the handler ends it.\<close>

fun process_signals :: "json list \<Rightarrow> executor \<Rightarrow> executor" where
  "process_signals [] s = s"
| "process_signals (signal # rest) s =
     (case process_signal signal s of
        Next s' \<Rightarrow> process_signals rest s'
      | Raised s' \<Rightarrow> s')"

text \<open>
  What one poll finds: the file's modification time and its decoded content (None when
  the JSON does not decode).
\<close>

record signal_file =
  sf_mtime :: real
  sf_content :: "json option"

text \<open>
  One iteration of the \<^verbatim>\<open>while\<close> loop of \<^verbatim>\<open>signal_processor_thread\<close>; the argument is
  None when the file does not exist.
\<close>

definition signal_processor_step :: "signal_file option \<Rightarrow> executor \<Rightarrow> executor" where
  "signal_processor_step file s =
     (case file of
        None \<Rightarrow> s
      | Some f \<Rightarrow>
          if sf_mtime f \<le> last_signal_file_mtime s then s
          else
            (let s1 = s\<lparr>last_signal_file_mtime := sf_mtime f\<rparr>;
                 signals = (case sf_content f of Some (JArr xs) \<Rightarrow> xs | _ \<Rightarrow> [])
             in process_signals signals s1))"

subsection \<open>Order processor\<close>

text \<open>
  What the environment answers while one order is processed: the time of day, the number
  of open positions, the lot computed by \<^verbatim>\<open>calculate_lot_size\<close>, the ticket returned
  by \<^verbatim>\<open>send_market_order\<close> and whether the INSERT into the table succeeds.
\<close>

record environment =
  env_now :: nat
  env_open_positions :: nat
  env_lot_size :: real
  env_mt5_ticket :: "int option"
  env_insert_ok :: bool

text \<open>
  \<^verbatim>\<open>", ".join(signal.get("reasons", []))\<close> raises TypeError unless the value is a
  list of strings, a string or a dict.
\<close>

definition reasons_joinable :: "(string \<times> json) list \<Rightarrow> bool" where
  "reasons_joinable kv =
     (case map_of kv ''reasons'' of
        None \<Rightarrow> True
      | Some (JArr xs) \<Rightarrow> list_all (\<lambda>x. case x of JStr _ \<Rightarrow> True | _ \<Rightarrow> False) xs
      | Some (JStr _) \<Rightarrow> True
      | Some (JObj _) \<Rightarrow> True
      | Some _ \<Rightarrow> False)"

definition ticket_truthy :: "int option \<Rightarrow> bool" where
  "ticket_truthy t = (case t of None \<Rightarrow> False | Some n \<Rightarrow> n \<noteq> 0)"

text \<open>
  One iteration of the \<^verbatim>\<open>while\<close> loop of \<^verbatim>\<open>order_processor_thread\<close>. An empty queue
  (\<^verbatim>\<open>queue.Empty\<close>) changes nothing.
\<close>

definition order_processor_step :: "exec_config \<Rightarrow> environment \<Rightarrow> executor \<Rightarrow> executor" where
  "order_processor_step cfg env s =
     (case order_queue s of
        [] \<Rightarrow> s
      | order # rest \<Rightarrow>
          (let s1 = s\<lparr>order_queue := rest\<rparr>
           in if \<not> check_trading_allowed cfg (env_now env) s1 then s1
              else if real (env_open_positions env) \<ge> max_open_trades cfg then s1
              else if env_lot_size env \<le> 0 then s1
              else
                (let s2 = s1\<lparr>submissions := submissions s1 @
                             [\<lparr>sub_asset = od_asset order, sub_type = od_type order,
                               sub_volume = env_lot_size env,
                               sub_stop_loss = od_stop_loss order,
                               sub_take_profit = od_take_profit order,
                               sub_signal_details = od_signal_details order\<rparr>]\<rparr>;
                     mt5_ticket = env_mt5_ticket env;
                     status = (if ticket_truthy mt5_ticket then OPEN else FAILED);
                     kv = od_signal_details order
                 in if \<not> reasons_joinable kv then s2
                    else if \<not> env_insert_ok env then s2
                    else s2\<lparr>orders_table := orders_table s2 @
                           [\<lparr>row_mt5_ticket = mt5_ticket, row_asset = od_asset order,
                             row_type = od_type order, row_volume = env_lot_size env,
                             row_price = (case map_of kv ''entry_price'' of
                                            None \<Rightarrow> JNum 0 | Some v \<Rightarrow> v),
                             row_sl = od_stop_loss order, row_tp = od_take_profit order,
                             row_status = status, row_profit = None,
                             row_signal_timestamp = dict_get kv ''timestamp'',
                             row_strategy_profile = dict_get kv ''strategy_profile''\<rparr>]\<rparr>)))"

subsection \<open>Closing positions and the position monitor\<close>

text \<open>
  What the terminal answers to \<^verbatim>\<open>close_position\<close>: whether the position is found,
  whether a tick is available for its symbol, and the return code of \<^verbatim>\<open>order_send\<close>
  (None when it returns no result).
\<close>

record close_environment =
  ce_position_found :: bool
  ce_tick_available :: bool
  ce_retcode :: "int option"

definition TRADE_RETCODE_DONE :: int where
  "TRADE_RETCODE_DONE = 10009"

text \<open>
  \<^verbatim>\<open>close_position(position_ticket, reason)\<close>. After a successful close the source
  only logs and returns True: the call of \<^verbatim>\<open>update_daily_stats\<close> is commented out and
  no statement touches the orders table, so the executor is returned as it was.
\<close>

definition close_position :: "close_environment \<Rightarrow> int \<Rightarrow> executor \<Rightarrow> bool \<times> executor" where
  "close_position env position_ticket s =
     (if \<not> mt5_initialized s then (False, s)
      else if \<not> ce_position_found env then (False, s)
      else if \<not> ce_tick_available env then (False, s)
      else (case ce_retcode env of
              None \<Rightarrow> (False, s)
            | Some retcode \<Rightarrow>
                if retcode \<noteq> TRADE_RETCODE_DONE then (False, s) else (True, s)))"

text \<open>
  \<^verbatim>\<open>close_all_positions\<close>: the argument is the answer of \<^verbatim>\<open>positions_get(magic=...)\<close>,
  each position with the terminal's answers for closing it.
\<close>

fun close_each :: "(int \<times> close_environment) list \<Rightarrow> executor \<Rightarrow> executor" where
  "close_each [] s = s"
| "close_each ((ticket, env) # rest) s = close_each rest (snd (close_position env ticket s))"

definition close_all_positions :: "(int \<times> close_environment) list option \<Rightarrow> executor \<Rightarrow> executor" where
  "close_all_positions positions s =
     (if \<not> mt5_initialized s then s
      else (case positions of None \<Rightarrow> s | Some ps \<Rightarrow> close_each ps s))"

record monitor_environment =
  mon_now :: nat
  mon_open_positions :: nat
  mon_positions :: "(int \<times> close_environment) list option"

definition day_us :: nat where
  "day_us = 86400 * 1000000"

text \<open>
  One iteration of \<^verbatim>\<open>position_monitor_thread\<close>: two minutes before the end of the
  session it closes every open position.
\<close>

definition position_monitor_step :: "exec_config \<Rightarrow> monitor_environment \<Rightarrow> executor \<Rightarrow> executor" where
  "position_monitor_step cfg env s =
     (if \<not> mt5_initialized s then s
      else (case trading_hours_end cfg of
              None \<Rightarrow> s
            | Some en \<Rightarrow>
                (let close_time_threshold = (time_of en + day_us - 120 * 1000000) mod day_us
                 in if mon_now env \<ge> close_time_threshold \<and> mon_open_positions env \<noteq> 0
                    then close_all_positions (mon_positions env) s
                    else s)))"

subsection \<open>A run of the executor\<close>

text \<open>
  The three worker threads share the executor; a run is a sequence of their loop
  iterations in the order they take effect.
\<close>

datatype event =
    Poll_signals "signal_file option"
  | Process_order environment
  | Monitor monitor_environment

fun executor_step :: "exec_config \<Rightarrow> event \<Rightarrow> executor \<Rightarrow> executor" where
  "executor_step cfg (Poll_signals file) s = signal_processor_step file s"
| "executor_step cfg (Process_order env) s = order_processor_step cfg env s"
| "executor_step cfg (Monitor env) s = position_monitor_step cfg env s"

fun executor_run :: "exec_config \<Rightarrow> event list \<Rightarrow> executor \<Rightarrow> executor" where
  "executor_run cfg [] s = s"
| "executor_run cfg (e # es) s = executor_run cfg es (executor_step cfg e s)"

text \<open>
  The executor after \<^verbatim>\<open>__init__\<close> and \<^verbatim>\<open>start\<close>: connected, with the account's
  balance, the day's statistics as loaded and the rows already in the table. The set of
  processed timestamps and the modification time of the signal file are attributes set
  in \<^verbatim>\<open>__init__\<close>: every start begins with the empty set and the time 0, whatever
  the table holds.
\<close>

definition started_executor :: "real \<Rightarrow> daily_stats \<Rightarrow> order_row list \<Rightarrow> executor" where
  "started_executor balance stats table =
     \<lparr>mt5_initialized = True, account_balance = Some balance, ex_daily_stats = stats,
      processed_signal_timestamps = {}, last_signal_file_mtime = 0,
      signal_timestamp_var = None, order_queue = [], orders_table = table,
      submissions = []\<rparr>"

subsection \<open>Identities of order attempts\<close>

text \<open>
  The identity of an order attempt is the timestamp of the signal it was made for, up to
  Python's \<^verbatim>\<open>==\<close>: for an order waiting in the queue and for a submission it is read
  from the signal they carry, for a row from the value the row was inserted with.
\<close>

definition order_identity :: "order_details \<Rightarrow> json" where
  "order_identity od = py_key (dict_get (od_signal_details od) ''timestamp'')"

definition row_identity :: "order_row \<Rightarrow> json" where
  "row_identity r = py_key (row_signal_timestamp r)"

definition submission_identity :: "submission \<Rightarrow> json" where
  "submission_identity b = py_key (dict_get (sub_signal_details b) ''timestamp'')"

text \<open>
  The identities of the rows inserted after the first \<open>n0\<close> rows of the table, followed
  by those of the orders waiting in the queue; and the identities of the orders
  submitted after the first \<open>m0\<close> submissions, followed by those waiting.
\<close>

definition attempts_since :: "nat \<Rightarrow> executor \<Rightarrow> json list" where
  "attempts_since n0 s =
     map row_identity (drop n0 (orders_table s)) @ map order_identity (order_queue s)"

definition submitted_since :: "nat \<Rightarrow> executor \<Rightarrow> json list" where
  "submitted_since m0 s =
     map submission_identity (drop m0 (submissions s)) @ map order_identity (order_queue s)"

text \<open>
  At most one attempt per identity since the executor held \<open>n0\<close> rows and \<open>m0\<close>
  submissions: no identity is shared by two of the rows and waiting orders, none by two
  of the submissions and waiting orders, and all of them are marked processed.
\<close>

definition at_most_once :: "nat \<Rightarrow> nat \<Rightarrow> executor \<Rightarrow> bool" where
  "at_most_once n0 m0 s =
     (n0 \<le> length (orders_table s) \<and> m0 \<le> length (submissions s) \<and>
      distinct (attempts_since n0 s) \<and> distinct (submitted_since m0 s) \<and>
      set (attempts_since n0 s) \<subseteq> processed_signal_timestamps s \<and>
      set (submitted_since m0 s) \<subseteq> processed_signal_timestamps s)"

section \<open>Market analyzer (market_analyzer_robust.py)\<close>

subsection \<open>Numbers that numpy may produce\<close>

text \<open>
  pandas divides without raising: a division by zero yields an infinity or NaN. Only
  \<^verbatim>\<open>pct_change\<close> and the risk/reward estimate of the phase analysis can divide by
  zero; their results are kept in \<open>npfloat\<close>. Every other quotient of the analyses has
  a denominator that the source keeps away from zero.
\<close>

datatype npfloat = Fin real | PInf | NInf | NaN

definition np_div :: "real \<Rightarrow> real \<Rightarrow> npfloat" where
  "np_div a b = (if b \<noteq> 0 then Fin (a / b) else if a > 0 then PInf else if a < 0 then NInf else NaN)"

fun np_add :: "npfloat \<Rightarrow> real \<Rightarrow> npfloat" where
  "np_add (Fin x) c = Fin (x + c)"
| "np_add v c = v"

fun np_scale :: "npfloat \<Rightarrow> real \<Rightarrow> npfloat" where
  "np_scale (Fin x) c = Fin (x * c)"
| "np_scale PInf c = (if c > 0 then PInf else if c < 0 then NInf else NaN)"
| "np_scale NInf c = (if c > 0 then NInf else if c < 0 then PInf else NaN)"
| "np_scale NaN c = NaN"

fun np_pos :: "npfloat \<Rightarrow> bool" where
  "np_pos (Fin x) = (x > 0)"
| "np_pos PInf = True"
| "np_pos v = False"

fun np_neg :: "npfloat \<Rightarrow> bool" where
  "np_neg (Fin x) = (x < 0)"
| "np_neg NInf = True"
| "np_neg v = False"

text \<open>\<^verbatim>\<open>abs(x) > c\<close>.\<close>

fun np_abs_gt :: "npfloat \<Rightarrow> real \<Rightarrow> bool" where
  "np_abs_gt (Fin x) c = (\<bar>x\<bar> > c)"
| "np_abs_gt PInf c = True"
| "np_abs_gt NInf c = True"
| "np_abs_gt NaN c = False"

text \<open>\<^verbatim>\<open>fillna(0)\<close> on one value.\<close>

fun fillna0 :: "npfloat \<Rightarrow> npfloat" where
  "fillna0 NaN = Fin 0"
| "fillna0 v = v"

text \<open>\<^verbatim>\<open>min(c, a + abs(x) / 10)\<close>, where an infinite \<open>x\<close> leaves \<open>c\<close>.\<close>

fun capped_confidence :: "real \<Rightarrow> real \<Rightarrow> npfloat \<Rightarrow> real" where
  "capped_confidence c a (Fin x) = min c (a + \<bar>x\<bar> / 10)"
| "capped_confidence c a v = c"

subsection \<open>Observation frames\<close>

record observation =
  ultimo :: real
  maximo :: real
  minimo :: real
  volume :: real
  agressao_compra :: real
  agressao_venda :: real
  agressao_saldo :: real

text \<open>
  A DataFrame as \<^verbatim>\<open>get_latest_data\<close> returns it: rows in ascending time, no NaN.
  The columns \<^verbatim>\<open>timestamp\<close>, \<^verbatim>\<open>ultimo\<close>, \<^verbatim>\<open>maximo\<close> and \<^verbatim>\<open>minimo\<close> are always there
  (without them \<^verbatim>\<open>get_latest_data\<close> returns None); \<open>columns\<close> lists the other columns
  the table has. The value a row holds for an absent column is never read.
\<close>

record frame =
  rows :: "observation list"
  columns :: "string list"

definition basic_columns :: "string list" where
  "basic_columns = [''timestamp'', ''ultimo'', ''maximo'', ''minimo'']"

definition has_column :: "frame \<Rightarrow> string \<Rightarrow> bool" where
  "has_column df col = (col \<in> set basic_columns \<or> col \<in> set (columns df))"

definition set_field :: "string \<Rightarrow> real \<Rightarrow> observation \<Rightarrow> observation" where
  "set_field col v r =
     (if col = ''volume'' then r\<lparr>volume := v\<rparr>
      else if col = ''agressao_compra'' then r\<lparr>agressao_compra := v\<rparr>
      else if col = ''agressao_venda'' then r\<lparr>agressao_venda := v\<rparr>
      else if col = ''agressao_saldo'' then r\<lparr>agressao_saldo := v\<rparr>
      else r)"

text \<open>\<^verbatim>\<open>df[col] = default_value\<close> for a column the frame does not have.\<close>

definition add_column :: "string \<Rightarrow> real \<Rightarrow> frame \<Rightarrow> frame" where
  "add_column col v df = \<lparr>rows = map (set_field col v) (rows df), columns = columns df @ [col]\<rparr>"

subsection \<open>Configuration of a profile\<close>

text \<open>
  The resolved configuration of one profile (\<^verbatim>\<open>_get_profile_config\<close>), restricted to the
  entries the analyses and the decision read.
\<close>

record profile_config =
  profile_enabled :: bool
  asset_enabled :: "string \<Rightarrow> bool"
  signal_interval :: real
  min_confidence :: real
  confirmation_required :: bool
  risk_reward_min :: real
  wyckoff_enabled :: bool
  order_flow_enabled :: bool
  aggression_threshold :: real
  absorption_threshold :: real
  momentum_enabled :: bool
  fast_period :: nat
  slow_period :: nat
  signal_threshold :: real
  required_columns :: "string \<Rightarrow> string list"
  fallback_values :: "string \<Rightarrow> real"
  min_data_points :: nat

subsection \<open>Data quality guard\<close>

text \<open>
  \<^verbatim>\<open>validate_data_columns\<close> on a non-empty frame: the required columns that are
  missing (the occurrence counter it keeps for the log is not modelled).
\<close>

definition missing_columns :: "profile_config \<Rightarrow> frame \<Rightarrow> string \<Rightarrow> string list" where
  "missing_columns cfg df analysis_type =
     filter (\<lambda>col. \<not> has_column df col) (required_columns cfg analysis_type)"

definition prepare_dataframe :: "profile_config \<Rightarrow> frame \<Rightarrow> string \<Rightarrow> frame" where
  "prepare_dataframe cfg df analysis_type =
     foldl (\<lambda>prepared col. if has_column prepared col then prepared
                            else add_column col (fallback_values cfg col) prepared)
       df (required_columns cfg analysis_type)"

text \<open>The frame an analysis works on after validation.\<close>

definition validated :: "profile_config \<Rightarrow> frame \<Rightarrow> string \<Rightarrow> frame" where
  "validated cfg df analysis_type =
     (if missing_columns cfg df analysis_type = [] then df
      else prepare_dataframe cfg df analysis_type)"

subsection \<open>Series helpers\<close>

definition mean :: "real list \<Rightarrow> real" where
  "mean xs = sum_list xs / real (length xs)"

text \<open>\<^verbatim>\<open>s.iloc[-k]\<close> for \<open>1 \<le> k \<le> len(s)\<close>; every use below is guarded by the length.\<close>

definition from_end :: "'a list \<Rightarrow> nat \<Rightarrow> 'a" where
  "from_end xs k = xs ! (length xs - k)"

text \<open>\<^verbatim>\<open>s.iloc[-k:]\<close> and \<^verbatim>\<open>df.tail(k)\<close>.\<close>

definition tail :: "nat \<Rightarrow> 'a list \<Rightarrow> 'a list" where
  "tail k xs = drop (length xs - k) xs"

text \<open>
  \<^verbatim>\<open>s.rolling(window=w).mean()\<close> at position \<open>i\<close>: None (NaN) while fewer than \<open>w\<close>
  values are available, and for an empty window.
\<close>

definition rolling_mean :: "nat \<Rightarrow> real list \<Rightarrow> nat \<Rightarrow> real option" where
  "rolling_mean w xs i =
     (if w = 0 \<or> i + 1 < w then None else Some (mean (take w (drop (i + 1 - w) xs))))"

text \<open>
  \<^verbatim>\<open>s.pct_change(periods=k)\<close> at position \<open>i\<close>: \<open>s[i] / s[i - k] - 1\<close>, NaN for the
  first \<open>k\<close> positions.
\<close>

definition pct_change :: "nat \<Rightarrow> real list \<Rightarrow> nat \<Rightarrow> npfloat" where
  "pct_change k xs i = (if i < k then NaN else np_add (np_div (xs ! i) (xs ! (i - k))) (- 1))"

subsection \<open>Results of the analyses\<close>

datatype signal_type = Compra | Venda

text \<open>
  The reason strings of the microsignals, in the order the source has them:
  accumulation near support, distribution near resistance, strong buying and selling
  aggression, absorption of buying and of selling, exhaustion of buying and of selling,
  golden cross, death cross, positive momentum in an uptrend, negative momentum in a
  downtrend.
\<close>

datatype reason =
    Acumulacao_proxima_ao_suporte
  | Distribuicao_proxima_a_resistencia
  | Forte_agressao_compradora
  | Forte_agressao_vendedora
  | Absorcao_de_compra
  | Absorcao_de_venda
  | Exaustao_de_compra
  | Exaustao_de_venda
  | Golden_Cross
  | Death_Cross
  | Momentum_positivo_em_alta
  | Momentum_negativo_em_baixa

text \<open>
  A microsignal dict. No analysis writes a \<^verbatim>\<open>"confidence"\<close> entry, but the decision
  reads one with \<^verbatim>\<open>s.get("confidence", 0)\<close>: \<open>ms_confidence\<close> is None when the key is
  absent. The \<^verbatim>\<open>"strength"\<close> entry is left out: nothing reads it.
\<close>

record microsignal =
  ms_type :: signal_type
  ms_reason :: reason
  ms_confidence :: "real option"

definition signal :: "signal_type \<Rightarrow> reason \<Rightarrow> microsignal" where
  "signal t r = \<lparr>ms_type = t, ms_reason = r, ms_confidence = None\<rparr>"

text \<open>A result dict with \<^verbatim>\<open>"valid": False\<close> carries only a message.\<close>

datatype 'a analysis = Invalid | Valid 'a

datatype phase = Acumulacao | Distribuicao

record volume_analysis =
  price_up_volume_down :: nat
  price_down_volume_up :: nat
  effort_result_ratio :: real

record wyckoff_results =
  wk_phase :: "phase option"
  wk_signals :: "microsignal list"
  wk_confidence :: real
  support_level :: "real option"
  resistance_level :: "real option"
  wk_volume_analysis :: "volume_analysis option"
  position_in_range :: "real option"
  potential_target :: "real option"
  wk_risk_reward :: "npfloat option"

record aggression_analysis =
  current_balance :: real
  short_term_ma :: real
  long_term_ma :: real
  strength :: real

record absorption_analysis =
  ab_recent_price_change :: real
  recent_aggression_volume :: real
  recent_aggression_balance :: real
  absorption_ratio :: real

record exhaustion_analysis =
  previous_aggression :: real
  recent_aggression :: real
  aggression_direction_change :: real
  previous_price_change :: real
  ex_recent_price_change :: real
  price_direction_change :: real
  exhaustion_detected :: bool

record order_flow_results =
  of_signals :: "microsignal list"
  of_confidence :: real
  of_aggression_analysis :: aggression_analysis
  of_absorption_analysis :: "absorption_analysis option"
  of_exhaustion_analysis :: "exhaustion_analysis option"

datatype trend = Alta | Baixa

record momentum_results =
  mo_signals :: "microsignal list"
  mo_confidence :: real
  mo_trend :: trend
  momentum_strength :: real
  ma_fast_last :: real
  ma_slow_last :: real
  ma_diff_last :: real
  ma_diff_pct_last :: real
  roc_5 :: npfloat
  roc_10 :: npfloat

subsection \<open>Phase analysis: \<^verbatim>\<open>analyze_wyckoff\<close>\<close>

text \<open>
  The two divergence counts: rows whose price change is positive while the volume change
  is negative, and the reverse. Both changes are \<^verbatim>\<open>pct_change()\<close> with NaN filled by
  0, so the first row never counts.
\<close>

definition price_changes :: "observation list \<Rightarrow> npfloat list" where
  "price_changes rs = map (\<lambda>i. fillna0 (pct_change 1 (map ultimo rs) i)) [0..<length rs]"

definition volume_changes :: "observation list \<Rightarrow> npfloat list" where
  "volume_changes rs = map (\<lambda>i. fillna0 (pct_change 1 (map volume rs) i)) [0..<length rs]"

definition count_price_up_volume_down :: "observation list \<Rightarrow> nat" where
  "count_price_up_volume_down rs =
     length (filter (\<lambda>(p, v). np_pos p \<and> np_neg v) (zip (price_changes rs) (volume_changes rs)))"

definition count_price_down_volume_up :: "observation list \<Rightarrow> nat" where
  "count_price_down_volume_up rs =
     length (filter (\<lambda>(p, v). np_neg p \<and> np_pos v) (zip (price_changes rs) (volume_changes rs)))"

definition analyze_volume :: "frame \<Rightarrow> volume_analysis option" where
  "analyze_volume df =
     (if has_column df ''volume'' \<and> length (rows df) \<ge> 5
      then Some \<lparr>price_up_volume_down = count_price_up_volume_down (rows df),
                 price_down_volume_up = count_price_down_volume_up (rows df),
                 effort_result_ratio = real (count_price_up_volume_down (rows df)) /
                                       (real (count_price_down_volume_up (rows df)) + 1)\<rparr>
      else None)"

text \<open>\<^verbatim>\<open>nsmallest(3)\<close> and \<^verbatim>\<open>nlargest(3)\<close> of the last 20 rows, averaged.\<close>

definition support_of :: "observation list \<Rightarrow> real" where
  "support_of rs = mean (take 3 (sort (map minimo (tail 20 rs))))"

definition resistance_of :: "observation list \<Rightarrow> real" where
  "resistance_of rs = mean (take 3 (rev (sort (map maximo (tail 20 rs)))))"

text \<open>
  Step 2 of \<^verbatim>\<open>analyze_wyckoff\<close>, for a frame of at least 10 rows: support, resistance,
  position in the range, and the phase with its microsignal.
\<close>

definition accumulation_count :: "wyckoff_results \<Rightarrow> nat" where
  "accumulation_count r =
     (case wk_volume_analysis r of None \<Rightarrow> 0 | Some va \<Rightarrow> price_down_volume_up va)"

definition distribution_count :: "wyckoff_results \<Rightarrow> nat" where
  "distribution_count r =
     (case wk_volume_analysis r of None \<Rightarrow> 0 | Some va \<Rightarrow> price_up_volume_down va)"

definition support_resistance :: "observation list \<Rightarrow> wyckoff_results \<Rightarrow> wyckoff_results" where
  "support_resistance rs results =
     (let support = support_of rs;
          resistance = resistance_of rs;
          r1 = results\<lparr>support_level := Some support, resistance_level := Some resistance\<rparr>;
          range_width = resistance - support;
          last_price = ultimo (from_end rs 1)
      in if range_width > 0 then
           (let position = (last_price - support) / range_width;
                r2 = r1\<lparr>position_in_range := Some position\<rparr>
            in if position < 0.3 then
                 (if accumulation_count r2 > 5
                  then r2\<lparr>wk_phase := Some Acumulacao,
                          wk_signals := wk_signals r2 @
                            [signal Compra Acumulacao_proxima_ao_suporte],
                          wk_confidence := 0.7\<rparr>
                  else r2)
               else if position > 0.7 then
                 (if distribution_count r2 > 5
                  then r2\<lparr>wk_phase := Some Distribuicao,
                          wk_signals := wk_signals r2 @
                            [signal Venda Distribuicao_proxima_a_resistencia],
                          wk_confidence := 0.7\<rparr>
                  else r2)
               else r2)
         else r1)"

text \<open>
  Step 3: the projected target and its risk/reward estimate once a phase is set. A phase
  is only set together with both levels; arithmetic on a missing level would raise, which
  the function answers with an invalid result.
\<close>

definition cause_and_effect :: "real \<Rightarrow> wyckoff_results \<Rightarrow> wyckoff_results analysis" where
  "cause_and_effect last_price results =
     (case wk_phase results of
        None \<Rightarrow> Valid results
      | Some ph \<Rightarrow>
          (case (support_level results, resistance_level results) of
             (Some support, Some resistance) \<Rightarrow>
               (case ph of
                  Acumulacao \<Rightarrow>
                    (let target = resistance + (resistance - support)
                     in Valid (results\<lparr>potential_target := Some target,
                          wk_risk_reward :=
                            Some (np_div (target - last_price) (last_price - support))\<rparr>))
                | Distribuicao \<Rightarrow>
                    (let target = support - (resistance - support)
                     in Valid (results\<lparr>potential_target := Some target,
                          wk_risk_reward :=
                            Some (np_div (last_price - target) (resistance - last_price))\<rparr>)))
           | _ \<Rightarrow> Invalid))"

definition analyze_wyckoff :: "profile_config \<Rightarrow> frame option \<Rightarrow> wyckoff_results analysis" where
  "analyze_wyckoff cfg frame_opt =
     (case frame_opt of
        None \<Rightarrow> Invalid
      | Some df0 \<Rightarrow>
          if rows df0 = [] then Invalid
          else if \<not> wyckoff_enabled cfg then Invalid
          else
            (let df = validated cfg df0 ''wyckoff'';
                 results = \<lparr>wk_phase = None, wk_signals = [], wk_confidence = 0,
                            support_level = None, resistance_level = None,
                            wk_volume_analysis = analyze_volume df,
                            position_in_range = None, potential_target = None,
                            wk_risk_reward = None\<rparr>;
                 results2 = (if length (rows df) \<ge> 10 then support_resistance (rows df) results
                             else results)
             in cause_and_effect (ultimo (from_end (rows df) 1)) results2))"

subsection \<open>Order-flow analysis: \<^verbatim>\<open>analyze_order_flow\<close>\<close>

text \<open>
  The last value of the column \<^verbatim>\<open>agressao_saldo_ma\<close>\<open>w\<close>: the rolling mean with NaN
  filled by 0 when the frame has at least \<open>w\<close> rows, the balance itself otherwise.
\<close>

definition last_saldo_ma :: "nat \<Rightarrow> real list \<Rightarrow> real" where
  "last_saldo_ma w saldo =
     (if length saldo \<ge> w
      then (case rolling_mean w saldo (length saldo - 1) of None \<Rightarrow> 0 | Some m \<Rightarrow> m)
      else from_end saldo 1)"

text \<open>
  Sub-analysis 1, aggression: the analysis dict, and the signals and confidence it
  leaves in the results (which start empty and at 0).
\<close>

definition aggression :: "real list \<Rightarrow> aggression_analysis" where
  "aggression saldo =
     (let last_saldo = from_end saldo 1;
          last_saldo_ma5 = last_saldo_ma 5 saldo;
          last_saldo_ma20 = last_saldo_ma 20 saldo;
          aggression_strength = last_saldo / max 1 \<bar>last_saldo_ma20\<bar>
      in \<lparr>current_balance = last_saldo, short_term_ma = last_saldo_ma5,
          long_term_ma = last_saldo_ma20, strength = aggression_strength\<rparr>)"

definition aggression_signals :: "profile_config \<Rightarrow> aggression_analysis \<Rightarrow> microsignal list \<times> real" where
  "aggression_signals cfg a =
     (if strength a > aggression_threshold cfg then
        (if current_balance a > 0
         then ([signal Compra Forte_agressao_compradora], min 0.9 (0.5 + strength a / 10))
         else if current_balance a < 0
         then ([signal Venda Forte_agressao_vendedora], min 0.9 (0.5 + \<bar>strength a\<bar> / 10))
         else ([], 0))
      else ([], 0))"

text \<open>Sub-analysis 2, absorption, for a frame of at least 5 rows.\<close>

definition absorption :: "observation list \<Rightarrow> absorption_analysis" where
  "absorption rs =
     (let recent_price_change = (ultimo (from_end rs 1) - ultimo (from_end rs 5)) /
                                max 0.01 (ultimo (from_end rs 5));
          recent_aggression_volume = sum_list (map agressao_compra (tail 5 rs)) +
                                     sum_list (map agressao_venda (tail 5 rs));
          recent_aggression_balance = sum_list (map agressao_saldo (tail 5 rs));
          absorption_ratio = recent_aggression_volume / max 0.001 \<bar>recent_price_change\<bar>
      in \<lparr>ab_recent_price_change = recent_price_change,
          recent_aggression_volume = recent_aggression_volume,
          recent_aggression_balance = recent_aggression_balance,
          absorption_ratio = absorption_ratio\<rparr>)"

definition absorption_signals ::
  "profile_config \<Rightarrow> absorption_analysis \<Rightarrow> microsignal list \<times> real \<Rightarrow> microsignal list \<times> real" where
  "absorption_signals cfg a sc =
     (if absorption_ratio a > absorption_threshold cfg then
        (if recent_aggression_balance a > 0 \<and> ab_recent_price_change a \<le> 0
         then (fst sc @ [signal Venda Absorcao_de_compra],
               max (snd sc) (min 0.8 (0.4 + absorption_ratio a / 20)))
         else if recent_aggression_balance a < 0 \<and> ab_recent_price_change a \<ge> 0
         then (fst sc @ [signal Compra Absorcao_de_venda],
               max (snd sc) (min 0.8 (0.4 + absorption_ratio a / 20)))
         else sc)
      else sc)"

text \<open>Sub-analysis 3, exhaustion, for a frame of at least 10 rows.\<close>

definition exhaustion :: "observation list \<Rightarrow> exhaustion_analysis" where
  "exhaustion rs =
     (let previous_aggression = mean (map agressao_saldo (take 5 (tail 10 rs)));
          recent_aggression = mean (map agressao_saldo (tail 5 rs));
          aggression_direction_change = previous_aggression * recent_aggression;
          previous_price_change = (ultimo (from_end rs 5) - ultimo (from_end rs 10)) /
                                  max 0.01 (ultimo (from_end rs 10));
          recent_price_change = (ultimo (from_end rs 1) - ultimo (from_end rs 5)) /
                                max 0.01 (ultimo (from_end rs 5));
          price_direction_change = previous_price_change * recent_price_change
      in \<lparr>previous_aggression = previous_aggression, recent_aggression = recent_aggression,
          aggression_direction_change = aggression_direction_change,
          previous_price_change = previous_price_change,
          ex_recent_price_change = recent_price_change,
          price_direction_change = price_direction_change,
          exhaustion_detected =
            (aggression_direction_change < 0 \<or> price_direction_change < 0)\<rparr>)"

definition exhaustion_signals ::
  "exhaustion_analysis \<Rightarrow> microsignal list \<times> real \<Rightarrow> microsignal list \<times> real" where
  "exhaustion_signals e sc =
     (if exhaustion_detected e then
        (if previous_aggression e > 0 \<and> recent_aggression e < 0
         then (fst sc @ [signal Venda Exaustao_de_compra], max (snd sc) 0.75)
         else if previous_aggression e < 0 \<and> recent_aggression e > 0
         then (fst sc @ [signal Compra Exaustao_de_venda], max (snd sc) 0.75)
         else sc)
      else sc)"

definition order_flow_columns :: "string list" where
  "order_flow_columns = [''agressao_compra'', ''agressao_venda'', ''agressao_saldo'']"

definition analyze_order_flow :: "profile_config \<Rightarrow> frame option \<Rightarrow> order_flow_results analysis" where
  "analyze_order_flow cfg frame_opt =
     (case frame_opt of
        None \<Rightarrow> Invalid
      | Some df0 \<Rightarrow>
          if rows df0 = [] then Invalid
          else if \<not> order_flow_enabled cfg then Invalid
          else
            (let df = validated cfg df0 ''order_flow''
             in if \<not> list_all (has_column df) order_flow_columns then Invalid
                else
                  (let rs = rows df;
                       a = aggression (map agressao_saldo rs);
                       sc1 = aggression_signals cfg a;
                       ab = (if length rs \<ge> 5 then Some (absorption rs) else None);
                       sc2 = (case ab of None \<Rightarrow> sc1
                              | Some b \<Rightarrow> absorption_signals cfg b sc1);
                       ex = (if length rs \<ge> 10 then Some (exhaustion rs) else None);
                       sc3 = (case ex of None \<Rightarrow> sc2 | Some e \<Rightarrow> exhaustion_signals e sc2)
                   in Valid \<lparr>of_signals = fst sc3, of_confidence = snd sc3,
                            of_aggression_analysis = a, of_absorption_analysis = ab,
                            of_exhaustion_analysis = ex\<rparr>)))"

subsection \<open>Momentum analysis: \<^verbatim>\<open>analyze_momentum\<close>\<close>

text \<open>
  The columns \<^verbatim>\<open>ma_fast\<close>/\<^verbatim>\<open>ma_slow\<close> (a rolling mean with NaN filled by the price
  itself), \<^verbatim>\<open>ma_diff\<close> and \<^verbatim>\<open>ma_diff_pct\<close> at row \<open>i\<close>.
\<close>

definition ma :: "nat \<Rightarrow> real list \<Rightarrow> nat \<Rightarrow> real" where
  "ma w prices i = (case rolling_mean w prices i of None \<Rightarrow> prices ! i | Some m \<Rightarrow> m)"

definition ma_diff :: "profile_config \<Rightarrow> real list \<Rightarrow> nat \<Rightarrow> real" where
  "ma_diff cfg prices i = ma (fast_period cfg) prices i - ma (slow_period cfg) prices i"

definition ma_diff_pct :: "profile_config \<Rightarrow> real list \<Rightarrow> nat \<Rightarrow> real" where
  "ma_diff_pct cfg prices i =
     ma_diff cfg prices i /
     (if ma (slow_period cfg) prices i = 0 then 1 else ma (slow_period cfg) prices i)"

text \<open>Step 2, crossings, for a frame of at least 3 rows.\<close>

definition cross_confidence :: "real \<Rightarrow> real" where
  "cross_confidence diff_pct = min 0.85 (0.6 + \<bar>diff_pct\<bar> * 5)"

definition cross_signals :: "real \<Rightarrow> real \<Rightarrow> real \<Rightarrow> microsignal list \<times> real" where
  "cross_signals prev_ma_diff last_ma_diff last_ma_diff_pct =
     (if prev_ma_diff \<le> 0 \<and> last_ma_diff > 0
      then ([signal Compra Golden_Cross], cross_confidence last_ma_diff_pct)
      else if prev_ma_diff \<ge> 0 \<and> last_ma_diff < 0
      then ([signal Venda Death_Cross], cross_confidence last_ma_diff_pct)
      else ([], 0))"

text \<open>
  Step 3, rate of change: \<^verbatim>\<open>pct_change(periods=k) * 100\<close> at the last row, with NaN
  read as 0, when the frame has at least \<open>k\<close> rows; 0 otherwise.
\<close>

definition last_roc :: "nat \<Rightarrow> real list \<Rightarrow> npfloat" where
  "last_roc k prices =
     (if length prices \<ge> k
      then fillna0 (np_scale (pct_change k prices (length prices - 1)) 100)
      else Fin 0)"

definition roc_signals ::
  "profile_config \<Rightarrow> trend \<Rightarrow> npfloat \<Rightarrow> microsignal list \<times> real \<Rightarrow> microsignal list \<times> real" where
  "roc_signals cfg tr last_roc_5 sc =
     (if np_abs_gt last_roc_5 (signal_threshold cfg) then
        (if np_pos last_roc_5 then
           (if tr = Alta
            then (fst sc @ [signal Compra Momentum_positivo_em_alta],
                  max (snd sc) (capped_confidence 0.8 0.5 last_roc_5))
            else sc)
         else
           (if tr = Baixa
            then (fst sc @ [signal Venda Momentum_negativo_em_baixa],
                  max (snd sc) (capped_confidence 0.8 0.5 last_roc_5))
            else sc))
      else sc)"

definition analyze_momentum :: "profile_config \<Rightarrow> frame option \<Rightarrow> momentum_results analysis" where
  "analyze_momentum cfg frame_opt =
     (case frame_opt of
        None \<Rightarrow> Invalid
      | Some df0 \<Rightarrow>
          if rows df0 = [] then Invalid
          else if \<not> momentum_enabled cfg then Invalid
          else
            (let df = validated cfg df0 ''momentum'';
                 prices = map ultimo (rows df);
                 n = length prices
             in if n < slow_period cfg then Invalid
                else
                  (let last_ma_fast = ma (fast_period cfg) prices (n - 1);
                       last_ma_slow = ma (slow_period cfg) prices (n - 1);
                       last_ma_diff = ma_diff cfg prices (n - 1);
                       last_ma_diff_pct = ma_diff_pct cfg prices (n - 1);
                       tr = (if last_ma_diff > 0 then Alta else Baixa);
                       ms = (if last_ma_diff > 0 then last_ma_diff_pct else - last_ma_diff_pct);
                       sc1 = (if n \<ge> 3
                              then cross_signals (ma_diff cfg prices (n - 2)) last_ma_diff
                                     last_ma_diff_pct
                              else ([], 0));
                       last_roc_5 = last_roc 5 prices;
                       last_roc_10 = last_roc 10 prices;
                       sc2 = roc_signals cfg tr last_roc_5 sc1
                   in Valid \<lparr>mo_signals = fst sc2, mo_confidence = snd sc2, mo_trend = tr,
                            momentum_strength = ms, ma_fast_last = last_ma_fast,
                            ma_slow_last = last_ma_slow, ma_diff_last = last_ma_diff,
                            ma_diff_pct_last = last_ma_diff_pct, roc_5 = last_roc_5,
                            roc_10 = last_roc_10\<rparr>)))"

subsection \<open>Decision engine: \<^verbatim>\<open>generate_trading_signal\<close>\<close>

record analysis_results =
  ar_wyckoff :: "wyckoff_results analysis"
  ar_order_flow :: "order_flow_results analysis"
  ar_momentum :: "momentum_results analysis"

text \<open>The emitted decision; \<open>timestamp\<close> is the \<^verbatim>\<open>now\<close> of the evaluation.\<close>

record trading_signal =
  ts_asset :: string
  ts_type :: signal_type
  entry_price :: real
  stop_loss :: real
  take_profit :: real
  confidence :: real
  risk_reward_ratio :: real
  timestamp :: real
  reasons :: "reason list"
  analysis_wyckoff :: bool
  analysis_order_flow :: bool
  analysis_momentum :: bool
  strategy_profile :: string

text \<open>
  The two dictionaries of the analyzer the decision reads and writes: the rate-limit
  ledger and the last price stored per asset. Times are seconds on the wall clock.
\<close>

record analyzer =
  last_signal_time :: "string \<rightharpoonup> real"
  market_data :: "string \<rightharpoonup> real"

definition signal_key :: "string \<Rightarrow> string \<Rightarrow> string" where
  "signal_key asset profile_name = asset @ ''_'' @ profile_name"

definition wyckoff_signals :: "analysis_results \<Rightarrow> microsignal list" where
  "wyckoff_signals ar = (case ar_wyckoff ar of Invalid \<Rightarrow> [] | Valid r \<Rightarrow> wk_signals r)"

definition order_flow_signals :: "analysis_results \<Rightarrow> microsignal list" where
  "order_flow_signals ar = (case ar_order_flow ar of Invalid \<Rightarrow> [] | Valid r \<Rightarrow> of_signals r)"

definition momentum_signals :: "analysis_results \<Rightarrow> microsignal list" where
  "momentum_signals ar = (case ar_momentum ar of Invalid \<Rightarrow> [] | Valid r \<Rightarrow> mo_signals r)"

definition all_signals :: "analysis_results \<Rightarrow> microsignal list" where
  "all_signals ar = wyckoff_signals ar @ order_flow_signals ar @ momentum_signals ar"

text \<open>The predominant type (a tie is a sale) and the signals of that type.\<close>

definition predominant_type :: "microsignal list \<Rightarrow> signal_type" where
  "predominant_type sigs =
     (let buy_signals = filter (\<lambda>s. ms_type s = Compra) sigs;
          sell_signals = filter (\<lambda>s. ms_type s = Venda) sigs
      in if length buy_signals > length sell_signals then Compra else Venda)"

definition filtered_signals :: "microsignal list \<Rightarrow> microsignal list" where
  "filtered_signals sigs = filter (\<lambda>s. ms_type s = predominant_type sigs) sigs"

text \<open>\<^verbatim>\<open>sum(s.get("confidence", 0) for s in filtered_signals) / len(filtered_signals)\<close>.\<close>

definition mean_confidence :: "microsignal list \<Rightarrow> real" where
  "mean_confidence filtered =
     sum_list (map (\<lambda>s. case ms_confidence s of None \<Rightarrow> 0 | Some c \<Rightarrow> c) filtered) /
     real (length filtered)"

text \<open>The confidence of the decision: the mean, raised by each valid module in turn.\<close>

definition aggregate_confidence :: "analysis_results \<Rightarrow> microsignal list \<Rightarrow> real" where
  "aggregate_confidence ar filtered =
     (let c0 = mean_confidence filtered;
          c1 = (case ar_wyckoff ar of Invalid \<Rightarrow> c0 | Valid r \<Rightarrow> max c0 (wk_confidence r));
          c2 = (case ar_order_flow ar of Invalid \<Rightarrow> c1 | Valid r \<Rightarrow> max c1 (of_confidence r));
          c3 = (case ar_momentum ar of Invalid \<Rightarrow> c2 | Valid r \<Rightarrow> max c2 (mo_confidence r))
      in c3)"

definition strategies_with_signals :: "analysis_results \<Rightarrow> signal_type \<Rightarrow> nat" where
  "strategies_with_signals ar t =
     (if list_ex (\<lambda>s. ms_type s = t) (wyckoff_signals ar) then 1 else 0) +
     (if list_ex (\<lambda>s. ms_type s = t) (order_flow_signals ar) then 1 else 0) +
     (if list_ex (\<lambda>s. ms_type s = t) (momentum_signals ar) then 1 else 0)"

definition wyckoff_support :: "analysis_results \<Rightarrow> real option" where
  "wyckoff_support ar = (case ar_wyckoff ar of Invalid \<Rightarrow> None | Valid r \<Rightarrow> support_level r)"

definition wyckoff_resistance :: "analysis_results \<Rightarrow> real option" where
  "wyckoff_resistance ar = (case ar_wyckoff ar of Invalid \<Rightarrow> None | Valid r \<Rightarrow> resistance_level r)"

text \<open>
  The last price and the two levels. When the stored price is missing or zero the source
  queries the table again (\<open>db_last_price\<close>, None when that returns nothing) and takes
  the levels only from a valid phase analysis; an invalid one carries no levels, so both
  branches read the same values.
\<close>

definition price_and_levels ::
  "analysis_results \<Rightarrow> real option \<Rightarrow> real option \<Rightarrow> (real \<times> real option \<times> real option) option" where
  "price_and_levels ar stored_price db_last_price =
     (if stored_price = None \<or> stored_price = Some 0 then
        (case db_last_price of
           None \<Rightarrow> None
         | Some p \<Rightarrow> Some (p, wyckoff_support ar, wyckoff_resistance ar))
      else
        (case stored_price of
           None \<Rightarrow> None
         | Some p \<Rightarrow> Some (p, wyckoff_support ar, wyckoff_resistance ar)))"

text \<open>\<^verbatim>\<open>level if level else fallback\<close>: a missing level and a level of 0 are both falsy.\<close>

definition level_or :: "real option \<Rightarrow> real \<Rightarrow> real" where
  "level_or level fallback = (case level of None \<Rightarrow> fallback | Some l \<Rightarrow> if l = 0 then fallback else l)"

definition generate_trading_signal ::
  "profile_config \<Rightarrow> string \<Rightarrow> string \<Rightarrow> real \<Rightarrow> analysis_results \<Rightarrow> real option \<Rightarrow> analyzer
   \<Rightarrow> trading_signal option \<times> analyzer" where
  "generate_trading_signal cfg asset profile_name now ar db_last_price st =
     (if \<not> asset_enabled cfg asset then (None, st)
      else if (case last_signal_time st (signal_key asset profile_name) of
                 None \<Rightarrow> False
               | Some last_time \<Rightarrow> now - last_time < signal_interval cfg) then (None, st)
      else if all_signals ar = [] then (None, st)
      else
        (let signal_type = predominant_type (all_signals ar);
             filtered = filtered_signals (all_signals ar)
         in if filtered = [] then (None, st)
            else
              (let conf = aggregate_confidence ar filtered
               in if conf < min_confidence cfg then (None, st)
                  else if confirmation_required cfg \<and> strategies_with_signals ar signal_type < 2
                    then (None, st)
                  else
                    (case price_and_levels ar (market_data st asset) db_last_price of
                       None \<Rightarrow> (None, st)
                     | Some (last_price, support, resistance) \<Rightarrow>
                         (let entry = last_price;
                              stop = (if signal_type = Compra
                                      then level_or support (last_price * 0.99)
                                      else level_or resistance (last_price * 1.01));
                              take = (if signal_type = Compra
                                      then level_or resistance (last_price * 1.02)
                                      else level_or support (last_price * 0.98));
                              risk = \<bar>entry - stop\<bar>;
                              reward = \<bar>take - entry\<bar>;
                              rr = (if risk > 0 then reward / risk else 0)
                          in if rr < risk_reward_min cfg then (None, st)
                             else
                               (Some \<lparr>ts_asset = asset, ts_type = signal_type,
                                      entry_price = entry, stop_loss = stop, take_profit = take,
                                      confidence = conf, risk_reward_ratio = rr, timestamp = now,
                                      reasons = map ms_reason filtered,
                                      analysis_wyckoff = (ar_wyckoff ar \<noteq> Invalid),
                                      analysis_order_flow = (ar_order_flow ar \<noteq> Invalid),
                                      analysis_momentum = (ar_momentum ar \<noteq> Invalid),
                                      strategy_profile = profile_name\<rparr>,
                                st\<lparr>last_signal_time :=
                                     (last_signal_time st)(signal_key asset profile_name \<mapsto> now)\<rparr>))))))"

subsection \<open>One evaluation: \<^verbatim>\<open>analyze_asset_with_profile\<close>\<close>

text \<open>
  \<open>frame_opt\<close> is what \<^verbatim>\<open>get_latest_data(asset)\<close> returns. The result is the decision
  handed to the signal channel, if any, and the analyzer after the evaluation.
\<close>

definition analyze_asset_with_profile ::
  "profile_config \<Rightarrow> string \<Rightarrow> string \<Rightarrow> real \<Rightarrow> frame option \<Rightarrow> real option \<Rightarrow> analyzer
   \<Rightarrow> trading_signal option \<times> analyzer" where
  "analyze_asset_with_profile cfg asset profile_name now frame_opt db_last_price st =
     (if \<not> profile_enabled cfg then (None, st)
      else
        (case frame_opt of
           None \<Rightarrow> (None, st)
         | Some df \<Rightarrow>
             if rows df = [] then (None, st)
             else if length (rows df) < min_data_points cfg then (None, st)
             else
               (let st1 = st\<lparr>market_data :=
                              (market_data st)(asset \<mapsto> ultimo (from_end (rows df) 1))\<rparr>;
                    ar = \<lparr>ar_wyckoff = analyze_wyckoff cfg (Some df),
                          ar_order_flow = analyze_order_flow cfg (Some df),
                          ar_momentum = analyze_momentum cfg (Some df)\<rparr>
                in generate_trading_signal cfg asset profile_name now ar db_last_price st1)))"

subsection \<open>The tick loop\<close>

text \<open>
  \<^verbatim>\<open>run_main_loop\<close> evaluates the enabled pairs one after the other, tick after tick. A
  run is the sequence of these evaluations, each with the clock, the frame and the price
  the table answers; \<open>cfgs\<close> gives the resolved configuration of each profile. The result
  is the list of decisions emitted, in order.
\<close>

record evaluation =
  ev_asset :: string
  ev_profile :: string
  ev_now :: real
  ev_frame :: "frame option"
  ev_db_last_price :: "real option"

fun analyzer_run ::
  "(string \<Rightarrow> profile_config) \<Rightarrow> evaluation list \<Rightarrow> analyzer \<Rightarrow> trading_signal list \<times> analyzer" where
  "analyzer_run cfgs [] st = ([], st)"
| "analyzer_run cfgs (e # es) st =
     (case analyze_asset_with_profile (cfgs (ev_profile e)) (ev_asset e) (ev_profile e)
             (ev_now e) (ev_frame e) (ev_db_last_price e) st of
        (None, st') \<Rightarrow> analyzer_run cfgs es st'
      | (Some d, st') \<Rightarrow>
          (case analyzer_run cfgs es st' of (ds, st'') \<Rightarrow> (d # ds, st'')))"

definition decision_key :: "trading_signal \<Rightarrow> string" where
  "decision_key d = signal_key (ts_asset d) (strategy_profile d)"

subsection \<open>The specification's wording, for comparison\<close>

text \<open>
  The confidence of a decision as the specification words it. The majority direction is
  the one with more microsignals than the other. The mean confidence of its microsignals
  is the sum of what the microsignals of that direction carry, divided by their number
  (a microsignal without a confidence counts as 0, the default the decision reads it
  with). The confidence is the largest among that mean and the confidences of the module
  results that are valid.
\<close>

fun opposite :: "signal_type \<Rightarrow> signal_type" where
  "opposite Compra = Venda"
| "opposite Venda = Compra"

definition direction_count :: "signal_type \<Rightarrow> microsignal list \<Rightarrow> nat" where
  "direction_count d sigs = count_list (map ms_type sigs) d"

definition majority_direction :: "microsignal list \<Rightarrow> signal_type \<Rightarrow> bool" where
  "majority_direction sigs d = (direction_count (opposite d) sigs < direction_count d sigs)"

definition carried_confidence :: "microsignal \<Rightarrow> real" where
  "carried_confidence s = (case ms_confidence s of None \<Rightarrow> 0 | Some c \<Rightarrow> c)"

definition spec_mean_confidence :: "signal_type \<Rightarrow> microsignal list \<Rightarrow> real" where
  "spec_mean_confidence d sigs =
     (\<Sum>s\<leftarrow>sigs. if ms_type s = d then carried_confidence s else 0) /
     real (direction_count d sigs)"

definition valid_confidences :: "analysis_results \<Rightarrow> real list" where
  "valid_confidences ar =
     (case ar_wyckoff ar of Invalid \<Rightarrow> [] | Valid r \<Rightarrow> [wk_confidence r]) @
     (case ar_order_flow ar of Invalid \<Rightarrow> [] | Valid r \<Rightarrow> [of_confidence r]) @
     (case ar_momentum ar of Invalid \<Rightarrow> [] | Valid r \<Rightarrow> [mo_confidence r])"

definition spec_confidence :: "signal_type \<Rightarrow> analysis_results \<Rightarrow> real" where
  "spec_confidence d ar =
     Max (insert (spec_mean_confidence d (all_signals ar)) (set (valid_confidences ar)))"

text \<open>
  A 20-period moving average as the specification words it: the mean of the last 20
  values, of all of them when there are fewer.
\<close>

definition spec_moving_average :: "nat \<Rightarrow> real list \<Rightarrow> real" where
  "spec_moving_average w xs = mean (tail w xs)"

definition spec_aggression_strength :: "real list \<Rightarrow> real" where
  "spec_aggression_strength saldo =
     from_end saldo 1 / max 1 \<bar>spec_moving_average 20 saldo\<bar>"

text \<open>
  The accumulation tell as the specification words it: the bars on which the price falls
  while the volume rises.
\<close>

definition spec_accumulation_tells :: "observation list \<Rightarrow> nat" where
  "spec_accumulation_tells rs =
     length (filter (\<lambda>i. ultimo (rs ! Suc i) < ultimo (rs ! i) \<and> volume (rs ! Suc i) > volume (rs ! i))
               [0..<length rs - 1])"

section \<open>Example inputs\<close>

definition example_config :: exec_config where
  "example_config = \<lparr>trading_hours_start = Some (9, 0), trading_hours_end = Some (17, 55),
                      max_daily_loss_pct = 3, max_open_trades = 5\<rparr>"

definition example_stats :: daily_stats where
  "example_stats = \<lparr>ds_date = ''2025-05-23'', ds_trades = 0, ds_pnl = 0, ds_wins = 0,
                     ds_losses = 0\<rparr>"

definition example_signal :: "(string \<times> json) list" where
  "example_signal =
     [(''asset'', JStr ''WINFUT''), (''type'', JStr ''BUY''), (''stop_loss'', JNum 99),
      (''take_profit'', JNum 102), (''timestamp'', JStr ''2025-05-23T10:00:00'')]"


definition example_environment :: environment where
  "example_environment = \<lparr>env_now = time_of (10, 0), env_open_positions = 0, env_lot_size = 1,
                           env_mt5_ticket = Some 1001, env_insert_ok = True\<rparr>"

text \<open>The signal is delivered, executed, delivered twice more and the queue polled again.\<close>

definition example_replay :: "event list" where
  "example_replay =
     [Poll_signals (Some \<lparr>sf_mtime = 1, sf_content = Some (JArr [JObj example_signal])\<rparr>),
      Process_order example_environment,
      Poll_signals (Some \<lparr>sf_mtime = 2,
         sf_content = Some (JArr [JObj example_signal, JObj example_signal])\<rparr>),
      Process_order example_environment]"

text \<open>
  The signal is delivered and executed as ticket 1001; the executor is then started again
  over the table the first run left, finds the signal still in the file and the terminal
  gives the new order the ticket 1002.
\<close>

definition example_first_run :: "event list" where
  "example_first_run =
     [Poll_signals (Some \<lparr>sf_mtime = 1, sf_content = Some (JArr [JObj example_signal])\<rparr>),
      Process_order example_environment]"

definition example_second_run :: "event list" where
  "example_second_run =
     [Poll_signals (Some \<lparr>sf_mtime = 1, sf_content = Some (JArr [JObj example_signal])\<rparr>),
      Process_order (example_environment\<lparr>env_open_positions := 1,
                                          env_mt5_ticket := Some 1002\<rparr>)]"

definition example_close :: close_environment where
  "example_close = \<lparr>ce_position_found = True, ce_tick_available = True,
                     ce_retcode = Some 10009\<rparr>"

text \<open>
  The signal is delivered and executed as ticket 1001; at 17:54 the monitor closes the
  position and the terminal reports the close done.
\<close>

definition example_lifecycle :: "event list" where
  "example_lifecycle =
     [Poll_signals (Some \<lparr>sf_mtime = 1, sf_content = Some (JArr [JObj example_signal])\<rparr>),
      Process_order example_environment,
      Monitor \<lparr>mon_now = time_of (17, 54), mon_open_positions = 1,
               mon_positions = Some [(1001, example_close)]\<rparr>]"

text \<open>A day that has lost 4000 of the 100000 it started with.\<close>

definition example_losing_executor :: executor where
  "example_losing_executor =
     started_executor 96000 (example_stats\<lparr>ds_trades := 3, ds_pnl := - 4000, ds_losses := 3\<rparr>) []"

text \<open>
  A profile without confirmation (the shipped \<^verbatim>\<open>agressivo\<close> thresholds) for one asset.
\<close>

definition example_profile :: profile_config where
  "example_profile =
     \<lparr>profile_enabled = True, asset_enabled = (\<lambda>a. a = ''winfut''), signal_interval = 300,
      min_confidence = 0.5, confirmation_required = False, risk_reward_min = 1.2,
      wyckoff_enabled = True, order_flow_enabled = True, aggression_threshold = 1.2,
      absorption_threshold = 1.5, momentum_enabled = True, fast_period = 5, slow_period = 20,
      signal_threshold = 0.4,
      required_columns = (\<lambda>t. if t = ''wyckoff'' then [''volume'']
                               else if t = ''order_flow''
                               then [''agressao_compra'', ''agressao_venda'', ''agressao_saldo'']
                               else []),
      fallback_values = (\<lambda>c. 0), min_data_points = 10\<rparr>"

definition all_columns :: "string list" where
  "all_columns = [''volume'', ''agressao_compra'', ''agressao_venda'', ''agressao_saldo'']"

text \<open>
  Ten equal bars at 100 between 98 and 110, each with 10 contracts of selling aggression
  that do not move the price: the absorption sub-analysis reads this as a purchase.
\<close>

definition absorbed_bar :: observation where
  "absorbed_bar = \<lparr>ultimo = 100, maximo = 110, minimo = 98, volume = 0, agressao_compra = 0,
                    agressao_venda = 10, agressao_saldo = - 10\<rparr>"

definition absorbed_frame :: frame where
  "absorbed_frame =
     \<lparr>rows = [absorbed_bar, absorbed_bar, absorbed_bar, absorbed_bar, absorbed_bar,
              absorbed_bar, absorbed_bar, absorbed_bar, absorbed_bar, absorbed_bar],
      columns = all_columns\<rparr>"

definition new_analyzer :: analyzer where
  "new_analyzer = \<lparr>last_signal_time = Map.empty, market_data = Map.empty\<rparr>"

text \<open>The same bars with the low at the last price, and a profile whose minimum ratio is 0.\<close>

definition pinned_bar :: observation where
  "pinned_bar = absorbed_bar\<lparr>minimo := 100\<rparr>"

definition pinned_frame :: frame where
  "pinned_frame =
     \<lparr>rows = [pinned_bar, pinned_bar, pinned_bar, pinned_bar, pinned_bar,
              pinned_bar, pinned_bar, pinned_bar, pinned_bar, pinned_bar],
      columns = all_columns\<rparr>"

definition zero_minimum_profile :: profile_config where
  "zero_minimum_profile = example_profile\<lparr>risk_reward_min := 0\<rparr>"

text \<open>Three evaluations of the same pair, at 0, 100 and 400 seconds.\<close>

definition example_ticks :: "evaluation list" where
  "example_ticks =
     [\<lparr>ev_asset = ''winfut'', ev_profile = ''agressivo'', ev_now = 0,
       ev_frame = Some absorbed_frame, ev_db_last_price = None\<rparr>,
      \<lparr>ev_asset = ''winfut'', ev_profile = ''agressivo'', ev_now = 100,
       ev_frame = Some absorbed_frame, ev_db_last_price = None\<rparr>,
      \<lparr>ev_asset = ''winfut'', ev_profile = ''agressivo'', ev_now = 400,
       ev_frame = Some absorbed_frame, ev_db_last_price = None\<rparr>]"

text \<open>
  Results handed to the decision whose microsignals carry confidences: two purchases
  (0.9 and 0.5) and one sale (1.0), a phase analysis of confidence 0.3 with levels 98 and
  110, an order-flow analysis of confidence 0.6 and no momentum analysis.
\<close>

definition mixed_results :: analysis_results where
  "mixed_results =
     \<lparr>ar_wyckoff = Valid
        \<lparr>wk_phase = None,
         wk_signals = [\<lparr>ms_type = Compra, ms_reason = Acumulacao_proxima_ao_suporte,
                        ms_confidence = Some 0.9\<rparr>,
                       \<lparr>ms_type = Venda, ms_reason = Distribuicao_proxima_a_resistencia,
                        ms_confidence = Some 1\<rparr>],
         wk_confidence = 0.3, support_level = Some 98, resistance_level = Some 110,
         wk_volume_analysis = None, position_in_range = None, potential_target = None,
         wk_risk_reward = None\<rparr>,
      ar_order_flow = Valid
        \<lparr>of_signals = [\<lparr>ms_type = Compra, ms_reason = Forte_agressao_compradora,
                        ms_confidence = Some 0.5\<rparr>],
         of_confidence = 0.6,
         of_aggression_analysis =
           \<lparr>current_balance = 5, short_term_ma = 1, long_term_ma = 1, strength = 5\<rparr>,
         of_absorption_analysis = None, of_exhaustion_analysis = None\<rparr>,
      ar_momentum = Invalid\<rparr>"

text \<open>The decision taken from them at time 0 with a last price of 100.\<close>

definition mixed_decision :: trading_signal where
  "mixed_decision =
     \<lparr>ts_asset = ''winfut'', ts_type = Compra, entry_price = 100, stop_loss = 98,
      take_profit = 110, confidence = 7 / 10, risk_reward_ratio = 5, timestamp = 0,
      reasons = [Acumulacao_proxima_ao_suporte, Forte_agressao_compradora],
      analysis_wyckoff = True, analysis_order_flow = True, analysis_momentum = False,
      strategy_profile = ''agressivo''\<rparr>"

text \<open>Ten bars falling from 110 to 101 on rising volume, each one point either side.\<close>

definition declining_bar :: "real \<Rightarrow> real \<Rightarrow> observation" where
  "declining_bar p v = \<lparr>ultimo = p, maximo = p + 1, minimo = p - 1, volume = v,
                        agressao_compra = 0, agressao_venda = 0, agressao_saldo = 0\<rparr>"

definition declining_frame :: frame where
  "declining_frame =
     \<lparr>rows = [declining_bar 110 10, declining_bar 109 20, declining_bar 108 30,
              declining_bar 107 40, declining_bar 106 50, declining_bar 105 60,
              declining_bar 104 70, declining_bar 103 80, declining_bar 102 90,
              declining_bar 101 100],
      columns = all_columns\<rparr>"

text \<open>
  The same closes and volumes with every low at 100 and the highs missing from the table:
  \<^verbatim>\<open>get_latest_data\<close> fills a missing value with 0.
\<close>

definition unbounded_bar :: "real \<Rightarrow> real \<Rightarrow> observation" where
  "unbounded_bar p v = \<lparr>ultimo = p, maximo = 0, minimo = 100, volume = v,
                        agressao_compra = 0, agressao_venda = 0, agressao_saldo = 0\<rparr>"

definition unbounded_frame :: frame where
  "unbounded_frame =
     \<lparr>rows = [unbounded_bar 110 10, unbounded_bar 109 20, unbounded_bar 108 30,
              unbounded_bar 107 40, unbounded_bar 106 50, unbounded_bar 105 60,
              unbounded_bar 104 70, unbounded_bar 103 80, unbounded_bar 102 90,
              unbounded_bar 101 100],
      columns = all_columns\<rparr>"

text \<open>What the phase analysis returns on them.\<close>

definition unbounded_results :: wyckoff_results where
  "unbounded_results =
     \<lparr>wk_phase = None, wk_signals = [], wk_confidence = 0,
      support_level = Some 100, resistance_level = Some 0,
      wk_volume_analysis =
        Some \<lparr>price_up_volume_down = 0, price_down_volume_up = 9, effort_result_ratio = 0\<rparr>,
      position_in_range = None, potential_target = None, wk_risk_reward = None\<rparr>"

text \<open>Flat bars at 100 that differ only in their aggression balance.\<close>

definition flat_bar :: "real \<Rightarrow> observation" where
  "flat_bar s = \<lparr>ultimo = 100, maximo = 101, minimo = 99, volume = 0, agressao_compra = 0,
                 agressao_venda = 0, agressao_saldo = s\<rparr>"

text \<open>Ten bars: nine with balance 0, then one with balance 5.\<close>

definition quiet_frame :: frame where
  "quiet_frame = \<lparr>rows = map flat_bar [0, 0, 0, 0, 0, 0, 0, 0, 0, 5], columns = all_columns\<rparr>"

text \<open>Twenty bars: ten with balance 0, five with -10, four with 0, then one with 5.\<close>

definition reversal_frame :: frame where
  "reversal_frame =
     \<lparr>rows = map flat_bar [0, 0, 0, 0, 0, 0, 0, 0, 0, 0, - 10, - 10, - 10, - 10, - 10,
                           0, 0, 0, 0, 5],
      columns = all_columns\<rparr>"

text \<open>Twenty bars at 10 followed by one at 4.\<close>

definition price_bar :: "real \<Rightarrow> observation" where
  "price_bar p = \<lparr>ultimo = p, maximo = p, minimo = p, volume = 0, agressao_compra = 0,
                  agressao_venda = 0, agressao_saldo = 0\<rparr>"

definition falling_frame :: frame where
  "falling_frame =
     \<lparr>rows = map price_bar [10, 10, 10, 10, 10, 10, 10, 10, 10, 10,
                            10, 10, 10, 10, 10, 10, 10, 10, 10, 10, 4],
      columns = all_columns\<rparr>"

text \<open>What the order-flow analysis returns on the twenty bars.\<close>

definition reversal_results :: order_flow_results where
  "reversal_results =
     \<lparr>of_signals = [signal Compra Forte_agressao_compradora, signal Compra Exaustao_de_venda],
      of_confidence = 3 / 4,
      of_aggression_analysis =
        \<lparr>current_balance = 5, short_term_ma = 1, long_term_ma = - (9 / 4), strength = 20 / 9\<rparr>,
      of_absorption_analysis =
        Some \<lparr>ab_recent_price_change = 0, recent_aggression_volume = 0,
              recent_aggression_balance = 5, absorption_ratio = 0\<rparr>,
      of_exhaustion_analysis =
        Some \<lparr>previous_aggression = - 10, recent_aggression = 1,
              aggression_direction_change = - 10, previous_price_change = 0,
              ex_recent_price_change = 0, price_direction_change = 0,
              exhaustion_detected = True\<rparr>\<rparr>"

text \<open>What it returns on the ten quiet bars.\<close>

definition quiet_results :: order_flow_results where
  "quiet_results =
     \<lparr>of_signals = [], of_confidence = 0,
      of_aggression_analysis =
        \<lparr>current_balance = 5, short_term_ma = 1, long_term_ma = 5, strength = 1\<rparr>,
      of_absorption_analysis =
        Some \<lparr>ab_recent_price_change = 0, recent_aggression_volume = 0,
              recent_aggression_balance = 5, absorption_ratio = 0\<rparr>,
      of_exhaustion_analysis =
        Some \<lparr>previous_aggression = 0, recent_aggression = 1,
              aggression_direction_change = 0, previous_price_change = 0,
              ex_recent_price_change = 0, price_direction_change = 0,
              exhaustion_detected = False\<rparr>\<rparr>"

text \<open>What the momentum analysis returns on the falling bars.\<close>

definition falling_results :: momentum_results where
  "falling_results =
     \<lparr>mo_signals = [signal Venda Death_Cross, signal Venda Momentum_negativo_em_baixa],
      mo_confidence = 17 / 20, mo_trend = Baixa, momentum_strength = 9 / 97,
      ma_fast_last = 44 / 5, ma_slow_last = 97 / 10, ma_diff_last = - (9 / 10),
      ma_diff_pct_last = - (9 / 97), roc_5 = Fin (- 60), roc_10 = Fin (- 60)\<rparr>"

text \<open>The decision emitted on the pinned bars under the profile with minimum ratio 0.\<close>

definition zero_risk_decision :: trading_signal where
  "zero_risk_decision =
     \<lparr>ts_asset = ''winfut'', ts_type = Compra, entry_price = 100, stop_loss = 100,
      take_profit = 110, confidence = 4 / 5, risk_reward_ratio = 0, timestamp = 0,
      reasons = [Absorcao_de_venda], analysis_wyckoff = True, analysis_order_flow = True,
      analysis_momentum = False, strategy_profile = ''agressivo''\<rparr>"

text \<open>The decision emitted on the absorbed bars at time \<open>t\<close>.\<close>

definition absorbed_decision :: "real \<Rightarrow> trading_signal" where
  "absorbed_decision t =
     \<lparr>ts_asset = ''winfut'', ts_type = Compra, entry_price = 100, stop_loss = 98,
      take_profit = 110, confidence = 4 / 5, risk_reward_ratio = 5, timestamp = t,
      reasons = [Absorcao_de_venda], analysis_wyckoff = True, analysis_order_flow = True,
      analysis_momentum = False, strategy_profile = ''agressivo''\<rparr>"

section \<open>Properties of the executor\<close>



lemma close_position_state: "snd (close_position env t s) = s"
  by (simp add: close_position_def split: option.splits)

lemma close_each_state: "close_each ps s = s"
  by (induction ps s rule: close_each.induct) (simp_all add: close_position_state)

lemma position_monitor_step_state: "position_monitor_step cfg env s = s"
  by (simp add: position_monitor_step_def close_all_positions_def close_each_state Let_def
      split: option.splits)

lemma signal_error_handler_cases:
  "signal_error_handler s = Raised s \<or> signal_error_handler s = Next s \<or>
   (\<exists>ts. signal_error_handler s =
      Next (s\<lparr>processed_signal_timestamps := insert ts (processed_signal_timestamps s)\<rparr>))"
  by (auto simp: signal_error_handler_def split: option.splits)

lemma at_most_once_mono:
  assumes "at_most_once n0 m0 s"
    and "orders_table s' = orders_table s" and "order_queue s' = order_queue s"
    and "submissions s' = submissions s"
    and "processed_signal_timestamps s \<subseteq> processed_signal_timestamps s'"
  shows "at_most_once n0 m0 s'"
  using assms unfolding at_most_once_def attempts_since_def submitted_since_def by auto

lemma at_most_once_enqueue:
  assumes "at_most_once n0 m0 s"
    and "order_identity od \<notin> processed_signal_timestamps s"
    and "orders_table s' = orders_table s" and "order_queue s' = order_queue s @ [od]"
    and "submissions s' = submissions s"
    and "processed_signal_timestamps s' = insert (order_identity od) (processed_signal_timestamps s)"
  shows "at_most_once n0 m0 s'"
  using assms unfolding at_most_once_def attempts_since_def submitted_since_def by auto

lemma signal_error_handler_at_most_once:
  assumes "at_most_once n0 m0 s"
  shows "case signal_error_handler s of
           Next s' \<Rightarrow> at_most_once n0 m0 s' | Raised s' \<Rightarrow> at_most_once n0 m0 s'"
proof (cases "signal_timestamp_var s")
  case None
  then show ?thesis using assms by (simp add: signal_error_handler_def)
next
  case (Some ts)
  have "at_most_once n0 m0 (s\<lparr>processed_signal_timestamps :=
                             insert (py_key ts) (processed_signal_timestamps s)\<rparr>)"
    by (rule at_most_once_mono[OF assms]) auto
  with Some assms show ?thesis by (simp add: signal_error_handler_def)
qed

lemma process_signal_at_most_once:
  assumes "at_most_once n0 m0 s"
  shows "case process_signal sig s of
           Next s' \<Rightarrow> at_most_once n0 m0 s' | Raised s' \<Rightarrow> at_most_once n0 m0 s'"
proof (cases sig)
  case (JObj kv)
  define ts where "ts = dict_get kv ''timestamp''"
  define s1 where "s1 = s\<lparr>signal_timestamp_var := Some ts\<rparr>"
  have s1: "at_most_once n0 m0 s1"
    unfolding s1_def by (rule at_most_once_mono[OF assms]) auto
  define od where "od = \<lparr>od_asset = dict_get kv ''asset'', od_type = dict_get kv ''type'',
                           od_stop_loss = dict_get kv ''stop_loss'',
                           od_take_profit = dict_get kv ''take_profit'',
                           od_signal_details = kv\<rparr>"
  have od: "order_identity od = py_key ts"
    by (simp add: od_def order_identity_def ts_def)
  have mark: "at_most_once n0 m0 (s1\<lparr>processed_signal_timestamps :=
                                 insert (py_key ts) (processed_signal_timestamps s1)\<rparr>)"
    by (rule at_most_once_mono[OF s1]) auto
  have enq: "at_most_once n0 m0 ((add_order_to_queue od s1)\<lparr>processed_signal_timestamps :=
                 insert (py_key ts) (processed_signal_timestamps (add_order_to_queue od s1))\<rparr>)"
    if "py_key ts \<notin> processed_signal_timestamps s1"
    by (rule at_most_once_enqueue[OF s1, of od]) (use that od in \<open>simp_all add: add_order_to_queue_def\<close>)
  have unfold: "process_signal sig s =
      (if \<not> truthy ts then Next s1
       else if \<not> hashable ts then signal_error_handler s1
       else if py_key ts \<in> processed_signal_timestamps s1 then Next s1
       else if \<not> list_all (has_key kv) required_keys
         then Next (s1\<lparr>processed_signal_timestamps :=
                        insert (py_key ts) (processed_signal_timestamps s1)\<rparr>)
       else Next ((add_order_to_queue od s1)\<lparr>processed_signal_timestamps :=
                 insert (py_key ts) (processed_signal_timestamps (add_order_to_queue od s1))\<rparr>))"
    unfolding JObj process_signal_def ts_def s1_def od_def by (simp add: Let_def)
  show ?thesis
    unfolding unfold
    using s1 mark enq signal_error_handler_at_most_once[OF s1] by simp
qed (use signal_error_handler_at_most_once[OF assms] in \<open>simp_all add: process_signal_def\<close>)

lemma process_signals_at_most_once:
  "at_most_once n0 m0 s \<Longrightarrow> at_most_once n0 m0 (process_signals sigs s)"
proof (induction sigs arbitrary: s)
  case Nil
  then show ?case by simp
next
  case (Cons sig sigs)
  from process_signal_at_most_once[OF Cons.prems, of sig] Cons.IH
  show ?case by (auto split: flow.splits)
qed

lemma signal_processor_step_at_most_once:
  "at_most_once n0 m0 s \<Longrightarrow> at_most_once n0 m0 (signal_processor_step file s)"
proof -
  assume a: "at_most_once n0 m0 s"
  have b: "at_most_once n0 m0 (s\<lparr>last_signal_file_mtime := m\<rparr>)" for m
    using a by (simp add: at_most_once_def attempts_since_def submitted_since_def)
  show ?thesis
    by (auto simp: signal_processor_step_def Let_def a intro!: process_signals_at_most_once b
        split: option.splits)
qed

lemma at_most_once_dequeue:
  assumes "at_most_once n0 m0 s" and "order_queue s = od # rest"
    and "order_queue s' = rest"
    and "processed_signal_timestamps s' = processed_signal_timestamps s"
    and "orders_table s' = orders_table s \<or>
         (\<exists>r. orders_table s' = orders_table s @ [r] \<and> row_identity r = order_identity od)"
    and "submissions s' = submissions s \<or>
         (\<exists>b. submissions s' = submissions s @ [b] \<and>
              submission_identity b = order_identity od)"
  shows "at_most_once n0 m0 s'"
proof -
  from assms(1,2) have n: "n0 \<le> length (orders_table s)" and m: "m0 \<le> length (submissions s)"
    and d1: "distinct (map row_identity (drop n0 (orders_table s)) @
                       order_identity od # map order_identity rest)"
    and d2: "distinct (map submission_identity (drop m0 (submissions s)) @
                       order_identity od # map order_identity rest)"
    and p1: "set (map row_identity (drop n0 (orders_table s)) @
                       order_identity od # map order_identity rest)
               \<subseteq> processed_signal_timestamps s"
    and p2: "set (map submission_identity (drop m0 (submissions s)) @
                       order_identity od # map order_identity rest)
               \<subseteq> processed_signal_timestamps s"
    by (simp_all add: at_most_once_def attempts_since_def submitted_since_def)
  have a: "n0 \<le> length (orders_table s') \<and>
           distinct (attempts_since n0 s') \<and>
           set (attempts_since n0 s') \<subseteq> processed_signal_timestamps s'"
    using assms(5)
  proof
    assume "orders_table s' = orders_table s"
    with n d1 p1 assms(3,4) show ?thesis by (auto simp: attempts_since_def)
  next
    assume "\<exists>r. orders_table s' = orders_table s @ [r] \<and> row_identity r = order_identity od"
    then obtain r where "orders_table s' = orders_table s @ [r]"
      "row_identity r = order_identity od" by blast
    with n d1 p1 assms(3,4) show ?thesis by (auto simp: attempts_since_def)
  qed
  have b: "m0 \<le> length (submissions s') \<and>
           distinct (submitted_since m0 s') \<and>
           set (submitted_since m0 s') \<subseteq> processed_signal_timestamps s'"
    using assms(6)
  proof
    assume "submissions s' = submissions s"
    with m d2 p2 assms(3,4) show ?thesis by (auto simp: submitted_since_def)
  next
    assume "\<exists>b. submissions s' = submissions s @ [b] \<and>
              submission_identity b = order_identity od"
    then obtain b where "submissions s' = submissions s @ [b]"
      "submission_identity b = order_identity od" by blast
    with m d2 p2 assms(3,4) show ?thesis by (auto simp: submitted_since_def)
  qed
  from a b show ?thesis by (simp add: at_most_once_def)
qed

lemma order_processor_step_at_most_once:
  assumes "at_most_once n0 m0 s"
  shows "at_most_once n0 m0 (order_processor_step cfg env s)"
proof (cases "order_queue s")
  case Nil
  with assms show ?thesis by (simp add: order_processor_step_def)
next
  case (Cons od rest)
  show ?thesis
    by (rule at_most_once_dequeue[OF assms Cons])
       (simp_all add: order_processor_step_def Cons Let_def row_identity_def order_identity_def
          submission_identity_def)
qed

lemma executor_step_at_most_once:
  "at_most_once n0 m0 s \<Longrightarrow> at_most_once n0 m0 (executor_step cfg e s)"
  by (cases e) (simp_all add: signal_processor_step_at_most_once
      order_processor_step_at_most_once position_monitor_step_state)

lemma executor_run_at_most_once:
  "at_most_once n0 m0 s \<Longrightarrow> at_most_once n0 m0 (executor_run cfg es s)"
  by (induction es arbitrary: s) (simp_all add: executor_step_at_most_once)

lemma started_executor_at_most_once:
  "at_most_once (length table) 0 (started_executor balance stats table)"
  by (simp add: at_most_once_def attempts_since_def submitted_since_def started_executor_def)

lemma process_signal_already_processed:
  assumes "hashable (dict_get kv ''timestamp'')"
    and "py_key (dict_get kv ''timestamp'') \<in> processed_signal_timestamps s"
  shows "process_signal (JObj kv) s =
           Next (s\<lparr>signal_timestamp_var := Some (dict_get kv ''timestamp'')\<rparr>)"
  using assms by (simp add: process_signal_def Let_def)

(* monotonicity of the processed set *)







lemma order_processor_step_frame:
  "account_balance (order_processor_step cfg env s) = account_balance s \<and>
   ex_daily_stats (order_processor_step cfg env s) = ex_daily_stats s"
  by (simp add: order_processor_step_def Let_def split: list.splits)

lemma process_signal_frame:
  "case process_signal sig s of
     Next s' \<Rightarrow> account_balance s' = account_balance s \<and> ex_daily_stats s' = ex_daily_stats s \<and>
                orders_table s' = orders_table s \<and> submissions s' = submissions s
   | Raised s' \<Rightarrow> account_balance s' = account_balance s \<and> ex_daily_stats s' = ex_daily_stats s \<and>
                orders_table s' = orders_table s \<and> submissions s' = submissions s"
  by (cases sig)
    (auto simp: process_signal_def signal_error_handler_def Let_def add_order_to_queue_def
      split: flow.splits option.splits)

lemma process_signals_frame:
  "account_balance (process_signals sigs s) = account_balance s \<and>
   ex_daily_stats (process_signals sigs s) = ex_daily_stats s \<and>
   orders_table (process_signals sigs s) = orders_table s \<and>
   submissions (process_signals sigs s) = submissions s"
proof (induction sigs arbitrary: s)
  case Nil
  then show ?case by simp
next
  case (Cons sig sigs)
  from process_signal_frame[where sig=sig and s=s] Cons.IH
  show ?case by (auto split: flow.splits)
qed

lemma signal_processor_step_frame:
  "account_balance (signal_processor_step file s) = account_balance s \<and>
   ex_daily_stats (signal_processor_step file s) = ex_daily_stats s \<and>
   orders_table (signal_processor_step file s) = orders_table s \<and>
   submissions (signal_processor_step file s) = submissions s"
  by (simp add: signal_processor_step_def Let_def process_signals_frame split: option.splits)

lemma executor_step_frame:
  "account_balance (executor_step cfg e s) = account_balance s \<and>
   ex_daily_stats (executor_step cfg e s) = ex_daily_stats s"
  by (cases e) (simp_all add: signal_processor_step_frame order_processor_step_frame
      position_monitor_step_state)

lemma executor_run_frame:
  "account_balance (executor_run cfg es s) = account_balance s \<and>
   ex_daily_stats (executor_run cfg es s) = ex_daily_stats s"
  by (induction es arbitrary: s) (simp_all add: executor_step_frame)

lemma check_trading_allowed_cong:
  "account_balance s' = account_balance s \<Longrightarrow> ex_daily_stats s' = ex_daily_stats s \<Longrightarrow>
   check_trading_allowed cfg now s' = check_trading_allowed cfg now s"
  by (simp add: check_trading_allowed_def cong: option.case_cong)

lemma breaker_closes_gate:
  assumes "account_balance s = Some balance"
    and "ds_pnl (ex_daily_stats s) <
           - ((max_daily_loss_pct cfg / 100) * (balance - ds_pnl (ex_daily_stats s)))"
  shows "\<not> check_trading_allowed cfg now s"
  using assms by (simp add: check_trading_allowed_def Let_def split: option.splits)

lemma order_processor_step_gate_closed:
  assumes "\<And>now. \<not> check_trading_allowed cfg now s"
  shows "orders_table (order_processor_step cfg env s) = orders_table s \<and>
         submissions (order_processor_step cfg env s) = submissions s"
proof (cases "order_queue s")
  case Nil
  then show ?thesis by (simp add: order_processor_step_def)
next
  case (Cons order rest)
  have "\<not> check_trading_allowed cfg (env_now env) (s\<lparr>order_queue := rest\<rparr>)"
    using assms[of "env_now env"] check_trading_allowed_cong[of "s\<lparr>order_queue := rest\<rparr>" s]
    by simp
  with Cons show ?thesis by (simp add: order_processor_step_def Let_def)
qed

lemma executor_step_gate_closed:
  assumes "\<And>now. \<not> check_trading_allowed cfg now s"
  shows "orders_table (executor_step cfg e s) = orders_table s \<and>
         submissions (executor_step cfg e s) = submissions s"
  using assms
  by (cases e) (simp_all add: signal_processor_step_frame order_processor_step_gate_closed
      position_monitor_step_state)

lemma executor_run_gate_closed:
  assumes "\<And>now. \<not> check_trading_allowed cfg now s"
  shows "orders_table (executor_run cfg es s) = orders_table s \<and>
         submissions (executor_run cfg es s) = submissions s"
  using assms
proof (induction es arbitrary: s)
  case Nil
  then show ?case by simp
next
  case (Cons e es)
  have same: "check_trading_allowed cfg now (executor_step cfg e s) =
              check_trading_allowed cfg now s" for now
    by (rule check_trading_allowed_cong) (simp_all add: executor_step_frame)
  have closed: "\<not> check_trading_allowed cfg now (executor_step cfg e s)" for now
    unfolding same by (rule Cons.prems)
  have a: "orders_table (executor_run cfg es (executor_step cfg e s)) =
           orders_table (executor_step cfg e s) \<and>
           submissions (executor_run cfg es (executor_step cfg e s)) =
           submissions (executor_step cfg e s)"
    by (rule Cons.IH) (rule closed)
  have b: "orders_table (executor_step cfg e s) = orders_table s \<and>
           submissions (executor_step cfg e s) = submissions s"
    by (rule executor_step_gate_closed) (rule Cons.prems)
  from a b show ?case by simp
qed

text \<open>
  Claim C6. When the day's cumulative pnl is below minus \<open>max_daily_loss_pct\<close> percent of
  the approximate day-start balance (the account balance minus that pnl), the
  trading-allowed gate answers False at every time of day, and whatever signals and
  orders arrive afterwards no order is submitted and no row is written: neither the
  statistics nor the balance the gate reads change during a run, so the gate stays closed.
\<close>

theorem daily_loss_breaker_rejects_all:
  assumes "account_balance s = Some balance"
    and "ds_pnl (ex_daily_stats s) <
           - ((max_daily_loss_pct cfg / 100) * (balance - ds_pnl (ex_daily_stats s)))"
  shows "\<not> check_trading_allowed cfg now s \<and>
         orders_table (executor_run cfg es s) = orders_table s \<and>
         submissions (executor_run cfg es s) = submissions s \<and>
         \<not> check_trading_allowed cfg now' (executor_run cfg es s)"
proof -
  have closed: "\<not> check_trading_allowed cfg t s" for t
    using breaker_closes_gate[OF assms] .
  have same: "check_trading_allowed cfg now' (executor_run cfg es s) =
              check_trading_allowed cfg now' s"
    by (rule check_trading_allowed_cong) (simp_all add: executor_run_frame)
  have frame: "orders_table (executor_run cfg es s) = orders_table s \<and>
               submissions (executor_run cfg es s) = submissions s"
    by (rule executor_run_gate_closed) (rule closed)
  from closed[of now] closed[of now'] same frame show ?thesis by simp
qed

text \<open>
  Claim C2, for one run of the executor. Started over a table of any rows, throughout
  the run the rows inserted since the start and the orders waiting in the queue were
  made for pairwise different signal timestamps, and so were the orders submitted since
  the start and those waiting; all these timestamps are in the processed set. The same
  holds from any state onwards in which it holds. In every state, a signal whose
  timestamp is in the processed set only rebinds the loop variable: it enqueues no
  order, so neither a second submission nor a second row follows from it. The processed
  set is an attribute of the running executor, empty at every start, so nothing is said
  about the rows an earlier run left in the table.
\<close>

theorem replayed_identity_gives_no_second_attempt:
  "at_most_once (length table) 0
     (executor_run cfg es (started_executor balance stats table)) \<and>
   (at_most_once n0 m0 s \<longrightarrow> at_most_once n0 m0 (executor_run cfg es s)) \<and>
   (\<forall>kv. hashable (dict_get kv ''timestamp'') \<and>
         py_key (dict_get kv ''timestamp'') \<in> processed_signal_timestamps t \<longrightarrow>
         process_signal (JObj kv) t =
           Next (t\<lparr>signal_timestamp_var := Some (dict_get kv ''timestamp'')\<rparr>))"
proof (intro conjI allI impI)
  show "at_most_once (length table) 0
          (executor_run cfg es (started_executor balance stats table))"
    by (rule executor_run_at_most_once[OF started_executor_at_most_once])
next
  assume "at_most_once n0 m0 s"
  then show "at_most_once n0 m0 (executor_run cfg es s)"
    by (rule executor_run_at_most_once)
next
  fix kv
  assume "hashable (dict_get kv ''timestamp'') \<and>
          py_key (dict_get kv ''timestamp'') \<in> processed_signal_timestamps t"
  then show "process_signal (JObj kv) t =
               Next (t\<lparr>signal_timestamp_var := Some (dict_get kv ''timestamp'')\<rparr>)"
    by (intro process_signal_already_processed) simp_all
qed


lemmas example_unfold =
  example_config_def example_environment_def example_signal_def example_stats_def
  started_executor_def signal_processor_step_def process_signal_def order_processor_step_def
  check_trading_allowed_def time_of_def dict_get_def has_key_def required_keys_def
  add_order_to_queue_def reasons_joinable_def ticket_truthy_def Let_def

lemma example_replay_run:
  "executor_run example_config example_replay (started_executor 100000 example_stats []) =
     \<lparr>mt5_initialized = True, account_balance = Some 100000, ex_daily_stats = example_stats,
      processed_signal_timestamps = {JStr ''2025-05-23T10:00:00''},
      last_signal_file_mtime = 2,
      signal_timestamp_var = Some (JStr ''2025-05-23T10:00:00''), order_queue = [],
      orders_table =
        [\<lparr>row_mt5_ticket = Some 1001, row_asset = JStr ''WINFUT'', row_type = JStr ''BUY'',
          row_volume = 1, row_price = JNum 0, row_sl = JNum 99, row_tp = JNum 102,
          row_status = OPEN, row_profit = None,
          row_signal_timestamp = JStr ''2025-05-23T10:00:00'',
          row_strategy_profile = JNull\<rparr>],
      submissions =
        [\<lparr>sub_asset = JStr ''WINFUT'', sub_type = JStr ''BUY'', sub_volume = 1,
          sub_stop_loss = JNum 99, sub_take_profit = JNum 102,
          sub_signal_details = example_signal\<rparr>]\<rparr>"
  by (simp add: example_replay_def example_unfold)

theorem replayed_identity_witness:
  "at_most_once 0 0
     (executor_run example_config example_replay (started_executor 100000 example_stats [])) \<and>
   map row_mt5_ticket (orders_table
     (executor_run example_config example_replay (started_executor 100000 example_stats []))) =
     [Some 1001] \<and>
   length (submissions
     (executor_run example_config example_replay (started_executor 100000 example_stats []))) = 1 \<and>
   order_queue
     (executor_run example_config example_replay (started_executor 100000 example_stats [])) = [] \<and>
   process_signal (JObj example_signal)
     (executor_run example_config example_replay (started_executor 100000 example_stats [])) =
   Next ((executor_run example_config example_replay (started_executor 100000 example_stats []))
          \<lparr>signal_timestamp_var := Some (dict_get example_signal ''timestamp'')\<rparr>)"
proof -
  have known: "hashable (dict_get example_signal ''timestamp'') \<and>
               py_key (dict_get example_signal ''timestamp'')
                 \<in> processed_signal_timestamps
                     (executor_run example_config example_replay
                        (started_executor 100000 example_stats []))"
    unfolding example_replay_run by (simp add: example_signal_def dict_get_def)
  have rows: "map row_mt5_ticket (orders_table
     (executor_run example_config example_replay (started_executor 100000 example_stats []))) =
     [Some 1001]"
    unfolding example_replay_run by simp
  have subs: "length (submissions
     (executor_run example_config example_replay (started_executor 100000 example_stats []))) = 1"
    unfolding example_replay_run by simp
  have queue: "order_queue
     (executor_run example_config example_replay (started_executor 100000 example_stats [])) = []"
    unfolding example_replay_run by simp
  from replayed_identity_gives_no_second_attempt[of "[]" example_config example_replay
         100000 example_stats _ _ _
         "executor_run example_config example_replay (started_executor 100000 example_stats [])"]
  have inv: "at_most_once 0 0
     (executor_run example_config example_replay (started_executor 100000 example_stats []))"
    and skip: "\<forall>kv. hashable (dict_get kv ''timestamp'') \<and>
         py_key (dict_get kv ''timestamp'')
           \<in> processed_signal_timestamps
               (executor_run example_config example_replay
                  (started_executor 100000 example_stats [])) \<longrightarrow>
         process_signal (JObj kv)
           (executor_run example_config example_replay
              (started_executor 100000 example_stats [])) =
           Next ((executor_run example_config example_replay
                    (started_executor 100000 example_stats []))
                  \<lparr>signal_timestamp_var := Some (dict_get kv ''timestamp'')\<rparr>)"
    by simp_all
  from skip known have "process_signal (JObj example_signal)
     (executor_run example_config example_replay (started_executor 100000 example_stats [])) =
   Next ((executor_run example_config example_replay (started_executor 100000 example_stats []))
          \<lparr>signal_timestamp_var := Some (dict_get example_signal ''timestamp'')\<rparr>)"
    by blast
  with inv rows subs queue show ?thesis by blast
qed

text \<open>
  Against claim C2 as it is worded. The signal is executed as ticket 1001 and the
  executor restarted over the table that run left, with the signal still in the file:
  the new run starts with an empty processed set, submits the order again, and the table
  ends with two open rows for the one signal timestamp.
\<close>

theorem restart_repeats_order_attempt:
  "map row_mt5_ticket (orders_table
     (executor_run example_config example_first_run
        (started_executor 100000 example_stats []))) = [Some 1001] \<and>
   processed_signal_timestamps
     (started_executor 100000 example_stats
        (orders_table (executor_run example_config example_first_run
           (started_executor 100000 example_stats [])))) = {} \<and>
   map row_mt5_ticket (orders_table
     (executor_run example_config example_second_run
        (started_executor 100000 example_stats
           (orders_table (executor_run example_config example_first_run
              (started_executor 100000 example_stats [])))))) = [Some 1001, Some 1002] \<and>
   map row_signal_timestamp (orders_table
     (executor_run example_config example_second_run
        (started_executor 100000 example_stats
           (orders_table (executor_run example_config example_first_run
              (started_executor 100000 example_stats [])))))) =
     [JStr ''2025-05-23T10:00:00'', JStr ''2025-05-23T10:00:00''] \<and>
   map row_status (orders_table
     (executor_run example_config example_second_run
        (started_executor 100000 example_stats
           (orders_table (executor_run example_config example_first_run
              (started_executor 100000 example_stats [])))))) = [OPEN, OPEN] \<and>
   length (submissions
     (executor_run example_config example_second_run
        (started_executor 100000 example_stats
           (orders_table (executor_run example_config example_first_run
              (started_executor 100000 example_stats [])))))) = 1"
  by (simp add: example_first_run_def example_second_run_def example_unfold)


theorem daily_loss_breaker_witness:
  "account_balance example_losing_executor = Some 96000 \<and>
   ds_pnl (ex_daily_stats example_losing_executor) <
     - ((max_daily_loss_pct example_config / 100) *
        (96000 - ds_pnl (ex_daily_stats example_losing_executor))) \<and>
   \<not> check_trading_allowed example_config (time_of (10, 0)) example_losing_executor \<and>
   orders_table (executor_run example_config example_replay example_losing_executor) = [] \<and>
   submissions (executor_run example_config example_replay example_losing_executor) = [] \<and>
   \<not> check_trading_allowed example_config (time_of (11, 0))
       (executor_run example_config example_replay example_losing_executor)"
proof -
  have h1: "account_balance example_losing_executor = Some 96000"
    by (simp add: example_losing_executor_def started_executor_def)
  have h2: "ds_pnl (ex_daily_stats example_losing_executor) <
     - ((max_daily_loss_pct example_config / 100) *
        (96000 - ds_pnl (ex_daily_stats example_losing_executor)))"
    by (simp add: example_losing_executor_def started_executor_def example_config_def
        example_stats_def)
  have h3: "orders_table example_losing_executor = [] \<and> submissions example_losing_executor = []"
    by (simp add: example_losing_executor_def started_executor_def)
  from daily_loss_breaker_rejects_all[OF h1 h2,
      of "time_of (10, 0)" example_replay "time_of (11, 0)"] h1 h2 h3
  show ?thesis by simp
qed

text \<open>
  Claim C1, on the code: the example signal is executed as ticket 1001 and the monitor
  closes the position at 17:54 with the terminal reporting success. Afterwards the
  order's row is still OPEN with no profit and the day's statistics are untouched;
  closing the position once more by hand answers True and changes nothing either.
  \<^verbatim>\<open>update_daily_stats\<close>, which no path calls, would have counted the trade.
\<close>

theorem closed_position_is_not_recorded:
  "close_position example_close 1001
     (executor_run example_config example_lifecycle (started_executor 100000 example_stats [])) =
     (True, executor_run example_config example_lifecycle
              (started_executor 100000 example_stats [])) \<and>
   map row_status (orders_table (executor_run example_config example_lifecycle
     (started_executor 100000 example_stats []))) = [OPEN] \<and>
   map row_profit (orders_table (executor_run example_config example_lifecycle
     (started_executor 100000 example_stats []))) = [None] \<and>
   ex_daily_stats (executor_run example_config example_lifecycle
     (started_executor 100000 example_stats [])) = example_stats \<and>
   ex_daily_stats (update_daily_stats ''2025-05-23'' example_stats 50
     (executor_run example_config example_lifecycle (started_executor 100000 example_stats []))) =
     example_stats\<lparr>ds_trades := 1, ds_pnl := 50, ds_wins := 1\<rparr>"
  by (simp add: example_lifecycle_def example_unfold position_monitor_step_state
      close_position_def example_close_def TRADE_RETCODE_DONE_def update_daily_stats_def)
section \<open>Properties of the analyzer\<close>

subsection \<open>Validation keeps the basic columns and the columns that are present\<close>

lemma add_column_basic:
  "\<not> has_column df col \<Longrightarrow>
   map ultimo (rows (add_column col v df)) = map ultimo (rows df) \<and>
   map maximo (rows (add_column col v df)) = map maximo (rows df) \<and>
   map minimo (rows (add_column col v df)) = map minimo (rows df) \<and>
   length (rows (add_column col v df)) = length (rows df)"
  by (simp add: add_column_def set_field_def)

lemma add_column_has: "has_column df c \<Longrightarrow> has_column (add_column col v df) c"
  by (auto simp: add_column_def has_column_def)

lemma prepare_basic:
  "map ultimo (rows (foldl (\<lambda>prepared col. if has_column prepared col then prepared
                            else add_column col (fb col) prepared) df cols)) = map ultimo (rows df) \<and>
   map maximo (rows (foldl (\<lambda>prepared col. if has_column prepared col then prepared
                            else add_column col (fb col) prepared) df cols)) = map maximo (rows df) \<and>
   map minimo (rows (foldl (\<lambda>prepared col. if has_column prepared col then prepared
                            else add_column col (fb col) prepared) df cols)) = map minimo (rows df) \<and>
   length (rows (foldl (\<lambda>prepared col. if has_column prepared col then prepared
                            else add_column col (fb col) prepared) df cols)) = length (rows df)"
proof (induction cols arbitrary: df)
  case Nil
  then show ?case by simp
next
  case (Cons c cols)
  show ?case
  proof (cases "has_column df c")
    case True
    then show ?thesis using Cons.IH[of df] by simp
  next
    case False
    then show ?thesis
      using Cons.IH[of "add_column c (fb c) df"] add_column_basic[OF False, of "fb c"] by simp
  qed
qed

lemma prepare_volume:
  "has_column df ''volume'' \<Longrightarrow>
   has_column (foldl (\<lambda>prepared col. if has_column prepared col then prepared
                            else add_column col (fb col) prepared) df cols) ''volume'' \<and>
   map volume (rows (foldl (\<lambda>prepared col. if has_column prepared col then prepared
                            else add_column col (fb col) prepared) df cols)) = map volume (rows df)"
proof (induction cols arbitrary: df)
  case Nil
  then show ?case by simp
next
  case (Cons c cols)
  show ?case
  proof (cases "has_column df c")
    case True
    then show ?thesis using Cons.IH[OF Cons.prems] by simp
  next
    case False
    with Cons.prems have ne: "c \<noteq> ''volume''" by auto
    have h: "has_column (add_column c (fb c) df) ''volume''"
      by (rule add_column_has[OF Cons.prems])
    have "map volume (rows (add_column c (fb c) df)) = map volume (rows df)"
      using ne by (simp add: add_column_def set_field_def)
    with Cons.IH[OF h] False show ?thesis by simp
  qed
qed

lemma validated_basic:
  "map ultimo (rows (validated cfg df t)) = map ultimo (rows df)"
  "map maximo (rows (validated cfg df t)) = map maximo (rows df)"
  "map minimo (rows (validated cfg df t)) = map minimo (rows df)"
  "length (rows (validated cfg df t)) = length (rows df)"
  using prepare_basic[of "fallback_values cfg" df "required_columns cfg t"]
  by (simp_all add: validated_def prepare_dataframe_def)

lemma validated_volume:
  "has_column df ''volume'' \<Longrightarrow>
   has_column (validated cfg df t) ''volume'' \<and>
   map volume (rows (validated cfg df t)) = map volume (rows df)"
  using prepare_volume[of df "fallback_values cfg" "required_columns cfg t"]
  by (simp add: validated_def prepare_dataframe_def)

lemma validated_last_price:
  assumes "rows df \<noteq> []"
  shows "ultimo (from_end (rows (validated cfg df t)) 1) = ultimo (from_end (rows df) 1)"
proof -
  have "ultimo (from_end (rows (validated cfg df t)) 1) =
        map ultimo (rows (validated cfg df t)) ! (length (rows df) - 1)"
    using assms validated_basic(4)[of cfg df t] by (simp add: from_end_def)
  also have "\<dots> = map ultimo (rows df) ! (length (rows df) - 1)"
    by (simp only: validated_basic(1))
  also have "\<dots> = ultimo (from_end (rows df) 1)"
    using assms by (simp add: from_end_def)
  finally show ?thesis .
qed

lemma support_of_validated: "support_of (rows (validated cfg df t)) = support_of (rows df)"
proof -
  have "map minimo (tail 20 (rows (validated cfg df t))) = map minimo (tail 20 (rows df))"
    using validated_basic(3)[of cfg df t] validated_basic(4)[of cfg df t]
    by (simp add: tail_def drop_map[symmetric])
  then show ?thesis by (simp add: support_of_def)
qed

lemma resistance_of_validated: "resistance_of (rows (validated cfg df t)) = resistance_of (rows df)"
proof -
  have "map maximo (tail 20 (rows (validated cfg df t))) = map maximo (tail 20 (rows df))"
    using validated_basic(2)[of cfg df t] validated_basic(4)[of cfg df t]
    by (simp add: tail_def drop_map[symmetric])
  then show ?thesis by (simp add: resistance_of_def)
qed

lemma from_end_1: "xs \<noteq> [] \<Longrightarrow> from_end xs 1 = last xs"
  by (simp add: from_end_def last_conv_nth)

lemma support_resistance_levels:
  "support_level (support_resistance rs res) = Some (support_of rs) \<and>
   resistance_level (support_resistance rs res) = Some (resistance_of rs) \<and>
   wk_volume_analysis (support_resistance rs res) = wk_volume_analysis res"
  by (simp add: support_resistance_def Let_def)

lemma support_resistance_accumulation:
  assumes "support_of rs < resistance_of rs"
    and "(ultimo (from_end rs 1) - support_of rs) / (resistance_of rs - support_of rs) < 0.3"
    and "5 < accumulation_count res"
  shows "wk_phase (support_resistance rs res) = Some Acumulacao \<and>
         wk_signals (support_resistance rs res) =
           wk_signals res @ [signal Compra Acumulacao_proxima_ao_suporte] \<and>
         wk_confidence (support_resistance rs res) = 0.7"
  using assms by (simp add: support_resistance_def Let_def accumulation_count_def)

lemma support_resistance_no_range:
  assumes "\<not> support_of rs < resistance_of rs"
  shows "wk_phase (support_resistance rs res) = wk_phase res \<and>
         wk_signals (support_resistance rs res) = wk_signals res \<and>
         wk_confidence (support_resistance rs res) = wk_confidence res"
  using assms by (simp add: support_resistance_def Let_def)

lemma cause_and_effect_keeps:
  assumes "support_level res \<noteq> None" and "resistance_level res \<noteq> None"
  shows "\<exists>r. cause_and_effect p res = Valid r \<and> wk_phase r = wk_phase res \<and>
             wk_signals r = wk_signals res \<and> wk_confidence r = wk_confidence res \<and>
             support_level r = support_level res \<and> resistance_level r = resistance_level res \<and>
             wk_volume_analysis r = wk_volume_analysis res"
  using assms
  by (auto simp: cause_and_effect_def Let_def split: option.splits phase.splits)

text \<open>The divergence count of the source against the bar-by-bar reading.\<close>

lemma count_zip_map:
  "length (filter P (zip (map f [0..<n]) (map g [0..<n]))) =
   length (filter (\<lambda>i. P (f i, g i)) [0..<n])"
proof -
  have "zip (map f [0..<n]) (map g [0..<n]) = map (\<lambda>i. (f i, g i)) [0..<n]"
    by (induction n) (simp_all add: zip_map_map)
  then show ?thesis by (simp add: filter_map comp_def)
qed

lemma filter_upt_skip0:
  assumes "\<not> Q 0"
  shows "length (filter Q [0..<n]) = length (filter (\<lambda>i. Q (Suc i)) [0..<n - 1])"
proof (cases n)
  case 0
  then show ?thesis by simp
next
  case (Suc m)
  have "[0..<Suc m] = 0 # map Suc [0..<m]"
    by (simp add: upt_conv_Cons map_Suc_upt del: upt_Suc)
  then show ?thesis using assms Suc by (simp add: filter_map comp_def del: upt_Suc)
qed

lemma falls_iff:
  assumes "0 < a"
  shows "np_neg (fillna0 (np_add (np_div b a) (- 1))) \<longleftrightarrow> b < a"
  using assms by (simp add: np_div_def field_simps)

lemma rises_iff:
  assumes "0 \<le> a" and "0 \<le> b"
  shows "np_pos (fillna0 (np_add (np_div b a) (- 1))) \<longleftrightarrow> a < b"
  using assms by (auto simp: np_div_def field_simps)

lemma count_down_up_spec:
  assumes "\<forall>r \<in> set rs. 0 < ultimo r \<and> 0 \<le> volume r"
  shows "count_price_down_volume_up rs = spec_accumulation_tells rs"
proof -
  let ?Q = "\<lambda>i. np_neg (fillna0 (pct_change 1 (map ultimo rs) i)) \<and>
                 np_pos (fillna0 (pct_change 1 (map volume rs) i))"
  have "count_price_down_volume_up rs = length (filter ?Q [0..<length rs])"
    unfolding count_price_down_volume_up_def price_changes_def volume_changes_def
    by (simp add: count_zip_map)
  also have "\<dots> = length (filter (\<lambda>i. ?Q (Suc i)) [0..<length rs - 1])"
    by (rule filter_upt_skip0) (simp add: pct_change_def)
  also have "\<dots> = length (filter (\<lambda>i. ultimo (rs ! Suc i) < ultimo (rs ! i) \<and>
                                        volume (rs ! Suc i) > volume (rs ! i))
                              [0..<length rs - 1])"
  proof (rule arg_cong[where f = length], rule filter_cong[OF refl])
    fix i assume "i \<in> set [0..<length rs - 1]"
    then have i: "Suc i < length rs" by auto
    then have m: "rs ! i \<in> set rs" "rs ! Suc i \<in> set rs" by simp_all
    with assms have pos: "0 < ultimo (rs ! i)" "0 \<le> volume (rs ! i)" "0 \<le> volume (rs ! Suc i)"
      by blast+
    show "?Q (Suc i) \<longleftrightarrow> (ultimo (rs ! Suc i) < ultimo (rs ! i) \<and>
                             volume (rs ! Suc i) > volume (rs ! i))"
      using i falls_iff[OF pos(1)] rises_iff[OF pos(2) pos(3)]
      by (simp add: pct_change_def)
  qed
  finally show ?thesis by (simp add: spec_accumulation_tells_def)
qed

lemma count_depends_on_columns:
  assumes "map ultimo rs' = map ultimo rs" and "map volume rs' = map volume rs"
  shows "count_price_down_volume_up rs' = count_price_down_volume_up rs"
proof -
  from assms(1) have "length rs' = length rs" by (metis length_map)
  with assms show ?thesis
    by (simp add: count_price_down_volume_up_def price_changes_def volume_changes_def)
qed

text \<open>
  Claim C9. For an enabled phase analysis on a frame of at least 10 rows the result is
  valid, its support is the mean of the 3 smallest lows and its resistance the mean of
  the 3 largest highs of the last 20 rows. When the resistance is above the support, the
  position of the last price in the range is below 0.3 and the accumulation count exceeds
  5, the phase is accumulation, a purchase microsignal is emitted and the confidence is
  0.7. When the resistance is not above the support no position is taken: no phase, no
  microsignal, confidence 0. The count is taken over the whole frame; on a frame with a
  volume column, positive prices and non-negative volumes it is the number of bars on
  which the price falls while the volume rises.
\<close>

theorem accumulation_phase:
  assumes "wyckoff_enabled cfg" and "10 \<le> length (rows df)"
  shows "\<exists>r. analyze_wyckoff cfg (Some df) = Valid r \<and>
           support_level r = Some (mean (take 3 (sort (map minimo (tail 20 (rows df)))))) \<and>
           resistance_level r = Some (mean (take 3 (rev (sort (map maximo (tail 20 (rows df))))))) \<and>
           (support_of (rows df) < resistance_of (rows df) \<and>
            (ultimo (last (rows df)) - support_of (rows df)) /
              (resistance_of (rows df) - support_of (rows df)) < 0.3 \<and>
            5 < accumulation_count r \<longrightarrow>
              wk_phase r = Some Acumulacao \<and>
              signal Compra Acumulacao_proxima_ao_suporte \<in> set (wk_signals r) \<and>
              wk_confidence r = 0.7) \<and>
           (\<not> support_of (rows df) < resistance_of (rows df) \<longrightarrow>
              wk_phase r = None \<and> wk_signals r = [] \<and> wk_confidence r = 0) \<and>
           (has_column df ''volume'' \<and> (\<forall>b \<in> set (rows df). 0 < ultimo b \<and> 0 \<le> volume b) \<longrightarrow>
              accumulation_count r = spec_accumulation_tells (rows df))"
proof -
  define dfv where "dfv = validated cfg df ''wyckoff''"
  define res where "res = \<lparr>wk_phase = None, wk_signals = [], wk_confidence = 0,
                            support_level = None, resistance_level = None,
                            wk_volume_analysis = analyze_volume dfv,
                            position_in_range = None, potential_target = None,
                            wk_risk_reward = None\<rparr>"
  define res2 where "res2 = support_resistance (rows dfv) res"
  have ne: "rows df \<noteq> []" using assms(2) by auto
  have len: "length (rows dfv) = length (rows df)"
    unfolding dfv_def by (rule validated_basic(4))
  have sup: "support_of (rows dfv) = support_of (rows df)"
    and rsi: "resistance_of (rows dfv) = resistance_of (rows df)"
    unfolding dfv_def by (rule support_of_validated, rule resistance_of_validated)
  have lastp: "ultimo (from_end (rows dfv) 1) = ultimo (last (rows df))"
    unfolding dfv_def using validated_last_price[OF ne] from_end_1[OF ne] by simp
  have unfold: "analyze_wyckoff cfg (Some df) =
                  cause_and_effect (ultimo (from_end (rows dfv) 1)) res2"
    using assms ne len
    by (simp add: analyze_wyckoff_def Let_def dfv_def[symmetric] res_def[symmetric] res2_def)
  have lv: "support_level res2 = Some (support_of (rows df))"
           "resistance_level res2 = Some (resistance_of (rows df))"
           "wk_volume_analysis res2 = analyze_volume dfv"
    using support_resistance_levels[of "rows dfv" res] sup rsi
    by (simp_all add: res2_def res_def)
  from cause_and_effect_keeps[of res2 "ultimo (from_end (rows dfv) 1)"] lv
  obtain r where r: "analyze_wyckoff cfg (Some df) = Valid r"
    and keep: "wk_phase r = wk_phase res2" "wk_signals r = wk_signals res2"
      "wk_confidence r = wk_confidence res2" "support_level r = support_level res2"
      "resistance_level r = resistance_level res2"
      "wk_volume_analysis r = wk_volume_analysis res2"
    unfolding unfold by auto
  have acc_r: "accumulation_count r = accumulation_count res"
    using keep(6) lv(3) by (simp add: accumulation_count_def res_def)
  have phase: "wk_phase r = Some Acumulacao \<and>
               signal Compra Acumulacao_proxima_ao_suporte \<in> set (wk_signals r) \<and>
               wk_confidence r = 0.7"
    if "support_of (rows df) < resistance_of (rows df)"
       "(ultimo (last (rows df)) - support_of (rows df)) /
          (resistance_of (rows df) - support_of (rows df)) < 0.3"
       "5 < accumulation_count r"
    using support_resistance_accumulation[of "rows dfv" res] that sup rsi lastp acc_r keep
    by (simp add: res2_def)
  have no_range: "wk_phase r = None \<and> wk_signals r = [] \<and> wk_confidence r = 0"
    if "\<not> support_of (rows df) < resistance_of (rows df)"
    using support_resistance_no_range[of "rows dfv" res] that sup rsi keep
    by (simp add: res2_def res_def)
  have tells: "accumulation_count r = spec_accumulation_tells (rows df)"
    if hv: "has_column df ''volume''" and pos: "\<forall>b \<in> set (rows df). 0 < ultimo b \<and> 0 \<le> volume b"
  proof -
    from validated_volume[OF hv, of cfg "''wyckoff''"]
    have hv': "has_column dfv ''volume''" and vol: "map volume (rows dfv) = map volume (rows df)"
      by (simp_all add: dfv_def)
    have ult: "map ultimo (rows dfv) = map ultimo (rows df)"
      unfolding dfv_def by (rule validated_basic(1))
    have "accumulation_count r = count_price_down_volume_up (rows dfv)"
      using acc_r hv' len assms(2)
      by (simp add: accumulation_count_def res_def analyze_volume_def)
    also have "\<dots> = count_price_down_volume_up (rows df)"
      by (rule count_depends_on_columns[OF ult vol])
    also have "\<dots> = spec_accumulation_tells (rows df)"
      by (rule count_down_up_spec[OF pos])
    finally show ?thesis .
  qed
  show ?thesis
  proof (intro exI[of _ r] conjI impI)
    show "analyze_wyckoff cfg (Some df) = Valid r" by (rule r)
    show "support_level r = Some (mean (take 3 (sort (map minimo (tail 20 (rows df))))))"
      using keep(4) lv(1) by (simp add: support_of_def)
    show "resistance_level r = Some (mean (take 3 (rev (sort (map maximo (tail 20 (rows df)))))))"
      using keep(5) lv(2) by (simp add: resistance_of_def)
  next
    assume a: "support_of (rows df) < resistance_of (rows df) \<and>
            (ultimo (last (rows df)) - support_of (rows df)) /
              (resistance_of (rows df) - support_of (rows df)) < 0.3 \<and>
            5 < accumulation_count r"
    from phase a show "wk_phase r = Some Acumulacao" by blast
    from phase a show "signal Compra Acumulacao_proxima_ao_suporte \<in> set (wk_signals r)" by blast
    from phase a show "wk_confidence r = 0.7" by blast
  next
    assume a: "\<not> support_of (rows df) < resistance_of (rows df)"
    from no_range[OF a] show "wk_phase r = None" by blast
    from no_range[OF a] show "wk_signals r = []" by blast
    from no_range[OF a] show "wk_confidence r = 0" by blast
  next
    assume "has_column df ''volume'' \<and> (\<forall>b \<in> set (rows df). 0 < ultimo b \<and> 0 \<le> volume b)"
    with tells show "accumulation_count r = spec_accumulation_tells (rows df)" by blast
  qed
qed

subsection \<open>Order flow\<close>

lemma prepare_saldo:
  "has_column df ''agressao_saldo'' \<Longrightarrow>
   has_column (foldl (\<lambda>prepared col. if has_column prepared col then prepared
                            else add_column col (fb col) prepared) df cols) ''agressao_saldo'' \<and>
   map agressao_saldo (rows (foldl (\<lambda>prepared col. if has_column prepared col then prepared
                            else add_column col (fb col) prepared) df cols)) =
     map agressao_saldo (rows df)"
proof (induction cols arbitrary: df)
  case Nil
  then show ?case by simp
next
  case (Cons c cols)
  show ?case
  proof (cases "has_column df c")
    case True
    then show ?thesis using Cons.IH[OF Cons.prems] by simp
  next
    case False
    with Cons.prems have ne: "c \<noteq> ''agressao_saldo''" by auto
    have h: "has_column (add_column c (fb c) df) ''agressao_saldo''"
      by (rule add_column_has[OF Cons.prems])
    have "map agressao_saldo (rows (add_column c (fb c) df)) = map agressao_saldo (rows df)"
      using ne by (simp add: add_column_def set_field_def)
    with Cons.IH[OF h] False show ?thesis by simp
  qed
qed

lemma validated_saldo:
  "has_column df ''agressao_saldo'' \<Longrightarrow>
   map agressao_saldo (rows (validated cfg df t)) = map agressao_saldo (rows df)"
  using prepare_saldo[of df "fallback_values cfg" "required_columns cfg t"]
  by (simp add: validated_def prepare_dataframe_def)

lemma from_end_last: "xs \<noteq> [] \<Longrightarrow> from_end xs (Suc 0) = last xs"
  using from_end_1[of xs] by simp

lemma last_saldo_ma_long:
  assumes "0 < w" and "w \<le> length saldo"
  shows "last_saldo_ma w saldo = mean (tail w saldo)"
proof -
  have ne: "length saldo \<noteq> 0" using assms by auto
  have idx: "length saldo - 1 + 1 - w = length saldo - w" using assms by simp
  have tk: "take w (drop (length saldo - w) saldo) = drop (length saldo - w) saldo"
    using assms by simp
  have "rolling_mean w saldo (length saldo - 1) = Some (mean (tail w saldo))"
    unfolding rolling_mean_def idx tk tail_def using assms ne by simp
  with assms show ?thesis by (simp add: last_saldo_ma_def)
qed

lemma last_saldo_ma_short:
  assumes "length saldo < w" and "saldo \<noteq> []"
  shows "last_saldo_ma w saldo = last saldo"
  using assms by (simp add: last_saldo_ma_def from_end_last)

lemma aggression_strength:
  assumes "saldo \<noteq> []"
  shows "current_balance (aggression saldo) = last saldo"
    and "20 \<le> length saldo \<Longrightarrow>
           strength (aggression saldo) = last saldo / max 1 \<bar>mean (tail 20 saldo)\<bar>"
    and "length saldo < 20 \<Longrightarrow> strength (aggression saldo) = last saldo / max 1 \<bar>last saldo\<bar>"
  using assms
  by (simp_all add: aggression_def Let_def from_end_last last_saldo_ma_long last_saldo_ma_short)

lemma aggression_sign:
  "0 < current_balance (aggression saldo) \<Longrightarrow> 0 < strength (aggression saldo)"
  by (simp add: aggression_def Let_def)

lemma aggression_signals_buy:
  assumes "aggression_threshold cfg < strength a" and "0 < current_balance a" and "0 < strength a"
  shows "aggression_signals cfg a =
           ([signal Compra Forte_agressao_compradora], min 0.9 (0.5 + \<bar>strength a\<bar> / 10))"
  using assms by (simp add: aggression_signals_def)

lemma aggression_signals_sell:
  assumes "aggression_threshold cfg < strength a" and "current_balance a < 0"
  shows "aggression_signals cfg a =
           ([signal Venda Forte_agressao_vendedora], min 0.9 (0.5 + \<bar>strength a\<bar> / 10))"
  using assms by (simp add: aggression_signals_def)

text \<open>What each sub-analysis can do to the signals and the confidence collected so far.\<close>

lemma aggression_cap: "0 \<le> min (0.9::real) (0.5 + \<bar>x\<bar> / 10) \<and> min (0.9::real) (0.5 + \<bar>x\<bar> / 10) \<le> 0.9"
  by (auto simp: min_def)

lemma absorption_cap: "max (c::real) (min 0.8 y) \<le> 0.9 \<longleftrightarrow> c \<le> 0.9"
  by (auto simp: min_def max_def)

lemma exhaustion_cap: "max (c::real) 0.75 \<le> 0.9 \<longleftrightarrow> c \<le> 0.9"
  by (auto simp: max_def)

lemma aggression_signals_shape:
  "(fst (aggression_signals cfg (aggression saldo)) = [] \<and>
    snd (aggression_signals cfg (aggression saldo)) = 0) \<or>
   (\<exists>x. fst (aggression_signals cfg (aggression saldo)) = [x] \<and> ms_confidence x = None \<and>
        0 \<le> snd (aggression_signals cfg (aggression saldo)) \<and>
        snd (aggression_signals cfg (aggression saldo)) \<le> 0.9)"
proof (cases "aggression_threshold cfg < strength (aggression saldo)")
  case False
  then show ?thesis by (simp add: aggression_signals_def)
next
  case fired: True
  show ?thesis
  proof (cases "0 < current_balance (aggression saldo)")
    case True
    from aggression_signals_buy[OF fired True aggression_sign[OF True]]
      aggression_cap[of "strength (aggression saldo)"]
    show ?thesis by (simp add: signal_def del: min_less_iff_conj min.bounded_iff)
  next
    case False
    show ?thesis
    proof (cases "current_balance (aggression saldo) < 0")
      case True
      from aggression_signals_sell[OF fired True]
        aggression_cap[of "strength (aggression saldo)"]
      show ?thesis by (simp add: signal_def del: min_less_iff_conj min.bounded_iff)
    next
      case False
      with \<open>\<not> 0 < current_balance (aggression saldo)\<close> show ?thesis
        by (simp add: aggression_signals_def)
    qed
  qed
qed

lemma absorption_signals_shape:
  "absorption_signals cfg b sc = sc \<or>
   (\<exists>x. absorption_signals cfg b sc =
          (fst sc @ [x], max (snd sc) (min 0.8 (0.4 + absorption_ratio b / 20))) \<and>
        ms_confidence x = None)"
  by (auto simp: absorption_signals_def signal_def)

lemma exhaustion_signals_shape:
  "exhaustion_signals e sc = sc \<or>
   (\<exists>x. exhaustion_signals e sc = (fst sc @ [x], max (snd sc) 0.75) \<and> ms_confidence x = None)"
  by (auto simp: exhaustion_signals_def signal_def)

text \<open>
  The three sub-analyses together: the signals start with those of the aggression
  sub-analysis, none carries a confidence entry, and the confidence lies between the one
  the aggression sub-analysis set and 0.9; it is that one when nothing was added.
\<close>

lemma order_flow_stages:
  fixes sc1 sc2 sc3 :: "microsignal list \<times> real"
  assumes sc1: "sc1 = aggression_signals cfg (aggression saldo)"
    and sc2: "sc2 = sc1 \<or> sc2 = absorption_signals cfg b sc1"
    and sc3: "sc3 = sc2 \<or> sc3 = exhaustion_signals e sc2"
  shows "(\<exists>more. fst sc3 = fst sc1 @ more) \<and>
         (\<forall>s \<in> set (fst sc3). ms_confidence s = None) \<and>
         snd sc1 \<le> snd sc3 \<and> 0 \<le> snd sc3 \<and> snd sc3 \<le> 0.9 \<and>
         (length (fst sc3) = length (fst sc1) \<longrightarrow> snd sc3 = snd sc1)"
proof -
  have p1: "(\<forall>s \<in> set (fst sc1). ms_confidence s = None) \<and> 0 \<le> snd sc1 \<and> snd sc1 \<le> 0.9"
    using aggression_signals_shape[of cfg saldo] unfolding sc1 by auto
  have p2: "(\<exists>more. fst sc2 = fst sc1 @ more) \<and>
            (\<forall>s \<in> set (fst sc2). ms_confidence s = None) \<and>
            snd sc1 \<le> snd sc2 \<and> snd sc2 \<le> 0.9 \<and>
            (length (fst sc2) = length (fst sc1) \<longrightarrow> snd sc2 = snd sc1)"
  proof -
    from sc2 absorption_signals_shape[of cfg b sc1]
    consider "sc2 = sc1"
      | x where "sc2 = (fst sc1 @ [x], max (snd sc1) (min 0.8 (0.4 + absorption_ratio b / 20)))"
          "ms_confidence x = None"
      by auto
    then show ?thesis
    proof cases
      case 1
      with p1 show ?thesis by simp
    next
      case 2
      have "max (snd sc1) (min 0.8 (0.4 + absorption_ratio b / 20)) \<le> 0.9"
        using p1 by (simp only: absorption_cap)
      with 2 p1 show ?thesis by simp
    qed
  qed
  have p3: "(\<exists>more. fst sc3 = fst sc2 @ more) \<and>
            (\<forall>s \<in> set (fst sc3). ms_confidence s = None) \<and>
            snd sc2 \<le> snd sc3 \<and> snd sc3 \<le> 0.9 \<and>
            (length (fst sc3) = length (fst sc2) \<longrightarrow> snd sc3 = snd sc2)"
  proof -
    from sc3 exhaustion_signals_shape[of e sc2]
    consider "sc3 = sc2" | x where "sc3 = (fst sc2 @ [x], max (snd sc2) 0.75)" "ms_confidence x = None"
      by auto
    then show ?thesis
    proof cases
      case 1
      with p2 show ?thesis by simp
    next
      case 2
      have "max (snd sc2) 0.75 \<le> 0.9"
        using p2 by (simp only: exhaustion_cap)
      with 2 p2 show ?thesis by simp
    qed
  qed
  from p2 obtain m2 where m2: "fst sc2 = fst sc1 @ m2" by blast
  from p3 obtain m3 where m3: "fst sc3 = fst sc2 @ m3" by blast
  have app: "fst sc3 = fst sc1 @ (m2 @ m3)" using m2 m3 by simp
  have same: "snd sc3 = snd sc1" if "length (fst sc3) = length (fst sc1)"
  proof -
    from that app have "m2 = []" "m3 = []" by simp_all
    with m2 m3 p2 p3 show ?thesis by simp
  qed
  from p1 p2 p3 app same show ?thesis by fastforce
qed

lemma analyze_order_flow_Valid:
  assumes "analyze_order_flow cfg (Some df) = Valid r"
    and "saldo = map agressao_saldo (rows (validated cfg df ''order_flow''))"
  shows "saldo \<noteq> [] \<and> of_aggression_analysis r = aggression saldo \<and>
         (\<exists>more. of_signals r = fst (aggression_signals cfg (aggression saldo)) @ more) \<and>
         (\<forall>s \<in> set (of_signals r). ms_confidence s = None) \<and>
         snd (aggression_signals cfg (aggression saldo)) \<le> of_confidence r \<and>
         0 \<le> of_confidence r \<and> of_confidence r \<le> 0.9 \<and>
         (length (of_signals r) = length (fst (aggression_signals cfg (aggression saldo))) \<longrightarrow>
            of_confidence r = snd (aggression_signals cfg (aggression saldo)))"
proof -
  define dfv where "dfv = validated cfg df ''order_flow''"
  define rs where "rs = rows dfv"
  define sc1 where "sc1 = aggression_signals cfg (aggression saldo)"
  define sc2 where "sc2 = (if length rs \<ge> 5 then absorption_signals cfg (absorption rs) sc1 else sc1)"
  define sc3 where "sc3 = (if length rs \<ge> 10 then exhaustion_signals (exhaustion rs) sc2 else sc2)"
  have ne: "rows df \<noteq> []"
    using assms(1) by (auto simp: analyze_order_flow_def split: if_splits)
  have len: "length rs = length (rows df)"
    unfolding rs_def dfv_def by (rule validated_basic(4))
  have saldo: "saldo = map agressao_saldo rs"
    using assms(2) by (simp add: rs_def dfv_def)
  have r: "r = \<lparr>of_signals = fst sc3, of_confidence = snd sc3,
               of_aggression_analysis = aggression saldo,
               of_absorption_analysis = (if length rs \<ge> 5 then Some (absorption rs) else None),
               of_exhaustion_analysis = (if length rs \<ge> 10 then Some (exhaustion rs) else None)\<rparr>"
    using assms(1) ne
    by (simp add: analyze_order_flow_def Let_def dfv_def[symmetric] rs_def[symmetric]
        saldo[symmetric] sc1_def[symmetric] sc2_def sc3_def split: if_splits)
  have s2: "sc2 = sc1 \<or> sc2 = absorption_signals cfg (absorption rs) sc1"
    by (simp add: sc2_def)
  have s3: "sc3 = sc2 \<or> sc3 = exhaustion_signals (exhaustion rs) sc2"
    by (simp add: sc3_def)
  have rs_ne: "saldo \<noteq> []"
    using ne len saldo by (cases rs) simp_all
  from order_flow_stages[OF sc1_def s2 s3] r rs_ne
  show ?thesis by (simp add: sc1_def)
qed

text \<open>
  Claim C7, as the code has it. With at least 20 rows the strength is the last balance
  over max(1, |mean of the last 20 balances|); with fewer rows the last balance itself
  stands in for the moving average. Whenever the strength exceeds the threshold, a
  purchase microsignal is emitted when the last balance is positive and a sale when it is
  negative; the aggression sub-analysis then sets the confidence to
  min(0.9, 0.5 + |strength| / 10), and the confidence of the module result lies between
  that value and 0.9, equal to it when the aggression microsignal is the only one
  (absorption and exhaustion can only raise it).
\<close>

theorem aggression_strength_and_signal:
  assumes "analyze_order_flow cfg (Some df) = Valid r"
    and "saldo = map agressao_saldo (rows (validated cfg df ''order_flow''))"
    and "a = of_aggression_analysis r"
  shows "(has_column df ''agressao_saldo'' \<longrightarrow> saldo = map agressao_saldo (rows df)) \<and>
         (20 \<le> length saldo \<longrightarrow> strength a = last saldo / max 1 \<bar>mean (tail 20 saldo)\<bar>) \<and>
         (length saldo < 20 \<longrightarrow> strength a = last saldo / max 1 \<bar>last saldo\<bar>) \<and>
         (aggression_threshold cfg < strength a \<and> 0 < last saldo \<longrightarrow>
            signal Compra Forte_agressao_compradora \<in> set (of_signals r)) \<and>
         (aggression_threshold cfg < strength a \<and> last saldo < 0 \<longrightarrow>
            signal Venda Forte_agressao_vendedora \<in> set (of_signals r)) \<and>
         (aggression_threshold cfg < strength a \<and> last saldo \<noteq> 0 \<longrightarrow>
            snd (aggression_signals cfg a) = min 0.9 (0.5 + \<bar>strength a\<bar> / 10) \<and>
            min 0.9 (0.5 + \<bar>strength a\<bar> / 10) \<le> of_confidence r \<and>
            of_confidence r \<le> 0.9 \<and>
            (length (of_signals r) = 1 \<longrightarrow>
               of_confidence r = min 0.9 (0.5 + \<bar>strength a\<bar> / 10)))"
proof -
  note v = analyze_order_flow_Valid[OF assms(1) assms(2)]
  from v have ne: "saldo \<noteq> []" and a: "a = aggression saldo"
    using assms(3) by simp_all
  from v obtain more where more:
    "of_signals r = fst (aggression_signals cfg (aggression saldo)) @ more" by blast
  have bal: "current_balance a = last saldo"
    unfolding a by (rule aggression_strength(1)[OF ne])
  have buy: "aggression_signals cfg a =
               ([signal Compra Forte_agressao_compradora], min 0.9 (0.5 + \<bar>strength a\<bar> / 10))"
    if "aggression_threshold cfg < strength a" "0 < last saldo"
    using that bal aggression_signals_buy[of cfg a] aggression_sign[of saldo] a by simp
  have sell: "aggression_signals cfg a =
               ([signal Venda Forte_agressao_vendedora], min 0.9 (0.5 + \<bar>strength a\<bar> / 10))"
    if "aggression_threshold cfg < strength a" "last saldo < 0"
    using that bal aggression_signals_sell[of cfg a] by simp
  have fired: "length (fst (aggression_signals cfg a)) = 1 \<and>
               snd (aggression_signals cfg a) = min 0.9 (0.5 + \<bar>strength a\<bar> / 10)"
    if "aggression_threshold cfg < strength a" "last saldo \<noteq> 0"
  proof (cases "0 < last saldo")
    case True
    from buy[OF that(1) True] show ?thesis by simp
  next
    case False
    with that have "last saldo < 0" by simp
    from sell[OF that(1) this] show ?thesis by simp
  qed
  show ?thesis
  proof (intro conjI impI)
    assume "has_column df ''agressao_saldo''"
    then show "saldo = map agressao_saldo (rows df)"
      using assms(2) by (simp add: validated_saldo)
  next
    assume "20 \<le> length saldo"
    then show "strength a = last saldo / max 1 \<bar>mean (tail 20 saldo)\<bar>"
      unfolding a by (rule aggression_strength(2)[OF ne])
  next
    assume "length saldo < 20"
    then show "strength a = last saldo / max 1 \<bar>last saldo\<bar>"
      unfolding a by (rule aggression_strength(3)[OF ne])
  next
    assume "aggression_threshold cfg < strength a \<and> 0 < last saldo"
    then show "signal Compra Forte_agressao_compradora \<in> set (of_signals r)"
      using buy more a by simp
  next
    assume "aggression_threshold cfg < strength a \<and> last saldo < 0"
    then show "signal Venda Forte_agressao_vendedora \<in> set (of_signals r)"
      using sell more a by simp
  next
    assume h: "aggression_threshold cfg < strength a \<and> last saldo \<noteq> 0"
    with fired show "snd (aggression_signals cfg a) = min 0.9 (0.5 + \<bar>strength a\<bar> / 10)"
      by blast
    from h fired v a show "min 0.9 (0.5 + \<bar>strength a\<bar> / 10) \<le> of_confidence r"
      by (simp del: min_less_iff_conj min.bounded_iff)
    from v show "of_confidence r \<le> 0.9" by blast
    assume "length (of_signals r) = 1"
    with h fired v a show "of_confidence r = min 0.9 (0.5 + \<bar>strength a\<bar> / 10)"
      by (simp del: min_less_iff_conj min.bounded_iff)
  qed
qed

subsection \<open>Momentum\<close>

lemma cross_confidence_bounds: "0.6 \<le> cross_confidence x \<and> cross_confidence x \<le> 0.85"
  by (auto simp: cross_confidence_def min_def)

lemma capped_confidence_bounds: "0 \<le> capped_confidence 0.8 0.5 v \<and> capped_confidence 0.8 0.5 v \<le> 0.8"
  by (cases v) (auto simp: min_def)

lemma cross_signals_golden:
  "signal Compra Golden_Cross \<in> set (fst (cross_signals p l d)) \<longleftrightarrow> p \<le> 0 \<and> 0 < l"
  by (auto simp: cross_signals_def signal_def)

lemma cross_signals_death:
  "signal Venda Death_Cross \<in> set (fst (cross_signals p l d)) \<longleftrightarrow> 0 \<le> p \<and> l < 0"
  by (auto simp: cross_signals_def signal_def)

lemma cross_signals_shape:
  "(fst (cross_signals p l d) = [] \<and> snd (cross_signals p l d) = 0 \<and>
    \<not> (p \<le> 0 \<and> 0 < l) \<and> \<not> (0 \<le> p \<and> l < 0)) \<or>
   (\<exists>x. fst (cross_signals p l d) = [x] \<and> ms_confidence x = None \<and>
        snd (cross_signals p l d) = cross_confidence d \<and>
        ((p \<le> 0 \<and> 0 < l) \<or> (0 \<le> p \<and> l < 0)))"
  by (auto simp: cross_signals_def signal_def)

lemma roc_signals_shape:
  "roc_signals cfg tr v sc = sc \<or>
   (\<exists>x. roc_signals cfg tr v sc = (fst sc @ [x], max (snd sc) (capped_confidence 0.8 0.5 v)) \<and>
        ms_confidence x = None \<and>
        (ms_reason x = Momentum_positivo_em_alta \<or> ms_reason x = Momentum_negativo_em_baixa))"
  by (auto simp: roc_signals_def signal_def)

lemma momentum_stages:
  fixes sc1 sc2 :: "microsignal list \<times> real"
  assumes sc1: "sc1 = cross_signals p l d \<or> sc1 = ([], 0)"
    and sc2: "sc2 = roc_signals cfg tr v sc1"
  shows "(signal Compra Golden_Cross \<in> set (fst sc2) \<longleftrightarrow>
            signal Compra Golden_Cross \<in> set (fst sc1)) \<and>
         (signal Venda Death_Cross \<in> set (fst sc2) \<longleftrightarrow>
            signal Venda Death_Cross \<in> set (fst sc1)) \<and>
         (\<forall>s \<in> set (fst sc2). ms_confidence s = None) \<and>
         snd sc1 \<le> snd sc2 \<and> 0 \<le> snd sc2 \<and> snd sc2 \<le> 0.85 \<and>
         (length (fst sc2) = length (fst sc1) \<longrightarrow> snd sc2 = snd sc1)"
proof -
  have p1: "(\<forall>s \<in> set (fst sc1). ms_confidence s = None) \<and> 0 \<le> snd sc1 \<and> snd sc1 \<le> 0.85"
  proof -
    from sc1 cross_signals_shape[of p l d]
    consider "fst sc1 = []" "snd sc1 = 0"
      | x where "fst sc1 = [x]" "ms_confidence x = None" "snd sc1 = cross_confidence d"
      by auto
    then show ?thesis
    proof cases
      case 1
      then show ?thesis by simp
    next
      case 2
      with cross_confidence_bounds[of d] show ?thesis by simp
    qed
  qed
  from sc2 roc_signals_shape[of cfg tr v sc1]
  consider "sc2 = sc1"
    | x where "sc2 = (fst sc1 @ [x], max (snd sc1) (capped_confidence 0.8 0.5 v))"
        "ms_confidence x = None"
        "ms_reason x = Momentum_positivo_em_alta \<or> ms_reason x = Momentum_negativo_em_baixa"
    by auto
  then show ?thesis
  proof cases
    case 1
    with p1 show ?thesis by simp
  next
    case 2
    have ng: "x \<noteq> signal Compra Golden_Cross" "x \<noteq> signal Venda Death_Cross"
      using 2(3) by (auto simp: signal_def)
    have "max (snd sc1) (capped_confidence 0.8 0.5 v) \<le> 0.85"
      using p1 capped_confidence_bounds[of v] by (simp add: max_def)
    with 2 p1 ng show ?thesis by auto
  qed
qed

lemma analyze_momentum_Invalid:
  assumes "length (rows df) < slow_period cfg"
  shows "analyze_momentum cfg (Some df) = Invalid"
  using assms validated_basic(4)[of cfg df "''momentum''"]
  by (simp add: analyze_momentum_def Let_def)

lemma analyze_momentum_Valid:
  assumes "momentum_enabled cfg" and "rows df \<noteq> []"
    and "prices = map ultimo (rows df)" and "n = length prices" and "slow_period cfg \<le> n"
  shows "\<exists>r sc1. analyze_momentum cfg (Some df) = Valid r \<and>
           sc1 = (if 3 \<le> n then cross_signals (ma_diff cfg prices (n - 2))
                                  (ma_diff cfg prices (n - 1)) (ma_diff_pct cfg prices (n - 1))
                  else ([], 0)) \<and>
           ma_diff_last r = ma_diff cfg prices (n - 1) \<and>
           ma_diff_pct_last r = ma_diff_pct cfg prices (n - 1) \<and>
           mo_signals r = fst (roc_signals cfg (mo_trend r) (roc_5 r) sc1) \<and>
           mo_confidence r = snd (roc_signals cfg (mo_trend r) (roc_5 r) sc1)"
proof -
  have pr: "map ultimo (rows (validated cfg df ''momentum'')) = prices"
    using assms(3) by (simp add: validated_basic(1))
  have ln: "length (rows (validated cfg df ''momentum'')) = n"
    using assms(3,4) by (simp add: validated_basic(4))
  have "\<not> n < slow_period cfg" using assms(5) by simp
  then show ?thesis
    using assms(1,2) unfolding analyze_momentum_def Let_def
    by (simp add: pr ln assms(4)[symmetric])
qed

text \<open>
  Claim C8, as the code has it. With fewer than \<open>slow_period\<close> rows the result is invalid.
  Otherwise it is valid; the golden-cross purchase is among its microsignals exactly when
  the frame has at least 3 rows and the difference of the moving averages goes from
  \<open>\<le> 0\<close> on the previous row to \<open>> 0\<close> on the last, and the death-cross sale exactly
  when it goes from \<open>\<ge> 0\<close> to \<open>< 0\<close>. After a crossing the confidence of the module result
  lies between min(0.85, 0.6 + 5 |diff_pct|) and 0.85, and equals the former when the
  crossing is the only microsignal (the rate-of-change confirmation can only raise it).
\<close>

theorem momentum_cross_detection:
  assumes "momentum_enabled cfg" and "rows df \<noteq> []"
    and "prices = map ultimo (rows df)" and "n = length prices"
    and "prev_diff = ma_diff cfg prices (n - 2)" and "last_diff = ma_diff cfg prices (n - 1)"
  shows "(n < slow_period cfg \<longrightarrow> analyze_momentum cfg (Some df) = Invalid) \<and>
         (slow_period cfg \<le> n \<longrightarrow>
            (\<exists>r. analyze_momentum cfg (Some df) = Valid r \<and>
               (signal Compra Golden_Cross \<in> set (mo_signals r) \<longleftrightarrow>
                  3 \<le> n \<and> prev_diff \<le> 0 \<and> 0 < last_diff) \<and>
               (signal Venda Death_Cross \<in> set (mo_signals r) \<longleftrightarrow>
                  3 \<le> n \<and> 0 \<le> prev_diff \<and> last_diff < 0) \<and>
               (3 \<le> n \<and> ((prev_diff \<le> 0 \<and> 0 < last_diff) \<or> (0 \<le> prev_diff \<and> last_diff < 0)) \<longrightarrow>
                  min 0.85 (0.6 + \<bar>ma_diff_pct_last r\<bar> * 5) \<le> mo_confidence r \<and>
                  mo_confidence r \<le> 0.85 \<and>
                  (length (mo_signals r) = 1 \<longrightarrow>
                     mo_confidence r = min 0.85 (0.6 + \<bar>ma_diff_pct_last r\<bar> * 5)))))"
proof (intro conjI impI)
  assume "n < slow_period cfg"
  then show "analyze_momentum cfg (Some df) = Invalid"
    using assms(3,4) by (intro analyze_momentum_Invalid) simp
next
  assume slow: "slow_period cfg \<le> n"
  from analyze_momentum_Valid[OF assms(1-4) slow]
  obtain r sc1 where r: "analyze_momentum cfg (Some df) = Valid r"
    and sc1': "sc1 = (if 3 \<le> n then cross_signals (ma_diff cfg prices (n - 2))
                                  (ma_diff cfg prices (n - 1)) (ma_diff_pct cfg prices (n - 1))
                  else ([], 0))"
    and pct: "ma_diff_pct_last r = ma_diff_pct cfg prices (n - 1)"
    and sg: "mo_signals r = fst (roc_signals cfg (mo_trend r) (roc_5 r) sc1)"
    and cf: "mo_confidence r = snd (roc_signals cfg (mo_trend r) (roc_5 r) sc1)"
    by blast
  have sc1: "sc1 = (if 3 \<le> n then cross_signals prev_diff last_diff (ma_diff_pct_last r)
                     else ([], 0))"
    unfolding sc1' pct assms(5,6) by (rule refl)
  have alt: "sc1 = cross_signals prev_diff last_diff (ma_diff_pct_last r) \<or> sc1 = ([], 0)"
    using sc1 by simp
  note st = momentum_stages[OF alt refl, of cfg "mo_trend r" "roc_5 r"]
  have golden: "signal Compra Golden_Cross \<in> set (mo_signals r) \<longleftrightarrow>
                  3 \<le> n \<and> prev_diff \<le> 0 \<and> 0 < last_diff"
    using st sg sc1 cross_signals_golden[of prev_diff last_diff "ma_diff_pct_last r"]
    by (simp split: if_splits)
  have death: "signal Venda Death_Cross \<in> set (mo_signals r) \<longleftrightarrow>
                  3 \<le> n \<and> 0 \<le> prev_diff \<and> last_diff < 0"
    using st sg sc1 cross_signals_death[of prev_diff last_diff "ma_diff_pct_last r"]
    by (simp split: if_splits)
  have conf: "min 0.85 (0.6 + \<bar>ma_diff_pct_last r\<bar> * 5) \<le> mo_confidence r \<and>
              mo_confidence r \<le> 0.85 \<and>
              (length (mo_signals r) = 1 \<longrightarrow>
                 mo_confidence r = min 0.85 (0.6 + \<bar>ma_diff_pct_last r\<bar> * 5))"
    if "3 \<le> n \<and> ((prev_diff \<le> 0 \<and> 0 < last_diff) \<or> (0 \<le> prev_diff \<and> last_diff < 0))"
  proof -
    from that sc1 cross_signals_shape[of prev_diff last_diff "ma_diff_pct_last r"]
    obtain x where "fst sc1 = [x]" "snd sc1 = cross_confidence (ma_diff_pct_last r)"
      by auto
    with st sg cf show ?thesis
      by (simp add: cross_confidence_def del: min_less_iff_conj min.bounded_iff)
  qed
  show "\<exists>r. analyze_momentum cfg (Some df) = Valid r \<and>
               (signal Compra Golden_Cross \<in> set (mo_signals r) \<longleftrightarrow>
                  3 \<le> n \<and> prev_diff \<le> 0 \<and> 0 < last_diff) \<and>
               (signal Venda Death_Cross \<in> set (mo_signals r) \<longleftrightarrow>
                  3 \<le> n \<and> 0 \<le> prev_diff \<and> last_diff < 0) \<and>
               (3 \<le> n \<and> ((prev_diff \<le> 0 \<and> 0 < last_diff) \<or> (0 \<le> prev_diff \<and> last_diff < 0)) \<longrightarrow>
                  min 0.85 (0.6 + \<bar>ma_diff_pct_last r\<bar> * 5) \<le> mo_confidence r \<and>
                  mo_confidence r \<le> 0.85 \<and>
                  (length (mo_signals r) = 1 \<longrightarrow>
                     mo_confidence r = min 0.85 (0.6 + \<bar>ma_diff_pct_last r\<bar> * 5)))"
    using r golden death conf by blast
qed

subsection \<open>Decision engine\<close>

lemma aggregate_confidence_spec:
  "aggregate_confidence ar filtered =
     Max (insert (mean_confidence filtered) (set (valid_confidences ar)))"
  by (cases "ar_wyckoff ar"; cases "ar_order_flow ar"; cases "ar_momentum ar")
    (simp_all add: aggregate_confidence_def valid_confidences_def Let_def max.assoc)

lemma aggregate_confidence_all_valid:
  assumes "ar_wyckoff ar = Valid w" and "ar_order_flow ar = Valid f" and "ar_momentum ar = Valid m"
  shows "aggregate_confidence ar filtered =
           max (mean_confidence filtered)
               (max (wk_confidence w) (max (of_confidence f) (mo_confidence m)))"
  using assms by (simp add: aggregate_confidence_def Let_def max.assoc)

lemma generate_trading_signal_Some:
  assumes "generate_trading_signal cfg asset profile_name now ar db st = (Some d, st')"
  shows "confidence d = aggregate_confidence ar (filtered_signals (all_signals ar)) \<and>
         filtered_signals (all_signals ar) \<noteq> [] \<and>
         min_confidence cfg \<le> confidence d \<and>
         risk_reward_min cfg \<le> risk_reward_ratio d \<and>
         risk_reward_ratio d =
           (if 0 < \<bar>entry_price d - stop_loss d\<bar>
            then \<bar>take_profit d - entry_price d\<bar> / \<bar>entry_price d - stop_loss d\<bar> else 0)"
  using assms
  by (auto simp: generate_trading_signal_def Let_def split: if_splits option.splits prod.splits)

lemma generate_trading_signal_type:
  assumes "generate_trading_signal cfg asset profile_name now ar db st = (Some d, st')"
  shows "ts_type d = predominant_type (all_signals ar)"
  using assms
  by (auto simp: generate_trading_signal_def Let_def split: if_splits option.splits prod.splits)

text \<open>The source's counting, filtering and averaging against the specification's.\<close>

lemma count_list_map_filter:
  "count_list (map f xs) y = length (filter (\<lambda>x. f x = y) xs)"
  by (induction xs) simp_all

lemma sum_list_filter_cond:
  "sum_list (map g (filter P xs)) = (\<Sum>x\<leftarrow>xs. if P x then g x else (0::real))"
  by (induction xs) simp_all

lemma predominant_type_majority:
  assumes "majority_direction sigs d"
  shows "predominant_type sigs = d"
  using assms
  by (cases d)
     (simp_all add: majority_direction_def direction_count_def count_list_map_filter
        predominant_type_def Let_def)

lemma mean_confidence_majority:
  assumes "majority_direction sigs d"
  shows "mean_confidence (filtered_signals sigs) = spec_mean_confidence d sigs"
proof -
  have f: "filtered_signals sigs = filter (\<lambda>s. ms_type s = d) sigs"
    by (simp add: filtered_signals_def predominant_type_majority[OF assms])
  have n: "length (filter (\<lambda>s. ms_type s = d) sigs) = direction_count d sigs"
    by (simp add: direction_count_def count_list_map_filter)
  have m: "sum_list (map (\<lambda>s. case ms_confidence s of None \<Rightarrow> 0 | Some c \<Rightarrow> c)
                       (filter (\<lambda>s. ms_type s = d) sigs)) =
           (\<Sum>s\<leftarrow>sigs. if ms_type s = d then carried_confidence s else 0)"
    unfolding carried_confidence_def by (rule sum_list_filter_cond)
  show ?thesis
    unfolding f mean_confidence_def spec_mean_confidence_def n m by (rule refl)
qed

text \<open>
  Claim C5. Whenever one direction has more microsignals than the other, the source
  takes it as the predominant type and the confidence it computes for the decision is
  the largest of the mean confidence of the microsignals of that direction and the
  confidences of the valid module results; an emitted decision has that direction and
  carries exactly that confidence. With all three modules valid it is the larger of the
  mean and the largest of the three module confidences. The microsignals the three
  analyses build carry no confidence, and for such microsignals the mean is 0.
\<close>

theorem aggregated_confidence_is_max:
  assumes "majority_direction (all_signals ar) d"
  shows "predominant_type (all_signals ar) = d \<and>
         filtered_signals (all_signals ar) = filter (\<lambda>s. ms_type s = d) (all_signals ar) \<and>
         aggregate_confidence ar (filtered_signals (all_signals ar)) = spec_confidence d ar \<and>
         (generate_trading_signal cfg asset profile_name now ar db st = (Some dec, st') \<longrightarrow>
            ts_type dec = d \<and> confidence dec = spec_confidence d ar) \<and>
         (ar_wyckoff ar = Valid w \<and> ar_order_flow ar = Valid f \<and> ar_momentum ar = Valid m \<longrightarrow>
            spec_confidence d ar =
              max (spec_mean_confidence d (all_signals ar))
                  (max (wk_confidence w) (max (of_confidence f) (mo_confidence m)))) \<and>
         ((\<forall>s \<in> set (all_signals ar). ms_confidence s = None) \<longrightarrow>
            spec_mean_confidence d (all_signals ar) = 0)"
proof -
  have none: "spec_mean_confidence d (all_signals ar) = 0"
    if "\<forall>s \<in> set (all_signals ar). ms_confidence s = None"
  proof -
    have "(\<Sum>s\<leftarrow>sigs. if ms_type s = d then carried_confidence s else 0) = 0"
      if "\<forall>s \<in> set sigs. ms_confidence s = None" for sigs
      using that by (induction sigs) (simp_all add: carried_confidence_def)
    with that show ?thesis by (simp add: spec_mean_confidence_def)
  qed
  have pt: "predominant_type (all_signals ar) = d"
    by (rule predominant_type_majority[OF assms])
  have fl: "filtered_signals (all_signals ar) = filter (\<lambda>s. ms_type s = d) (all_signals ar)"
    by (simp add: filtered_signals_def pt)
  have mc: "mean_confidence (filtered_signals (all_signals ar)) =
              spec_mean_confidence d (all_signals ar)"
    by (rule mean_confidence_majority[OF assms])
  have eq: "aggregate_confidence ar (filtered_signals (all_signals ar)) = spec_confidence d ar"
    unfolding aggregate_confidence_spec mc spec_confidence_def by (rule refl)
  have dec: "ts_type dec = d \<and> confidence dec = spec_confidence d ar"
    if "generate_trading_signal cfg asset profile_name now ar db st = (Some dec, st')"
    using generate_trading_signal_Some[OF that] generate_trading_signal_type[OF that] pt eq
    by simp
  have three: "spec_confidence d ar =
              max (spec_mean_confidence d (all_signals ar))
                  (max (wk_confidence w) (max (of_confidence f) (mo_confidence m)))"
    if "ar_wyckoff ar = Valid w \<and> ar_order_flow ar = Valid f \<and> ar_momentum ar = Valid m"
    using aggregate_confidence_all_valid[of ar w f m "filtered_signals (all_signals ar)"] that
    unfolding eq mc by simp
  from pt fl eq dec three none show ?thesis by blast
qed

subsection \<open>Bounds on what the analyses hand to the decision\<close>

lemma cause_and_effect_Valid:
  assumes "cause_and_effect p res = Valid r"
  shows "wk_signals r = wk_signals res \<and> wk_confidence r = wk_confidence res"
  using assms
  by (auto simp: cause_and_effect_def Let_def split: option.splits phase.splits)

lemma support_resistance_shape:
  assumes "wk_signals res = []" and "wk_confidence res = 0"
  shows "(\<forall>s \<in> set (wk_signals (support_resistance rs res)). ms_confidence s = None) \<and>
         0 \<le> wk_confidence (support_resistance rs res) \<and>
         wk_confidence (support_resistance rs res) \<le> 0.7"
  using assms by (simp add: support_resistance_def Let_def signal_def)

lemma analyze_wyckoff_bounds:
  assumes "analyze_wyckoff cfg fo = Valid r"
  shows "(\<forall>s \<in> set (wk_signals r). ms_confidence s = None) \<and>
         0 \<le> wk_confidence r \<and> wk_confidence r \<le> 0.7"
proof -
  from assms obtain df where fo: "fo = Some df"
    by (cases fo) (simp_all add: analyze_wyckoff_def)
  define dfv where "dfv = validated cfg df ''wyckoff''"
  define res where "res = \<lparr>wk_phase = None, wk_signals = [], wk_confidence = 0,
                            support_level = None, resistance_level = None,
                            wk_volume_analysis = analyze_volume dfv,
                            position_in_range = None, potential_target = None,
                            wk_risk_reward = None\<rparr>"
  define res2 where "res2 = (if length (rows dfv) \<ge> 10 then support_resistance (rows dfv) res
                             else res)"
  have ok: "rows df \<noteq> []" "wyckoff_enabled cfg"
    using assms unfolding fo by (auto simp: analyze_wyckoff_def split: if_splits)
  have "cause_and_effect (ultimo (from_end (rows dfv) 1)) res2 = Valid r"
    using assms ok unfolding fo
    by (cases "10 \<le> length (rows dfv)")
      (simp_all add: analyze_wyckoff_def Let_def dfv_def[symmetric] res2_def res_def)
  from cause_and_effect_Valid[OF this]
  have keep: "wk_signals r = wk_signals res2" "wk_confidence r = wk_confidence res2" by simp_all
  have "(\<forall>s \<in> set (wk_signals res2). ms_confidence s = None) \<and>
        0 \<le> wk_confidence res2 \<and> wk_confidence res2 \<le> 0.7"
    using support_resistance_shape[of res "rows dfv"]
    by (simp add: res2_def res_def)
  with keep show ?thesis by simp
qed

lemma analyze_order_flow_bounds:
  assumes "analyze_order_flow cfg fo = Valid r"
  shows "(\<forall>s \<in> set (of_signals r). ms_confidence s = None) \<and>
         0 \<le> of_confidence r \<and> of_confidence r \<le> 0.9"
proof -
  from assms obtain df where fo: "fo = Some df"
    by (cases fo) (simp_all add: analyze_order_flow_def)
  from analyze_order_flow_Valid[OF assms[unfolded fo] refl]
  show ?thesis by blast
qed

lemma analyze_momentum_bounds:
  assumes "analyze_momentum cfg fo = Valid r"
  shows "(\<forall>s \<in> set (mo_signals r). ms_confidence s = None) \<and>
         0 \<le> mo_confidence r \<and> mo_confidence r \<le> 0.85"
proof -
  from assms obtain df where fo: "fo = Some df"
    by (cases fo) (simp_all add: analyze_momentum_def)
  have en: "momentum_enabled cfg" and ne: "rows df \<noteq> []"
    using assms unfolding fo by (auto simp: analyze_momentum_def split: if_splits)
  have slow: "slow_period cfg \<le> length (map ultimo (rows df))"
    using assms analyze_momentum_Invalid[of df cfg] unfolding fo by (cases "length (rows df) < slow_period cfg") simp_all
  from analyze_momentum_Valid[OF en ne refl refl slow] assms[unfolded fo]
  obtain sc1 where sc1: "sc1 = (if 3 \<le> length (map ultimo (rows df))
        then cross_signals (ma_diff cfg (map ultimo (rows df)) (length (map ultimo (rows df)) - 2))
               (ma_diff cfg (map ultimo (rows df)) (length (map ultimo (rows df)) - 1))
               (ma_diff_pct cfg (map ultimo (rows df)) (length (map ultimo (rows df)) - 1))
        else ([], 0))"
    and sg: "mo_signals r = fst (roc_signals cfg (mo_trend r) (roc_5 r) sc1)"
    and cf: "mo_confidence r = snd (roc_signals cfg (mo_trend r) (roc_5 r) sc1)"
    by auto
  have alt: "sc1 = cross_signals (ma_diff cfg (map ultimo (rows df)) (length (map ultimo (rows df)) - 2))
               (ma_diff cfg (map ultimo (rows df)) (length (map ultimo (rows df)) - 1))
               (ma_diff_pct cfg (map ultimo (rows df)) (length (map ultimo (rows df)) - 1)) \<or>
             sc1 = ([], 0)"
    using sc1 by simp
  from momentum_stages[OF alt refl, of cfg "mo_trend r" "roc_5 r"] sg cf
  show ?thesis by simp
qed

lemma mean_confidence_none:
  assumes "\<forall>s \<in> set sigs. ms_confidence s = None"
  shows "mean_confidence sigs = 0"
proof -
  have "map (\<lambda>s. case ms_confidence s of None \<Rightarrow> 0 | Some c \<Rightarrow> c) sigs = map (\<lambda>s. 0::real) sigs"
    using assms by (intro map_cong) simp_all
  then show ?thesis by (simp only: mean_confidence_def) simp
qed

lemma pipeline_confidence_bounds:
  assumes w: "ar_wyckoff ar = analyze_wyckoff cfg fo"
    and f: "ar_order_flow ar = analyze_order_flow cfg fo"
    and m: "ar_momentum ar = analyze_momentum cfg fo"
  shows "0 \<le> aggregate_confidence ar (filtered_signals (all_signals ar)) \<and>
         aggregate_confidence ar (filtered_signals (all_signals ar)) \<le> 0.9"
proof -
  have wv: "analyze_wyckoff cfg fo = Valid r \<longleftrightarrow> ar_wyckoff ar = Valid r" for r
    using w by auto
  have fv: "analyze_order_flow cfg fo = Valid r \<longleftrightarrow> ar_order_flow ar = Valid r" for r
    using f by auto
  have mv: "analyze_momentum cfg fo = Valid r \<longleftrightarrow> ar_momentum ar = Valid r" for r
    using m by auto
  have ws: "\<forall>s \<in> set (wyckoff_signals ar). ms_confidence s = None"
  proof (cases "ar_wyckoff ar")
    case Invalid
    then show ?thesis by (simp add: wyckoff_signals_def)
  next
    case (Valid r)
    with analyze_wyckoff_bounds[of cfg fo r] wv[of r] show ?thesis
      by (simp add: wyckoff_signals_def)
  qed
  have fs: "\<forall>s \<in> set (order_flow_signals ar). ms_confidence s = None"
  proof (cases "ar_order_flow ar")
    case Invalid
    then show ?thesis by (simp add: order_flow_signals_def)
  next
    case (Valid r)
    with analyze_order_flow_bounds[of cfg fo r] fv[of r] show ?thesis
      by (simp add: order_flow_signals_def)
  qed
  have ms: "\<forall>s \<in> set (momentum_signals ar). ms_confidence s = None"
  proof (cases "ar_momentum ar")
    case Invalid
    then show ?thesis by (simp add: momentum_signals_def)
  next
    case (Valid r)
    with analyze_momentum_bounds[of cfg fo r] mv[of r] show ?thesis
      by (simp add: momentum_signals_def)
  qed
  have "\<forall>s \<in> set (filtered_signals (all_signals ar)). ms_confidence s = None"
    using ws fs ms by (auto simp: filtered_signals_def all_signals_def)
  then have c0: "mean_confidence (filtered_signals (all_signals ar)) = 0"
    by (rule mean_confidence_none)
  have wb: "0 \<le> wk_confidence r \<and> wk_confidence r \<le> 0.9" if "ar_wyckoff ar = Valid r" for r
    using analyze_wyckoff_bounds[of cfg fo r] wv[of r] that by simp
  have fb: "0 \<le> of_confidence r \<and> of_confidence r \<le> 0.9" if "ar_order_flow ar = Valid r" for r
    using analyze_order_flow_bounds[of cfg fo r] fv[of r] that by simp
  have mb: "0 \<le> mo_confidence r \<and> mo_confidence r \<le> 0.9" if "ar_momentum ar = Valid r" for r
    using analyze_momentum_bounds[of cfg fo r] mv[of r] that by simp
  show ?thesis
    unfolding aggregate_confidence_def Let_def c0
    using wb fb mb
    by (cases "ar_wyckoff ar"; cases "ar_order_flow ar"; cases "ar_momentum ar")
      (simp_all add: max_def)
qed

lemma analyze_asset_with_profile_Some:
  assumes "analyze_asset_with_profile cfg asset profile_name now fo db st = (Some d, st')"
  shows "\<exists>ar st1. ar_wyckoff ar = analyze_wyckoff cfg fo \<and>
           ar_order_flow ar = analyze_order_flow cfg fo \<and>
           ar_momentum ar = analyze_momentum cfg fo \<and>
           generate_trading_signal cfg asset profile_name now ar db st1 = (Some d, st')"
proof -
  from assms obtain df where fo: "fo = Some df"
    by (cases fo) (simp_all add: analyze_asset_with_profile_def split: if_splits)
  let ?ar = "\<lparr>ar_wyckoff = analyze_wyckoff cfg (Some df),
              ar_order_flow = analyze_order_flow cfg (Some df),
              ar_momentum = analyze_momentum cfg (Some df)\<rparr>"
  let ?st1 = "st\<lparr>market_data := (market_data st)(asset \<mapsto> ultimo (from_end (rows df) 1))\<rparr>"
  have "generate_trading_signal cfg asset profile_name now ?ar db ?st1 = (Some d, st')"
    using assms unfolding fo
    by (simp add: analyze_asset_with_profile_def Let_def split: if_splits)
  then show ?thesis
    unfolding fo by (intro exI[of _ ?ar] exI[of _ ?st1]) simp
qed

text \<open>
  Claim C4, as the code has it. Every decision an evaluation emits has a confidence between
  0 and 1 (in fact at most 0.9) and a risk/reward ratio of at least the profile's minimum.
  The ratio is |target - entry| / |entry - stop| whenever the stop differs from the entry,
  and 0 when they coincide; with a positive minimum they always differ.
\<close>

theorem emitted_decision_invariants:
  assumes "analyze_asset_with_profile cfg asset profile_name now fo db st = (Some d, st')"
  shows "0 \<le> confidence d \<and> confidence d \<le> 1 \<and>
         risk_reward_min cfg \<le> risk_reward_ratio d \<and>
         (entry_price d \<noteq> stop_loss d \<longrightarrow>
            risk_reward_ratio d =
              \<bar>take_profit d - entry_price d\<bar> / \<bar>entry_price d - stop_loss d\<bar>) \<and>
         (entry_price d = stop_loss d \<longrightarrow> risk_reward_ratio d = 0) \<and>
         (0 < risk_reward_min cfg \<longrightarrow> entry_price d \<noteq> stop_loss d)"
proof -
  from analyze_asset_with_profile_Some[OF assms]
  obtain ar st1 where ar: "ar_wyckoff ar = analyze_wyckoff cfg fo"
      "ar_order_flow ar = analyze_order_flow cfg fo" "ar_momentum ar = analyze_momentum cfg fo"
    and g: "generate_trading_signal cfg asset profile_name now ar db st1 = (Some d, st')"
    by blast
  note s = generate_trading_signal_Some[OF g]
  note b = pipeline_confidence_bounds[OF ar]
  from s b have conf: "0 \<le> confidence d \<and> confidence d \<le> 1" by simp
  from s have rr: "risk_reward_min cfg \<le> risk_reward_ratio d"
    and form: "risk_reward_ratio d =
           (if 0 < \<bar>entry_price d - stop_loss d\<bar>
            then \<bar>take_profit d - entry_price d\<bar> / \<bar>entry_price d - stop_loss d\<bar> else 0)"
    by simp_all
  have ne: "entry_price d \<noteq> stop_loss d" if "0 < risk_reward_min cfg"
  proof
    assume "entry_price d = stop_loss d"
    with form have "risk_reward_ratio d = 0" by simp
    with rr that show False by simp
  qed
  from conf rr form ne show ?thesis by auto
qed

subsection \<open>Rate limit\<close>

lemma generate_trading_signal_stamp:
  assumes "generate_trading_signal cfg asset profile_name now ar db st = (r, st')"
  shows "(case r of
            None \<Rightarrow> st' = st
          | Some d \<Rightarrow>
              timestamp d = now \<and> ts_asset d = asset \<and> strategy_profile d = profile_name \<and>
              st' = st\<lparr>last_signal_time :=
                        (last_signal_time st)(signal_key asset profile_name \<mapsto> now)\<rparr> \<and>
              (\<forall>t. last_signal_time st (signal_key asset profile_name) = Some t \<longrightarrow>
                   signal_interval cfg \<le> now - t))"
  using assms
  by (auto simp: generate_trading_signal_def Let_def split: if_splits option.splits prod.splits)


lemma analyze_asset_with_profile_stamp:
  assumes "analyze_asset_with_profile cfg asset profile_name now frame_opt db st = (r, st')"
  shows "(case r of
            None \<Rightarrow> last_signal_time st' = last_signal_time st
          | Some d \<Rightarrow>
              timestamp d = now \<and> ts_asset d = asset \<and> strategy_profile d = profile_name \<and>
              last_signal_time st' =
                (last_signal_time st)(signal_key asset profile_name \<mapsto> now) \<and>
              (\<forall>t. last_signal_time st (signal_key asset profile_name) = Some t \<longrightarrow>
                   signal_interval cfg \<le> now - t))"
proof (cases "profile_enabled cfg \<and> frame_opt \<noteq> None \<and> rows (the frame_opt) \<noteq> [] \<and>
              \<not> length (rows (the frame_opt)) < min_data_points cfg")
  case False
  with assms have "r = None \<and> st' = st"
    by (auto simp: analyze_asset_with_profile_def split: option.splits if_splits)
  then show ?thesis by simp
next
  case True
  then obtain df where df: "frame_opt = Some df" by auto
  define st1 where "st1 = st\<lparr>market_data :=
                              (market_data st)(asset \<mapsto> ultimo (from_end (rows df) 1))\<rparr>"
  define ar where "ar = \<lparr>ar_wyckoff = analyze_wyckoff cfg (Some df),
                          ar_order_flow = analyze_order_flow cfg (Some df),
                          ar_momentum = analyze_momentum cfg (Some df)\<rparr>"
  have "generate_trading_signal cfg asset profile_name now ar db st1 = (r, st')"
    using assms True df by (simp add: analyze_asset_with_profile_def Let_def st1_def ar_def)
  from generate_trading_signal_stamp[OF this]
  show ?thesis by (cases r) (simp_all add: st1_def)
qed

lemma analyzer_run_spacing:
  assumes nonneg: "\<And>p. 0 \<le> signal_interval (cfgs p)"
    and run: "analyzer_run cfgs evs st = (ds, st')"
  shows "(\<forall>d \<in> set ds. \<forall>t. last_signal_time st (decision_key d) = Some t \<longrightarrow>
            signal_interval (cfgs (strategy_profile d)) \<le> timestamp d - t) \<and>
         (\<forall>j < length ds. \<forall>i < j. decision_key (ds ! i) = decision_key (ds ! j) \<longrightarrow>
            signal_interval (cfgs (strategy_profile (ds ! j))) \<le> timestamp (ds ! j) - timestamp (ds ! i))"
  using run
proof (induction evs arbitrary: st ds st')
  case Nil
  then show ?case by simp
next
  case (Cons e es)
  obtain r st1 where step: "analyze_asset_with_profile (cfgs (ev_profile e)) (ev_asset e)
      (ev_profile e) (ev_now e) (ev_frame e) (ev_db_last_price e) st = (r, st1)"
    by (cases "analyze_asset_with_profile (cfgs (ev_profile e)) (ev_asset e)
      (ev_profile e) (ev_now e) (ev_frame e) (ev_db_last_price e) st") blast
  obtain ds1 st2 where rest: "analyzer_run cfgs es st1 = (ds1, st2)"
    by (cases "analyzer_run cfgs es st1") blast
  note IH = Cons.IH[OF rest]
  note stamp = analyze_asset_with_profile_stamp[OF step]
  show ?case
  proof (cases r)
    case None
    with step rest Cons.prems have "ds = ds1" by simp
    moreover from None stamp have "last_signal_time st1 = last_signal_time st" by simp
    ultimately show ?thesis using IH by simp
  next
    case (Some d)
    with step rest Cons.prems have ds: "ds = d # ds1" by simp
    from Some stamp have
      td: "timestamp d = ev_now e" and
      kd: "decision_key d = signal_key (ev_asset e) (ev_profile e)" and
      pd: "strategy_profile d = ev_profile e" and
      led: "last_signal_time st1 = (last_signal_time st)(decision_key d \<mapsto> timestamp d)" and
      gap: "\<And>t. last_signal_time st (decision_key d) = Some t \<Longrightarrow>
              signal_interval (cfgs (strategy_profile d)) \<le> timestamp d - t"
      by (simp_all add: decision_key_def)
    have after: "signal_interval (cfgs (strategy_profile d')) \<le> timestamp d' - timestamp d"
      if "d' \<in> set ds1" "decision_key d' = decision_key d" for d'
      using IH that led by simp
    have A: "signal_interval (cfgs (strategy_profile d')) \<le> timestamp d' - t"
      if "d' \<in> set ds" "last_signal_time st (decision_key d') = Some t" for d' t
    proof (cases "d' = d")
      case True
      with gap that show ?thesis by simp
    next
      case False
      with that ds have mem: "d' \<in> set ds1" by simp
      show ?thesis
      proof (cases "decision_key d' = decision_key d")
        case True
        from after[OF mem True] gap[of t] that(2) True nonneg[of "strategy_profile d"]
        show ?thesis by simp
      next
        case False
        with led that(2) have "last_signal_time st1 (decision_key d') = Some t" by simp
        with IH mem show ?thesis by blast
      qed
    qed
    have B: "signal_interval (cfgs (strategy_profile (ds ! j))) \<le>
               timestamp (ds ! j) - timestamp (ds ! i)"
      if "j < length ds" "i < j" "decision_key (ds ! i) = decision_key (ds ! j)" for i j
    proof (cases i)
      case 0
      from that obtain j' where j': "j = Suc j'" by (cases j) auto
      with that ds have "ds1 ! j' \<in> set ds1" by simp
      from after[OF this] that 0 j' ds show ?thesis by simp
    next
      case (Suc i')
      from that obtain j' where j': "j = Suc j'" by (cases j) auto
      with that Suc ds IH show ?thesis by simp
    qed
    from A B show ?thesis by blast
  qed
qed

text \<open>
  Claim C3. In a run of the tick loop under non-negative signal intervals, two decisions
  emitted for the same asset and profile are at least that profile's interval apart. An
  evaluation stamps the ledger for its pair with its own time exactly when it emits a
  decision, and leaves the ledger alone otherwise; an evaluation that starts less than
  the interval after the pair's last stamp emits nothing.
\<close>

theorem rate_limit_spacing:
  assumes "\<And>p. 0 \<le> signal_interval (cfgs p)"
    and "ds = fst (analyzer_run cfgs evs st)"
  shows "(\<forall>j < length ds. \<forall>i < j.
            ts_asset (ds ! i) = ts_asset (ds ! j) \<and>
            strategy_profile (ds ! i) = strategy_profile (ds ! j) \<longrightarrow>
            signal_interval (cfgs (strategy_profile (ds ! j))) \<le>
              timestamp (ds ! j) - timestamp (ds ! i)) \<and>
         (case analyze_asset_with_profile cfg asset profile_name now fo db s of
            (None, s') \<Rightarrow> last_signal_time s' = last_signal_time s
          | (Some d, s') \<Rightarrow>
              timestamp d = now \<and>
              last_signal_time s' =
                (last_signal_time s)(signal_key asset profile_name \<mapsto> now)) \<and>
         (last_signal_time s (signal_key asset profile_name) = Some t \<and>
          now - t < signal_interval cfg \<longrightarrow>
            fst (analyze_asset_with_profile cfg asset profile_name now fo db s) = None)"
proof (intro conjI allI impI)
  fix j i
  assume j: "j < length ds" and i: "i < j"
    and same: "ts_asset (ds ! i) = ts_asset (ds ! j) \<and>
               strategy_profile (ds ! i) = strategy_profile (ds ! j)"
  obtain st' where run: "analyzer_run cfgs evs st = (ds, st')"
    using assms(2) by (cases "analyzer_run cfgs evs st") simp
  from same have "decision_key (ds ! i) = decision_key (ds ! j)"
    by (simp add: decision_key_def)
  with analyzer_run_spacing[OF assms(1) run] j i
  show "signal_interval (cfgs (strategy_profile (ds ! j))) \<le>
          timestamp (ds ! j) - timestamp (ds ! i)"
    by blast
next
  obtain r s' where step: "analyze_asset_with_profile cfg asset profile_name now fo db s = (r, s')"
    by (cases "analyze_asset_with_profile cfg asset profile_name now fo db s") blast
  from analyze_asset_with_profile_stamp[OF step]
  show "case analyze_asset_with_profile cfg asset profile_name now fo db s of
            (None, s') \<Rightarrow> last_signal_time s' = last_signal_time s
          | (Some d, s') \<Rightarrow>
              timestamp d = now \<and>
              last_signal_time s' =
                (last_signal_time s)(signal_key asset profile_name \<mapsto> now)"
    unfolding step by (cases r) simp_all
next
  assume a: "last_signal_time s (signal_key asset profile_name) = Some t \<and>
             now - t < signal_interval cfg"
  obtain r s' where step: "analyze_asset_with_profile cfg asset profile_name now fo db s = (r, s')"
    by (cases "analyze_asset_with_profile cfg asset profile_name now fo db s") blast
  have "r = None"
  proof (cases r)
    case None
    then show ?thesis .
  next
    case (Some d)
    with analyze_asset_with_profile_stamp[OF step] a
    have "signal_interval cfg \<le> now - t" by simp
    with a show ?thesis by simp
  qed
  with step show "fst (analyze_asset_with_profile cfg asset profile_name now fo db s) = None"
    by simp
qed

subsection \<open>The examples, evaluated\<close>

lemma example_ticks_run:
  "fst (analyzer_run (\<lambda>p. example_profile) example_ticks new_analyzer) =
     [absorbed_decision 0, absorbed_decision 400]"
  by code_simp

theorem rate_limit_witness:
  "(\<forall>p. 0 \<le> signal_interval ((\<lambda>p. example_profile) p)) \<and>
   fst (analyzer_run (\<lambda>p. example_profile) example_ticks new_analyzer) =
     [absorbed_decision 0, absorbed_decision 400] \<and>
   signal_interval example_profile \<le> timestamp (absorbed_decision 400) - timestamp (absorbed_decision 0)"
proof -
  have nonneg: "\<And>p. 0 \<le> signal_interval ((\<lambda>p. example_profile) p)"
    by (simp add: example_profile_def)
  have ds: "[absorbed_decision 0, absorbed_decision 400] =
              fst (analyzer_run (\<lambda>p. example_profile) example_ticks new_analyzer)"
    by (simp only: example_ticks_run)
  from rate_limit_spacing[OF nonneg ds]
  have "\<forall>j < length [absorbed_decision 0, absorbed_decision 400]. \<forall>i < j.
          ts_asset ([absorbed_decision 0, absorbed_decision 400] ! i) =
            ts_asset ([absorbed_decision 0, absorbed_decision 400] ! j) \<and>
          strategy_profile ([absorbed_decision 0, absorbed_decision 400] ! i) =
            strategy_profile ([absorbed_decision 0, absorbed_decision 400] ! j) \<longrightarrow>
          signal_interval ((\<lambda>p. example_profile)
              (strategy_profile ([absorbed_decision 0, absorbed_decision 400] ! j))) \<le>
            timestamp ([absorbed_decision 0, absorbed_decision 400] ! j) -
            timestamp ([absorbed_decision 0, absorbed_decision 400] ! i)"
    by blast
  from this[rule_format, of 1 0]
  have "signal_interval example_profile \<le>
          timestamp (absorbed_decision 400) - timestamp (absorbed_decision 0)"
    by (simp add: absorbed_decision_def)
  with nonneg example_ticks_run show ?thesis by simp
qed

text \<open>
  Against claim C4 as it is worded: under a profile whose minimum ratio is 0, the ten
  pinned bars yield a decision whose stop equals its entry; its ratio is recorded as 0,
  while |target - entry| / |entry - stop| has no value.
\<close>

theorem zero_risk_counterexample:
  "fst (analyze_asset_with_profile zero_minimum_profile ''winfut'' ''agressivo'' 0
          (Some pinned_frame) None new_analyzer) = Some zero_risk_decision \<and>
   \<bar>entry_price zero_risk_decision - stop_loss zero_risk_decision\<bar> = 0 \<and>
   \<bar>take_profit zero_risk_decision - entry_price zero_risk_decision\<bar> = 10 \<and>
   risk_reward_ratio zero_risk_decision = 0"
  by code_simp

lemma absorbed_evaluation:
  "fst (analyze_asset_with_profile example_profile ''winfut'' ''agressivo'' 0
          (Some absorbed_frame) None new_analyzer) = Some (absorbed_decision 0)"
  by code_simp

theorem emitted_decision_witness:
  "fst (analyze_asset_with_profile example_profile ''winfut'' ''agressivo'' 0
          (Some absorbed_frame) None new_analyzer) = Some (absorbed_decision 0) \<and>
   0 \<le> confidence (absorbed_decision 0) \<and> confidence (absorbed_decision 0) \<le> 1 \<and>
   risk_reward_min example_profile \<le> risk_reward_ratio (absorbed_decision 0) \<and>
   entry_price (absorbed_decision 0) \<noteq> stop_loss (absorbed_decision 0) \<and>
   risk_reward_ratio (absorbed_decision 0) =
     \<bar>take_profit (absorbed_decision 0) - entry_price (absorbed_decision 0)\<bar> /
     \<bar>entry_price (absorbed_decision 0) - stop_loss (absorbed_decision 0)\<bar>"
proof -
  obtain st' where run: "analyze_asset_with_profile example_profile ''winfut'' ''agressivo'' 0
          (Some absorbed_frame) None new_analyzer = (Some (absorbed_decision 0), st')"
    using absorbed_evaluation
    by (cases "analyze_asset_with_profile example_profile ''winfut'' ''agressivo'' 0
          (Some absorbed_frame) None new_analyzer") simp
  have pos: "0 < risk_reward_min example_profile"
    by (simp add: example_profile_def)
  from emitted_decision_invariants[OF run]
  have c: "0 \<le> confidence (absorbed_decision 0) \<and> confidence (absorbed_decision 0) \<le> 1"
    and m: "risk_reward_min example_profile \<le> risk_reward_ratio (absorbed_decision 0)"
    and q: "entry_price (absorbed_decision 0) \<noteq> stop_loss (absorbed_decision 0) \<longrightarrow>
            risk_reward_ratio (absorbed_decision 0) =
              \<bar>take_profit (absorbed_decision 0) - entry_price (absorbed_decision 0)\<bar> /
              \<bar>entry_price (absorbed_decision 0) - stop_loss (absorbed_decision 0)\<bar>"
    and n: "0 < risk_reward_min example_profile \<longrightarrow>
            entry_price (absorbed_decision 0) \<noteq> stop_loss (absorbed_decision 0)"
    by blast+
  from n pos have ne: "entry_price (absorbed_decision 0) \<noteq> stop_loss (absorbed_decision 0)"
    by blast
  from q ne have form: "risk_reward_ratio (absorbed_decision 0) =
              \<bar>take_profit (absorbed_decision 0) - entry_price (absorbed_decision 0)\<bar> /
              \<bar>entry_price (absorbed_decision 0) - stop_loss (absorbed_decision 0)\<bar>"
    by blast
  from absorbed_evaluation c m ne form show ?thesis by blast
qed

lemma mixed_majority: "majority_direction (all_signals mixed_results) Compra"
  by code_simp

lemma mixed_generate:
  "fst (generate_trading_signal example_profile ''winfut'' ''agressivo'' 0 mixed_results
          (Some 100) new_analyzer) = Some mixed_decision"
  by code_simp

lemma mixed_confidence:
  "spec_mean_confidence Compra (all_signals mixed_results) = 7 / 10 \<and>
   valid_confidences mixed_results = [3 / 10, 6 / 10] \<and>
   spec_confidence Compra mixed_results = 7 / 10 \<and>
   confidence mixed_decision = 7 / 10 \<and> ts_type mixed_decision = Compra"
  by code_simp

theorem aggregated_confidence_witness:
  "majority_direction (all_signals mixed_results) Compra \<and>
   predominant_type (all_signals mixed_results) = Compra \<and>
   aggregate_confidence mixed_results (filtered_signals (all_signals mixed_results)) =
     spec_confidence Compra mixed_results \<and>
   spec_mean_confidence Compra (all_signals mixed_results) = 7 / 10 \<and>
   valid_confidences mixed_results = [3 / 10, 6 / 10] \<and>
   spec_confidence Compra mixed_results = 7 / 10 \<and>
   fst (generate_trading_signal example_profile ''winfut'' ''agressivo'' 0 mixed_results
          (Some 100) new_analyzer) = Some mixed_decision \<and>
   ts_type mixed_decision = Compra \<and>
   confidence mixed_decision = spec_confidence Compra mixed_results"
proof -
  obtain st' where g: "generate_trading_signal example_profile ''winfut'' ''agressivo'' 0
      mixed_results (Some 100) new_analyzer = (Some mixed_decision, st')"
    using mixed_generate
    by (cases "generate_trading_signal example_profile ''winfut'' ''agressivo'' 0
      mixed_results (Some 100) new_analyzer") simp
  from aggregated_confidence_is_max[OF mixed_majority,
      of example_profile "''winfut''" "''agressivo''" 0 "Some 100" new_analyzer
         mixed_decision st']
  have pt: "predominant_type (all_signals mixed_results) = Compra"
    and eq: "aggregate_confidence mixed_results
               (filtered_signals (all_signals mixed_results)) =
             spec_confidence Compra mixed_results"
    and dec: "generate_trading_signal example_profile ''winfut'' ''agressivo'' 0
                mixed_results (Some 100) new_analyzer = (Some mixed_decision, st') \<longrightarrow>
              ts_type mixed_decision = Compra \<and>
              confidence mixed_decision = spec_confidence Compra mixed_results"
    by blast+
  from dec g have c: "confidence mixed_decision = spec_confidence Compra mixed_results"
    by blast
  from mixed_majority pt eq mixed_confidence mixed_generate c show ?thesis by blast
qed

text \<open>
  Against claim C7 as it is worded. On the ten quiet bars the moving average of the
  balance is 1/2 and the worded strength 5, above the threshold of 1.2, yet the source
  divides the balance by itself: strength 1 and no microsignal. On the twenty bars the
  aggression purchase fires with strength 20/9, for which min(0.9, 0.5 + strength/10) is
  13/18, while the module result carries the confidence 3/4 that the exhaustion
  sub-analysis left.
\<close>

theorem aggression_counterexample:
  "analyze_order_flow example_profile (Some quiet_frame) = Valid quiet_results \<and>
   strength (of_aggression_analysis quiet_results) = 1 \<and>
   of_signals quiet_results = [] \<and>
   spec_aggression_strength (map agressao_saldo (rows quiet_frame)) = 5 \<and>
   aggression_threshold example_profile < 5 \<and>
   analyze_order_flow example_profile (Some reversal_frame) = Valid reversal_results \<and>
   signal Compra Forte_agressao_compradora \<in> set (of_signals reversal_results) \<and>
   min 0.9 (0.5 + \<bar>strength (of_aggression_analysis reversal_results)\<bar> / 10) = 13 / 18 \<and>
   of_confidence reversal_results = 3 / 4"
  by code_simp

lemma reversal_analysis:
  "analyze_order_flow example_profile (Some reversal_frame) = Valid reversal_results"
  by code_simp

lemma reversal_saldo:
  "[0, 0, 0, 0, 0, 0, 0, 0, 0, 0, - 10, - 10, - 10, - 10, - 10, 0, 0, 0, 0, 5] =
     map agressao_saldo (rows (validated example_profile reversal_frame ''order_flow''))"
  by code_simp

theorem aggression_witness:
  "analyze_order_flow example_profile (Some reversal_frame) = Valid reversal_results \<and>
   strength (of_aggression_analysis reversal_results) =
     last [0, 0, 0, 0, 0, 0, 0, 0, 0, 0, - 10, - 10, - 10, - 10, - 10, 0, 0, 0, 0, 5 :: real] /
     max 1 \<bar>mean (tail 20 [0, 0, 0, 0, 0, 0, 0, 0, 0, 0, - 10, - 10, - 10, - 10, - 10,
                            0, 0, 0, 0, 5])\<bar> \<and>
   aggression_threshold example_profile < strength (of_aggression_analysis reversal_results) \<and>
   signal Compra Forte_agressao_compradora \<in> set (of_signals reversal_results) \<and>
   min 0.9 (0.5 + \<bar>strength (of_aggression_analysis reversal_results)\<bar> / 10)
     \<le> of_confidence reversal_results \<and>
   of_confidence reversal_results \<le> 0.9"
proof -
  let ?saldo = "[0, 0, 0, 0, 0, 0, 0, 0, 0, 0, - 10, - 10, - 10, - 10, - 10, 0, 0, 0, 0, 5 :: real]"
  have fired: "aggression_threshold example_profile <
                 strength (of_aggression_analysis reversal_results)"
    by (simp add: example_profile_def reversal_results_def)
  have long: "20 \<le> length ?saldo" and pos: "0 < last ?saldo" "last ?saldo \<noteq> 0"
    by simp_all
  from aggression_strength_and_signal[OF reversal_analysis reversal_saldo refl]
    fired long pos reversal_analysis
  show ?thesis by blast
qed

text \<open>
  Against claim C8 as it is worded. After twenty bars at 10 the difference of the moving
  averages is 0 on the previous row, so it does not come from above 0; the last bar at 4
  takes it to -9/10 and the death-cross sale is emitted.
\<close>

theorem death_cross_counterexample:
  "analyze_momentum example_profile (Some falling_frame) = Valid falling_results \<and>
   signal Venda Death_Cross \<in> set (mo_signals falling_results) \<and>
   length (rows falling_frame) = 21 \<and>
   ma_diff example_profile (map ultimo (rows falling_frame)) 19 = 0 \<and>
   \<not> 0 < ma_diff example_profile (map ultimo (rows falling_frame)) 19 \<and>
   ma_diff example_profile (map ultimo (rows falling_frame)) 20 = - (9 / 10)"
  by code_simp

lemma falling_analysis:
  "analyze_momentum example_profile (Some falling_frame) = Valid falling_results"
  by code_simp

theorem momentum_cross_witness:
  "momentum_enabled example_profile \<and> rows falling_frame \<noteq> [] \<and>
   slow_period example_profile \<le> length (map ultimo (rows falling_frame)) \<and>
   analyze_momentum example_profile (Some falling_frame) = Valid falling_results \<and>
   signal Venda Death_Cross \<in> set (mo_signals falling_results) \<and>
   signal Compra Golden_Cross \<notin> set (mo_signals falling_results) \<and>
   min 0.85 (0.6 + \<bar>ma_diff_pct_last falling_results\<bar> * 5) \<le> mo_confidence falling_results \<and>
   mo_confidence falling_results \<le> 0.85"
proof -
  have en: "momentum_enabled example_profile" by (simp add: example_profile_def)
  have ne: "rows falling_frame \<noteq> []" by (simp add: falling_frame_def)
  have slow: "slow_period example_profile \<le> length (map ultimo (rows falling_frame))"
    by code_simp
  from momentum_cross_detection[OF en ne refl refl refl refl] slow
  obtain r where r: "analyze_momentum example_profile (Some falling_frame) = Valid r"
    and golden: "signal Compra Golden_Cross \<in> set (mo_signals r) \<longleftrightarrow>
        3 \<le> length (map ultimo (rows falling_frame)) \<and>
        ma_diff example_profile (map ultimo (rows falling_frame))
          (length (map ultimo (rows falling_frame)) - 2) \<le> 0 \<and>
        0 < ma_diff example_profile (map ultimo (rows falling_frame))
          (length (map ultimo (rows falling_frame)) - 1)"
    and death: "signal Venda Death_Cross \<in> set (mo_signals r) \<longleftrightarrow>
        3 \<le> length (map ultimo (rows falling_frame)) \<and>
        0 \<le> ma_diff example_profile (map ultimo (rows falling_frame))
          (length (map ultimo (rows falling_frame)) - 2) \<and>
        ma_diff example_profile (map ultimo (rows falling_frame))
          (length (map ultimo (rows falling_frame)) - 1) < 0"
    and conf: "3 \<le> length (map ultimo (rows falling_frame)) \<and>
        ((ma_diff example_profile (map ultimo (rows falling_frame))
            (length (map ultimo (rows falling_frame)) - 2) \<le> 0 \<and>
          0 < ma_diff example_profile (map ultimo (rows falling_frame))
            (length (map ultimo (rows falling_frame)) - 1)) \<or>
         (0 \<le> ma_diff example_profile (map ultimo (rows falling_frame))
            (length (map ultimo (rows falling_frame)) - 2) \<and>
          ma_diff example_profile (map ultimo (rows falling_frame))
            (length (map ultimo (rows falling_frame)) - 1) < 0)) \<longrightarrow>
        min 0.85 (0.6 + \<bar>ma_diff_pct_last r\<bar> * 5) \<le> mo_confidence r \<and>
        mo_confidence r \<le> 0.85 \<and>
        (length (mo_signals r) = 1 \<longrightarrow>
           mo_confidence r = min 0.85 (0.6 + \<bar>ma_diff_pct_last r\<bar> * 5))"
    by blast
  from r falling_analysis have eq: "r = falling_results" by simp
  have d: "0 \<le> ma_diff example_profile (map ultimo (rows falling_frame))
            (length (map ultimo (rows falling_frame)) - 2)"
       "ma_diff example_profile (map ultimo (rows falling_frame))
            (length (map ultimo (rows falling_frame)) - 1) < 0"
       "\<not> 0 < ma_diff example_profile (map ultimo (rows falling_frame))
            (length (map ultimo (rows falling_frame)) - 1)"
       "3 \<le> length (map ultimo (rows falling_frame))"
    by code_simp+
  from golden death conf d have
    "signal Venda Death_Cross \<in> set (mo_signals r)"
    "signal Compra Golden_Cross \<notin> set (mo_signals r)"
    "min 0.85 (0.6 + \<bar>ma_diff_pct_last r\<bar> * 5) \<le> mo_confidence r"
    "mo_confidence r \<le> 0.85"
    by blast+
  with en ne slow falling_analysis show ?thesis unfolding eq by blast
qed

text \<open>
  Against claim C9 as it is worded. On the ten bars whose highs are missing the support
  is 100 and the resistance 0; the last price of 101 has the position
  (101 - 100) / (0 - 100) = -1/100, below 0.3, and nine bars fall on rising volume. The
  source takes a position only in a range of positive width: the result has no phase, no
  microsignal and confidence 0.
\<close>

theorem missing_highs_counterexample:
  "wyckoff_enabled example_profile \<and> 10 \<le> length (rows unbounded_frame) \<and>
   analyze_wyckoff example_profile (Some unbounded_frame) = Valid unbounded_results \<and>
   mean (take 3 (sort (map minimo (tail 20 (rows unbounded_frame))))) = 100 \<and>
   mean (take 3 (rev (sort (map maximo (tail 20 (rows unbounded_frame)))))) = 0 \<and>
   support_level unbounded_results = Some 100 \<and>
   resistance_level unbounded_results = Some 0 \<and>
   ultimo (last (rows unbounded_frame)) = 101 \<and>
   (ultimo (last (rows unbounded_frame)) - 100) / (0 - 100) = - (1 / 100) \<and>
   (ultimo (last (rows unbounded_frame)) - 100) / (0 - 100) < 0.3 \<and>
   spec_accumulation_tells (rows unbounded_frame) = 9 \<and>
   accumulation_count unbounded_results = 9 \<and>
   wk_phase unbounded_results = None \<and>
   wk_signals unbounded_results = [] \<and>
   wk_confidence unbounded_results = 0"
  by code_simp

lemma declining_facts:
  "wyckoff_enabled example_profile \<and> 10 \<le> length (rows declining_frame) \<and>
   support_of (rows declining_frame) = 101 \<and> resistance_of (rows declining_frame) = 110 \<and>
   ultimo (last (rows declining_frame)) = 101 \<and>
   has_column declining_frame ''volume'' \<and>
   (\<forall>b \<in> set (rows declining_frame). 0 < ultimo b \<and> 0 \<le> volume b) \<and>
   spec_accumulation_tells (rows declining_frame) = 9 \<and>
   mean (take 3 (sort (map minimo (tail 20 (rows declining_frame))))) = 101 \<and>
   mean (take 3 (rev (sort (map maximo (tail 20 (rows declining_frame)))))) = 110"
  by code_simp

theorem accumulation_witness:
  "wyckoff_enabled example_profile \<and> 10 \<le> length (rows declining_frame) \<and>
   (\<exists>r. analyze_wyckoff example_profile (Some declining_frame) = Valid r \<and>
        support_level r = Some 101 \<and> resistance_level r = Some 110 \<and>
        accumulation_count r = 9 \<and> wk_phase r = Some Acumulacao \<and>
        signal Compra Acumulacao_proxima_ao_suporte \<in> set (wk_signals r) \<and>
        wk_confidence r = 0.7)"
proof -
  note f = declining_facts
  from f have en: "wyckoff_enabled example_profile" and len: "10 \<le> length (rows declining_frame)"
    by simp_all
  from accumulation_phase[OF en len]
  obtain r where r: "analyze_wyckoff example_profile (Some declining_frame) = Valid r"
    and sup: "support_level r =
        Some (mean (take 3 (sort (map minimo (tail 20 (rows declining_frame))))))"
    and res: "resistance_level r =
        Some (mean (take 3 (rev (sort (map maximo (tail 20 (rows declining_frame)))))))"
    and ph: "support_of (rows declining_frame) < resistance_of (rows declining_frame) \<and>
        (ultimo (last (rows declining_frame)) - support_of (rows declining_frame)) /
          (resistance_of (rows declining_frame) - support_of (rows declining_frame)) < 0.3 \<and>
        5 < accumulation_count r \<longrightarrow>
          wk_phase r = Some Acumulacao \<and>
          signal Compra Acumulacao_proxima_ao_suporte \<in> set (wk_signals r) \<and>
          wk_confidence r = 0.7"
    and tells: "has_column declining_frame ''volume'' \<and>
        (\<forall>b \<in> set (rows declining_frame). 0 < ultimo b \<and> 0 \<le> volume b) \<longrightarrow>
          accumulation_count r = spec_accumulation_tells (rows declining_frame)"
    by blast
  from tells f have cnt: "accumulation_count r = 9" by simp
  have pre: "support_of (rows declining_frame) < resistance_of (rows declining_frame) \<and>
        (ultimo (last (rows declining_frame)) - support_of (rows declining_frame)) /
          (resistance_of (rows declining_frame) - support_of (rows declining_frame)) < 0.3 \<and>
        5 < accumulation_count r"
    using f cnt by simp
  from ph pre have phase: "wk_phase r = Some Acumulacao"
    "signal Compra Acumulacao_proxima_ao_suporte \<in> set (wk_signals r)" "wk_confidence r = 0.7"
    by blast+
  from sup res f have lv: "support_level r = Some 101" "resistance_level r = Some 110"
    by simp_all
  from en len r lv cnt phase show ?thesis by blast
qed

end
